theory Spec2Isabelle
  imports Main
begin

section \<open>Python values and exceptions\<close>

text \<open>
  The code of \<^verbatim>\<open>multilspy_config.py\<close> and \<^verbatim>\<open>eclipse_jdtls.py\<close> works on the
  dynamically typed values that \<^verbatim>\<open>json.load\<close> and the language server produce.
  They are modelled by the datatype \<open>json\<close>; a Python \<^verbatim>\<open>dict\<close> is an association
  list in insertion order. JSON numbers are integers here (no floating point).
  A raised exception is a value of type \<open>error\<close>; a function that can raise returns
  \<open>error + 'a\<close> with \<open>Inl\<close> for the exception. An \<^verbatim>\<open>assert\<close> statement
  raises \<^verbatim>\<open>AssertionError\<close> with its message, or with none: assertions are enabled,
  as the interpreter has them by default.
\<close>

datatype json =
    JNull
  | JBool bool
  | JInt int
  | JStr string
  | JList "json list"
  | JObj "(string \<times> json) list"

type_synonym dict = "(string \<times> json) list"

datatype error =
    ValueError string
  | KeyError string
  | TypeError string
  | AttributeError string
  | AssertionError string
  | FileNotFoundError string
  | JSONDecodeError string
  | MultilspyException string
  | OtherError string

definition and_then :: "error + 'a \<Rightarrow> ('a \<Rightarrow> error + 'b) \<Rightarrow> error + 'b" where
  "and_then m f = (case m of Inl e \<Rightarrow> Inl e | Inr x \<Rightarrow> f x)"

definition quoted :: "string \<Rightarrow> string" where
  "quoted s = CHR 0x27 # s @ [CHR 0x27]"

subsection \<open>Dictionary operations\<close>

definition dict_get :: "dict \<Rightarrow> string \<Rightarrow> json option" where
  "dict_get d k = map_of d k"

definition dict_has :: "dict \<Rightarrow> string \<Rightarrow> bool" where
  "dict_has d k = (dict_get d k \<noteq> None)"

text \<open>\<^verbatim>\<open>d[k] = v\<close>: an existing key keeps its position, a new key is appended.\<close>

fun dict_set :: "string \<Rightarrow> json \<Rightarrow> dict \<Rightarrow> dict" where
  "dict_set k v [] = [(k, v)]"
| "dict_set k v ((k', v') # d) = (if k' = k then (k, v) # d else (k', v') # dict_set k v d)"

text \<open>\<^verbatim>\<open>{**a, **b}\<close>: the entries of \<open>b\<close> are stored into a copy of \<open>a\<close>, in order.\<close>

definition dict_merge :: "dict \<Rightarrow> dict \<Rightarrow> dict" where
  "dict_merge a b = fold (\<lambda>(k, v). dict_set k v) b a"

subsection \<open>Operations of Python on these values\<close>

text \<open>
  \<^verbatim>\<open>x[k]\<close> with a string key: a dictionary looks the key up and raises
  \<^verbatim>\<open>KeyError\<close> when it is absent; every other value raises \<^verbatim>\<open>TypeError\<close>
  (a list or string wants an integer index, the rest is not subscriptable).
\<close>

fun py_getitem :: "json \<Rightarrow> string \<Rightarrow> error + json" where
  "py_getitem (JObj d) k = (case dict_get d k of None \<Rightarrow> Inl (KeyError k) | Some v \<Rightarrow> Inr v)"
| "py_getitem _ k = Inl (TypeError ''subscript'')"

fun is_substring :: "string \<Rightarrow> string \<Rightarrow> bool" where
  "is_substring k [] = (k = [])"
| "is_substring k (c # cs) = (take (length k) (c # cs) = k \<or> is_substring k cs)"

text \<open>
  \<^verbatim>\<open>k in x\<close> for a string \<open>k\<close>: a key of a dictionary, an element of a list, a
  substring of a string; \<^verbatim>\<open>TypeError\<close> for a value that is not iterable.
\<close>

fun py_contains :: "string \<Rightarrow> json \<Rightarrow> error + bool" where
  "py_contains k (JObj d) = Inr (dict_has d k)"
| "py_contains k (JList xs) = Inr (JStr k \<in> set xs)"
| "py_contains k (JStr s) = Inr (is_substring k s)"
| "py_contains k _ = Inl (TypeError ''not iterable'')"

text \<open>\<^verbatim>\<open>for y in x\<close>: the elements of a list, the keys of a dictionary, the characters of a string.\<close>

fun py_iter :: "json \<Rightarrow> error + json list" where
  "py_iter (JList xs) = Inr xs"
| "py_iter (JObj d) = Inr (map (\<lambda>(k, v). JStr k) d)"
| "py_iter (JStr s) = Inr (map (\<lambda>c. JStr [c]) s)"
| "py_iter _ = Inl (TypeError ''not iterable'')"

text \<open>Truth value of a value, as \<^verbatim>\<open>if x\<close> and \<^verbatim>\<open>assert x\<close> take it.\<close>

fun py_truthy :: "json \<Rightarrow> bool" where
  "py_truthy JNull = False"
| "py_truthy (JBool b) = b"
| "py_truthy (JInt i) = (i \<noteq> 0)"
| "py_truthy (JStr s) = (s \<noteq> [])"
| "py_truthy (JList xs) = (xs \<noteq> [])"
| "py_truthy (JObj d) = (d \<noteq> [])"

text \<open>\<^verbatim>\<open>x == n\<close> for an integer literal \<open>n\<close>: \<^verbatim>\<open>True\<close> and \<^verbatim>\<open>False\<close> are the integers 1 and 0.\<close>

fun py_eq_int :: "json \<Rightarrow> int \<Rightarrow> bool" where
  "py_eq_int (JInt i) n = (i = n)"
| "py_eq_int (JBool b) n = ((if b then 1 else 0) = n)"
| "py_eq_int _ n = False"

text \<open>Truth value of an optional string or dictionary: \<^verbatim>\<open>None\<close> and the empty one are false.\<close>

fun opt_truthy :: "'a list option \<Rightarrow> bool" where
  "opt_truthy None = False"
| "opt_truthy (Some xs) = (xs \<noteq> [])"

section \<open>Languages and language servers\<close>

datatype Language = CSHARP | PYTHON | RUST | JAVA

fun Language_str :: "Language \<Rightarrow> string" where
  "Language_str CSHARP = ''csharp''"
| "Language_str PYTHON = ''python''"
| "Language_str RUST = ''rust''"
| "Language_str JAVA = ''java''"

datatype LanguageServers = JEDI | ECLIPSEJDTLS | RUSTANALYZER | OMNISHARP

fun LanguageServers_str :: "LanguageServers \<Rightarrow> string" where
  "LanguageServers_str JEDI = ''JediServer''"
| "LanguageServers_str ECLIPSEJDTLS = ''EclipseJDTLS''"
| "LanguageServers_str RUSTANALYZER = ''RustAnalyzer''"
| "LanguageServers_str OMNISHARP = ''OmniSharp''"

text \<open>The servers registered for a language: the four local lists of \<^verbatim>\<open>validate_language_server\<close>.\<close>

fun registered_servers :: "Language \<Rightarrow> LanguageServers list" where
  "registered_servers PYTHON = [JEDI]"
| "registered_servers JAVA = [ECLIPSEJDTLS]"
| "registered_servers RUST = [RUSTANALYZER]"
| "registered_servers CSHARP = [OMNISHARP]"

definition invalid_server_message :: "LanguageServers \<Rightarrow> Language \<Rightarrow> string" where
  "invalid_server_message s l =
     ''Invalid language server '' @ quoted (LanguageServers_str s)
       @ '' for code language '' @ quoted (Language_str l)"

text \<open>
  \<^verbatim>\<open>validate_language_server(code_language, language_server)\<close>, lines 48 to 68: the
  \<^verbatim>\<open>if\<close>/\<^verbatim>\<open>elif\<close> chain in the order of the source.
\<close>

definition validate_language_server ::
    "Language \<Rightarrow> LanguageServers option \<Rightarrow> error + LanguageServers option" where
  "validate_language_server code_language language_server =
     (case language_server of
        None \<Rightarrow> Inr language_server
      | Some s \<Rightarrow>
          if code_language = PYTHON \<and> s \<notin> set [JEDI]
            then Inl (ValueError (invalid_server_message s code_language))
          else if code_language = JAVA \<and> s \<notin> set [ECLIPSEJDTLS]
            then Inl (ValueError (invalid_server_message s code_language))
          else if code_language = RUST \<and> s \<notin> set [RUSTANALYZER]
            then Inl (ValueError (invalid_server_message s code_language))
          else if code_language = CSHARP \<and> s \<notin> set [OMNISHARP]
            then Inl (ValueError (invalid_server_message s code_language))
          else Inr language_server)"

section \<open>The configuration\<close>

text \<open>
  \<^verbatim>\<open>RuntimeDependencyPaths\<close> is declared in \<^verbatim>\<open>multilspy_types\<close>; its fields are those
  of the constructor call at the end of \<^verbatim>\<open>setupRuntimeDependencies\<close>.
\<close>

record RuntimeDependencyPaths =
  gradle_path :: string
  lombok_jar_path :: string
  jre_path :: string
  jre_home_path :: string
  jdtls_launcher_jar_path :: string
  jdtls_readonly_config_path :: string
  intellicode_jar_path :: string
  intellisense_members_path :: string

text \<open>
  The dataclass \<^verbatim>\<open>MultilspyConfig\<close>. An \<^verbatim>\<open>Optional\<close> field is an \<open>option\<close>;
  \<^verbatim>\<open>custom_init_params_file\<close> is the path as a string.
\<close>

record MultilspyConfig =
  code_language :: Language
  trace_lsp_communication :: bool
  language_server :: "LanguageServers option"
  custom_init_params_file :: "string option"
  init_params_overrides :: "dict option"
  repository_absolute_path :: "string option"

text \<open>
  Constructing a \<^verbatim>\<open>MultilspyConfig\<close>: the \<^verbatim>\<open>__init__\<close> that \<^verbatim>\<open>@dataclass\<close>
  generates stores its arguments in the fields. The class defines no
  \<^verbatim>\<open>__post_init__\<close>, and the \<^verbatim>\<open>metadata\<close> mapping of a field (line 83, which holds
  \<^verbatim>\<open>validate_language_server\<close> under the key \<^verbatim>\<open>"validator"\<close>) is data that the
  generated \<^verbatim>\<open>__init__\<close> never reads or calls. So construction has no failing branch.
\<close>

definition MultilspyConfig_init ::
    "Language \<Rightarrow> bool \<Rightarrow> LanguageServers option \<Rightarrow> string option \<Rightarrow> dict option
       \<Rightarrow> string option \<Rightarrow> error + MultilspyConfig" where
  "MultilspyConfig_init cl tr ls cf ov rp =
     Inr \<lparr>code_language = cl, trace_lsp_communication = tr, language_server = ls,
          custom_init_params_file = cf, init_params_overrides = ov,
          repository_absolute_path = rp\<rparr>"

section \<open>Operating system and library\<close>

text \<open>
  What the code asks of the operating system and of the Python library is a parameter
  of the model: the path functions of \<^verbatim>\<open>os.path\<close> and \<^verbatim>\<open>pathlib\<close>, the process
  identifier, the directory of the module, and the result of opening a file and parsing
  it with \<^verbatim>\<open>json.load\<close>.
\<close>

datatype file_result = NoSuchFile | NotJSON string | Contents json

record os_env =
  module_dir :: string
  os_path_join :: "string \<Rightarrow> string \<Rightarrow> string"
  os_path_isabs :: "string \<Rightarrow> bool"
  os_path_abspath :: "string \<Rightarrow> string"
  os_path_basename :: "string \<Rightarrow> string"
  os_path_exists :: "string \<Rightarrow> bool"
  Path_as_uri :: "string \<Rightarrow> string option"
  os_getpid :: int
  json_load :: "string \<Rightarrow> file_result"

text \<open>
  \<^verbatim>\<open>pathlib.Path(p).as_uri()\<close> raises \<^verbatim>\<open>ValueError\<close> for a path that has no
  URI (a relative one); \<open>Path_as_uri\<close> is \<open>None\<close> there.
\<close>

definition as_uri :: "os_env \<Rightarrow> string \<Rightarrow> error + string" where
  "as_uri env p =
     (case Path_as_uri env p of
        None \<Rightarrow> Inl (ValueError ''relative path cannot be expressed as a file URI'')
      | Some u \<Rightarrow> Inr u)"

definition no_such_file_message :: "string \<Rightarrow> string" where
  "no_such_file_message p = ''[Errno 2] No such file or directory: '' @ quoted p"

section \<open>Initialization parameters\<close>

text \<open>
  \<^verbatim>\<open>default_language_server_init_params_file\<close>, lines 31 to 46. The final
  \<^verbatim>\<open>else\<close> (an unsupported language) has no value of the enumeration to reach it.
\<close>

fun default_init_params_relative_path :: "Language \<Rightarrow> string" where
  "default_init_params_relative_path PYTHON = ''language_servers/jedi_language_server/initialize_params.json''"
| "default_init_params_relative_path JAVA = ''language_servers/eclipse_jdtls/initialize_params.json''"
| "default_init_params_relative_path RUST = ''language_servers/rust_analyzer/initialize_params.json''"
| "default_init_params_relative_path CSHARP = ''language_servers/omnisharp/initialize_params.json''"

definition default_language_server_init_params_file :: "os_env \<Rightarrow> Language \<Rightarrow> string" where
  "default_language_server_init_params_file env language =
     os_path_join env (module_dir env) (default_init_params_relative_path language)"

text \<open>
  \<^verbatim>\<open>InitializeParams(**x)\<close>: the type is a typed dictionary of \<^verbatim>\<open>lsp_types\<close>,
  so a mapping gives the dictionary with its keys; anything else is a \<^verbatim>\<open>TypeError\<close>.
\<close>

fun InitializeParams :: "json \<Rightarrow> error + dict" where
  "InitializeParams (JObj d) = Inr d"
| "InitializeParams _ = Inl (TypeError ''argument after ** must be a mapping'')"

text \<open>
  \<^verbatim>\<open>_read_default_init_params\<close>, lines 159 to 172: a missing file and a file that
  is not JSON are caught and raised again as \<^verbatim>\<open>MultilspyException\<close>.
\<close>

definition default_read_error :: "string \<Rightarrow> string" where
  "default_read_error detail = ''Error reading default initialization parameters file: '' @ detail"

definition read_default_init_params :: "os_env \<Rightarrow> ('a MultilspyConfig_scheme) \<Rightarrow> error + dict" where
  "read_default_init_params env self =
     (let default_init_params_file = default_language_server_init_params_file env (code_language self)
      in case json_load env default_init_params_file of
           NoSuchFile \<Rightarrow>
             Inl (MultilspyException (default_read_error (no_such_file_message default_init_params_file)))
         | NotJSON msg \<Rightarrow> Inl (MultilspyException (default_read_error msg))
         | Contents default_params \<Rightarrow> InitializeParams default_params)"

text \<open>
  \<^verbatim>\<open>_read_custom_init_params\<close>, lines 174 to 190: only the JSON error is caught;
  a missing file raises \<^verbatim>\<open>FileNotFoundError\<close>.
\<close>

definition custom_read_error :: "string \<Rightarrow> string" where
  "custom_read_error detail = ''Error reading custom initialization parameters file: '' @ detail"

definition read_custom_init_params :: "os_env \<Rightarrow> ('a MultilspyConfig_scheme) \<Rightarrow> error + dict" where
  "read_custom_init_params env self =
     (if opt_truthy (custom_init_params_file self) then
        (case json_load env (the (custom_init_params_file self)) of
           NoSuchFile \<Rightarrow>
             Inl (FileNotFoundError (no_such_file_message (the (custom_init_params_file self))))
         | NotJSON msg \<Rightarrow> Inl (MultilspyException (custom_read_error msg))
         | Contents custom_params \<Rightarrow> InitializeParams custom_params)
      else Inr [])"

definition unresolved_rootPath_message :: string where
  "unresolved_rootPath_message =
     ''rootPath is set to `$rootPath` in initialization parameters and `repository_absolute_path` not provided in the configuration''"

text \<open>The folder entry built at lines 144 to 149 and again at lines 240 to 245.\<close>

definition workspace_folder :: "os_env \<Rightarrow> string \<Rightarrow> error + json" where
  "workspace_folder env path =
     and_then (as_uri env path) (\<lambda>uri.
       Inr (JList [JObj [(''uri'', JStr uri), (''name'', JStr (os_path_basename env path))]]))"

text \<open>
  Lines 141 to 149: the repository path replaces \<^verbatim>\<open>rootPath\<close> and \<^verbatim>\<open>rootUri\<close>,
  and \<^verbatim>\<open>workspaceFolders\<close> when that key is present.
\<close>

definition patch_repository_path :: "os_env \<Rightarrow> string \<Rightarrow> dict \<Rightarrow> error + dict" where
  "patch_repository_path env path init_params =
     (let p1 = dict_set ''rootPath'' (JStr path) init_params
      in and_then (as_uri env path) (\<lambda>uri.
           let p2 = dict_set ''rootUri'' (JStr uri) p1
           in if dict_has p2 ''workspaceFolders''
              then and_then (workspace_folder env path) (\<lambda>folders.
                     Inr (dict_set ''workspaceFolders'' folders p2))
              else Inr p2))"

text \<open>
  Lines 132 to 138: with a custom file the parameters are read from it and the default
  file is not opened; the overrides are merged over them key by key.
\<close>

definition merged_init_params :: "os_env \<Rightarrow> ('a MultilspyConfig_scheme) \<Rightarrow> error + dict" where
  "merged_init_params env self =
     and_then (if opt_truthy (custom_init_params_file self)
               then read_custom_init_params env self
               else read_default_init_params env self) (\<lambda>init_params.
       if opt_truthy (init_params_overrides self)
       then Inr (dict_merge init_params (the (init_params_overrides self)))
       else Inr init_params)"

text \<open>
  Lines 140 to 153: the repository path is patched in when it is given (a path that is
  \<^verbatim>\<open>None\<close> or empty counts as not given); without it the placeholder is refused.
\<close>

definition resolve_root :: "os_env \<Rightarrow> ('a MultilspyConfig_scheme) \<Rightarrow> dict \<Rightarrow> error + dict" where
  "resolve_root env self init_params =
     (if opt_truthy (repository_absolute_path self)
      then patch_repository_path env (the (repository_absolute_path self)) init_params
      else and_then (py_getitem (JObj init_params) ''rootPath'') (\<lambda>root.
             if root = JStr ''$rootPath''
             then Inl (MultilspyException unresolved_rootPath_message)
             else Inr init_params))"

text \<open>
  \<^verbatim>\<open>MultilspyConfig.get_initialization_params\<close>, lines 121 to 157:
  \<^verbatim>\<open>processId\<close> is stored last. The method reads files and the process
  identifier and does nothing else to the outside.
\<close>

definition get_initialization_params :: "os_env \<Rightarrow> ('a MultilspyConfig_scheme) \<Rightarrow> error + dict" where
  "get_initialization_params env self =
     and_then (merged_init_params env self) (\<lambda>init_params.
     and_then (resolve_root env self init_params) (\<lambda>patched.
       Inr (dict_set ''processId'' (JInt (os_getpid env)) patched)))"

text \<open>
  The chain as the docstring of the method and the interface description state it:
  the default parameters, merged with the custom file's, merged with the overrides,
  then the root and the process identifier as above.
\<close>

definition claimed_merged_init_params :: "os_env \<Rightarrow> ('a MultilspyConfig_scheme) \<Rightarrow> error + dict" where
  "claimed_merged_init_params env self =
     and_then (read_default_init_params env self) (\<lambda>default_params.
     and_then (read_custom_init_params env self) (\<lambda>custom_params.
       let init_params = dict_merge default_params custom_params
       in if opt_truthy (init_params_overrides self)
          then Inr (dict_merge init_params (the (init_params_overrides self)))
          else Inr init_params))"

definition claimed_get_initialization_params :: "os_env \<Rightarrow> ('a MultilspyConfig_scheme) \<Rightarrow> error + dict" where
  "claimed_get_initialization_params env self =
     and_then (claimed_merged_init_params env self) (\<lambda>init_params.
     and_then (resolve_root env self init_params) (\<lambda>patched.
       Inr (dict_set ''processId'' (JInt (os_getpid env)) patched)))"

section \<open>Initialization parameters of the Java backend\<close>

record EclipseJDTLSConfig = MultilspyConfig +
  runtime_dependency_paths :: "RuntimeDependencyPaths option"

text \<open>
  A nested store such as
  \<^verbatim>\<open>d["a"].setdefault("b", {})["k"] = v\<close>: the path to the dictionary that receives
  the key is a list of subscripts and \<^verbatim>\<open>setdefault\<close> calls. A subscript of an absent
  key raises \<^verbatim>\<open>KeyError\<close>; \<^verbatim>\<open>setdefault\<close> inserts an empty dictionary for an
  absent key and returns the present value otherwise. A value on the path that is not a
  dictionary fails at the operation applied to it: \<^verbatim>\<open>AttributeError\<close> for
  \<^verbatim>\<open>setdefault\<close>, \<^verbatim>\<open>TypeError\<close> for a subscript or a store.
\<close>

datatype nav = Subscript string | SetDefault string

fun non_dict_error :: "nav list \<Rightarrow> error" where
  "non_dict_error (SetDefault p # ps) = AttributeError ''setdefault''"
| "non_dict_error (Subscript p # ps) = TypeError ''subscript''"
| "non_dict_error [] = TypeError ''item assignment''"

fun update_at :: "nav list \<Rightarrow> string \<Rightarrow> json \<Rightarrow> dict \<Rightarrow> error + dict" where
  "update_at [] k v d = Inr (dict_set k v d)"
| "update_at (Subscript p # ps) k v d =
     (case dict_get d p of
        None \<Rightarrow> Inl (KeyError p)
      | Some (JObj sub) \<Rightarrow>
          and_then (update_at ps k v sub) (\<lambda>sub'. Inr (dict_set p (JObj sub') d))
      | Some _ \<Rightarrow> Inl (non_dict_error ps))"
| "update_at (SetDefault p # ps) k v d =
     (case dict_get d p of
        None \<Rightarrow> and_then (update_at ps k v []) (\<lambda>sub'. Inr (dict_set p (JObj sub') d))
      | Some (JObj sub) \<Rightarrow>
          and_then (update_at ps k v sub) (\<lambda>sub'. Inr (dict_set p (JObj sub') d))
      | Some _ \<Rightarrow> Inl (non_dict_error ps))"

text \<open>A chain of subscripts \<^verbatim>\<open>x[k1][k2]...\<close> that is read.\<close>

fun get_path :: "string list \<Rightarrow> json \<Rightarrow> error + json" where
  "get_path [] x = Inr x"
| "get_path (k # ks) x = and_then (py_getitem x k) (get_path ks)"

text \<open>The three assertions of the loop at lines 254 to 257, for one runtime entry.\<close>

definition runtime_missing_message :: "string \<Rightarrow> string" where
  "runtime_missing_message p = ''Runtime required for eclipse_jdtls at path '' @ p @ '' does not exist''"

definition check_runtime :: "os_env \<Rightarrow> json \<Rightarrow> error + unit" where
  "check_runtime env runtime =
     and_then (py_contains ''name'' runtime) (\<lambda>has_name.
       if \<not> has_name then Inl (AssertionError [])
       else and_then (py_contains ''path'' runtime) (\<lambda>has_path.
         if \<not> has_path then Inl (AssertionError [])
         else and_then (py_getitem runtime ''path'') (\<lambda>p.
           case p of
             JStr path \<Rightarrow>
               if os_path_exists env path then Inr ()
               else Inl (AssertionError (runtime_missing_message path))
           | _ \<Rightarrow> Inl (TypeError ''path''))))"

fun check_runtimes :: "os_env \<Rightarrow> json list \<Rightarrow> error + unit" where
  "check_runtimes env [] = Inr ()"
| "check_runtimes env (r # rs) = and_then (check_runtime env r) (\<lambda>_. check_runtimes env rs)"

text \<open>Lines 247 to 260: the settings stored when \<^verbatim>\<open>runtime_dependency_paths\<close> is given.\<close>

definition runtime_settings :: "os_env \<Rightarrow> RuntimeDependencyPaths \<Rightarrow> dict \<Rightarrow> error + dict" where
  "runtime_settings env paths init_params =
     and_then (update_at [Subscript ''initializationOptions''] ''bundles''
                 (JList [JStr (intellicode_jar_path paths)]) init_params) (\<lambda>p1.
     and_then (update_at [Subscript ''initializationOptions'', SetDefault ''settings'',
                   SetDefault ''java'', SetDefault ''configuration''] ''runtimes''
                 (JList [JObj [(''name'', JStr ''JavaSE-17''),
                               (''path'', JStr (jre_home_path paths)),
                               (''default'', JBool True)]]) p1) (\<lambda>p2.
     and_then (get_path [''initializationOptions'', ''settings'', ''java'', ''configuration'',
                   ''runtimes''] (JObj p2)) (\<lambda>runtimes.
     and_then (py_iter runtimes) (\<lambda>rs.
     and_then (check_runtimes env rs) (\<lambda>_.
     and_then (update_at [Subscript ''initializationOptions'', SetDefault ''settings'',
                   SetDefault ''java'', SetDefault ''import'', SetDefault ''gradle''] ''home''
                 (JStr (gradle_path paths)) p2) (\<lambda>p3.
     update_at [Subscript ''initializationOptions'', Subscript ''settings'', Subscript ''java'',
         Subscript ''import'', Subscript ''gradle'', SetDefault ''java''] ''home''
       (JStr (jre_path paths)) p3))))))"

text \<open>
  \<^verbatim>\<open>EclipseJDTLSConfig.get_initialization_params\<close>, lines 230 to 262. The method
  stores the absolute path back into \<^verbatim>\<open>self.repository_absolute_path\<close>, so the model
  returns the configuration after the call beside the result.
  \<^verbatim>\<open>os.path.isabs(None)\<close> raises \<^verbatim>\<open>TypeError\<close>.
\<close>

definition isabs_None_message :: string where
  "isabs_None_message = ''expected str, bytes or os.PathLike object, not NoneType''"

definition java_patch :: "os_env \<Rightarrow> EclipseJDTLSConfig \<Rightarrow> string \<Rightarrow> dict \<Rightarrow> error + dict" where
  "java_patch env self path init_params0 =
     (let init_params = (if \<not> dict_has init_params0 ''initializationOptions''
                         then dict_set ''initializationOptions'' (JObj []) init_params0
                         else init_params0)
      in and_then (as_uri env path) (\<lambda>uri.
         and_then (update_at [Subscript ''initializationOptions''] ''workspaceFolders''
                     (JList [JStr uri]) init_params) (\<lambda>p1.
         and_then (workspace_folder env path) (\<lambda>folders.
           let p2 = dict_set ''workspaceFolders'' folders p1
           in case runtime_dependency_paths self of
                None \<Rightarrow> Inr p2
              | Some paths \<Rightarrow> runtime_settings env paths p2))))"

definition EclipseJDTLSConfig_get_initialization_params ::
    "os_env \<Rightarrow> EclipseJDTLSConfig \<Rightarrow> (error + dict) \<times> EclipseJDTLSConfig" where
  "EclipseJDTLSConfig_get_initialization_params env self =
     (case get_initialization_params env self of
        Inl e \<Rightarrow> (Inl e, self)
      | Inr init_params \<Rightarrow>
          (case repository_absolute_path self of
             None \<Rightarrow> (Inl (TypeError isabs_None_message), self)
           | Some p \<Rightarrow>
               let path = (if \<not> os_path_isabs env p then os_path_abspath env p else p);
                   self' = self\<lparr>repository_absolute_path := Some path\<rparr>
               in (java_patch env self' path init_params, self')))"

section \<open>Provisioning the runtime dependencies\<close>

text \<open>
  The file system is a map from a path to the permission bits of the entry there; a
  path exists when the map is defined on it. Besides the file system the model keeps a
  trace of what \<^verbatim>\<open>setupRuntimeDependencies\<close> does to the outside: loading the
  manifest, reading an artifact entry of it, creating directories, downloading and
  extracting an archive, changing permission bits.
\<close>

type_synonym filesystem = "string \<Rightarrow> nat option"

datatype action =
    LoadManifest string
  | ReadEntry string string
  | MakeDirs string
  | Download json string json
  | Chmod string nat

record world =
  files :: filesystem
  trace :: "action list"

text \<open>
  What the method takes from outside this file: the platform identifier of
  \<^verbatim>\<open>PlatformUtils.get_platform_id()\<close>, the directory of the module and its absolute
  form, \<^verbatim>\<open>str(PurePath(...))\<close> and its \<^verbatim>\<open>parent\<close>, the ancestors of a path and the
  permission bits of a new directory (for \<^verbatim>\<open>os.makedirs\<close>), the parsed manifest file,
  and \<^verbatim>\<open>FileUtils.download_and_extract_archive\<close>, which fails or changes the file
  system. Of the failures of the operating system only the missing path is modelled
  (no refused permission, no file where a directory is expected).
\<close>

record provision_env =
  platform_id :: string
  jdtls_dir :: string
  jdtls_dir_abs :: string
  PurePath :: "string list \<Rightarrow> string"
  PurePath_parent :: "string \<Rightarrow> string"
  path_ancestors :: "string \<Rightarrow> string list"
  dir_mode :: nat
  load_manifest :: "string \<Rightarrow> file_result"
  download_and_extract_archive :: "json \<Rightarrow> string \<Rightarrow> json \<Rightarrow> filesystem \<Rightarrow> error + filesystem"

text \<open>\<^verbatim>\<open>stat.S_IEXEC\<close> is octal 100.\<close>

definition S_IEXEC :: nat where
  "S_IEXEC = 64"

text \<open>A step either raises or returns a value, and leaves a world behind in both cases.\<close>

type_synonym 'a prov = "world \<Rightarrow> (error + 'a) \<times> world"

definition pbind :: "'a prov \<Rightarrow> ('a \<Rightarrow> 'b prov) \<Rightarrow> 'b prov" where
  "pbind m f w = (case m w of (Inl e, w') \<Rightarrow> (Inl e, w') | (Inr x, w') \<Rightarrow> f x w')"

definition lift_result :: "error + 'a \<Rightarrow> 'a prov" where
  "lift_result r w = (r, w)"

definition emit :: "action \<Rightarrow> unit prov" where
  "emit a w = (Inr (), w\<lparr>trace := trace w @ [a]\<rparr>)"

definition path_exists :: "string \<Rightarrow> bool prov" where
  "path_exists p w = (Inr (files w p \<noteq> None), w)"

text \<open>\<^verbatim>\<open>assert os.path.exists(p)\<close>, an assertion without a message.\<close>

definition assert_exists :: "string \<Rightarrow> unit prov" where
  "assert_exists p w = (if files w p \<noteq> None then Inr () else Inl (AssertionError []), w)"

text \<open>
  \<^verbatim>\<open>os.makedirs(p, exist_ok=True)\<close>: the missing ancestors and the directory itself
  are created; what exists is kept.
\<close>

definition makedirs :: "provision_env \<Rightarrow> string \<Rightarrow> filesystem \<Rightarrow> filesystem" where
  "makedirs env p fs =
     fold (\<lambda>q s. if s q = None then s(q \<mapsto> dir_mode env) else s) (path_ancestors env p @ [p]) fs"

definition os_makedirs :: "provision_env \<Rightarrow> string \<Rightarrow> unit prov" where
  "os_makedirs env p w =
     (Inr (), w\<lparr>files := makedirs env p (files w), trace := trace w @ [MakeDirs p]\<rparr>)"

text \<open>\<^verbatim>\<open>os.chmod(p, mode)\<close> replaces the permission bits; a missing path raises.\<close>

definition os_chmod :: "string \<Rightarrow> nat \<Rightarrow> unit prov" where
  "os_chmod p m w =
     (let w1 = w\<lparr>trace := trace w @ [Chmod p m]\<rparr>
      in case files w p of
           None \<Rightarrow> (Inl (FileNotFoundError (no_such_file_message p)), w1)
         | Some old \<Rightarrow> (Inr (), w1\<lparr>files := (files w)(p \<mapsto> m)\<rparr>))"

definition download :: "provision_env \<Rightarrow> json \<Rightarrow> string \<Rightarrow> json \<Rightarrow> unit prov" where
  "download env url target archive_type w =
     (let w1 = w\<lparr>trace := trace w @ [Download url target archive_type]\<rparr>
      in case download_and_extract_archive env url target archive_type (files w) of
           Inl e \<Rightarrow> (Inl e, w1)
         | Inr fs \<Rightarrow> (Inr (), w1\<lparr>files := fs\<rparr>))"

text \<open>
  Loading the manifest and \<^verbatim>\<open>del runtimeDependencies["_description"]\<close>, lines 138 to
  140.
\<close>

definition del_description :: "json \<Rightarrow> error + json" where
  "del_description x =
     (case x of
        JObj d \<Rightarrow> if dict_has d ''_description''
                  then Inr (JObj (filter (\<lambda>(k, v). k \<noteq> ''_description'') d))
                  else Inl (KeyError ''_description'')
      | _ \<Rightarrow> Inl (TypeError ''item deletion''))"

definition manifest_file :: "provision_env \<Rightarrow> string" where
  "manifest_file env = PurePath env [jdtls_dir env, ''runtime_dependencies.json'']"

definition parsed_manifest :: "provision_env \<Rightarrow> error + json" where
  "parsed_manifest env =
     (case load_manifest env (manifest_file env) of
        NoSuchFile \<Rightarrow> Inl (FileNotFoundError (no_such_file_message (manifest_file env)))
      | NotJSON msg \<Rightarrow> Inl (JSONDecodeError msg)
      | Contents x \<Rightarrow> del_description x)"

definition read_manifest :: "provision_env \<Rightarrow> json prov" where
  "read_manifest env =
     pbind (emit (LoadManifest (manifest_file env))) (\<lambda>_. lift_result (parsed_manifest env))"

text \<open>\<^verbatim>\<open>runtimeDependencies[artifact][key]\<close>: reading one artifact entry of the manifest.\<close>

definition read_entry :: "json \<Rightarrow> string \<Rightarrow> string \<Rightarrow> json prov" where
  "read_entry runtimeDependencies artifact key =
     pbind (emit (ReadEntry artifact key)) (\<lambda>_.
       lift_result (get_path [artifact, key] runtimeDependencies))"

text \<open>A field of an entry that becomes a segment of a \<^verbatim>\<open>PurePath\<close>: it must be a string.\<close>

definition path_field :: "json \<Rightarrow> string \<Rightarrow> string prov" where
  "path_field dependency k =
     lift_result (and_then (py_getitem dependency k) (\<lambda>v.
       case v of JStr s \<Rightarrow> Inr s | _ \<Rightarrow> Inl (TypeError ''path segment'')))"

definition field :: "json \<Rightarrow> string \<Rightarrow> json prov" where
  "field dependency k = lift_result (py_getitem dependency k)"

definition supported_platforms :: "string list" where
  "supported_platforms = [''linux-x64'', ''win-x64'']"

definition unsupported_platform_message :: string where
  "unsupported_platform_message = ''Only linux-x64 platform is supported for in multilspy at the moment''"

definition assert_platform :: "provision_env \<Rightarrow> unit prov" where
  "assert_platform env =
     lift_result (if platform_id env \<in> set supported_platforms then Inr ()
                  else Inl (AssertionError unsupported_platform_message))"

fun all_exist :: "string list \<Rightarrow> filesystem \<Rightarrow> bool" where
  "all_exist [] fs = True"
| "all_exist (p # ps) fs = (fs p \<noteq> None \<and> all_exist ps fs)"

fun assert_all_exist :: "string list \<Rightarrow> unit prov" where
  "assert_all_exist [] = lift_result (Inr ())"
| "assert_all_exist (p # ps) = pbind (assert_exists p) (\<lambda>_. assert_all_exist ps)"

text \<open>Lines 149 to 164: the Gradle distribution.\<close>

definition provision_gradle :: "provision_env \<Rightarrow> json \<Rightarrow> string prov" where
  "provision_gradle env runtimeDependencies =
     (let gradle_path = PurePath env [jdtls_dir_abs env, ''static/gradle-7.3.3'']
      in pbind (path_exists gradle_path) (\<lambda>present.
         pbind (if \<not> present
                then pbind (read_entry runtimeDependencies ''gradle'' ''platform-agnostic'') (\<lambda>entry1.
                     pbind (field entry1 ''url'') (\<lambda>url.
                     pbind (read_entry runtimeDependencies ''gradle'' ''platform-agnostic'') (\<lambda>entry2.
                     pbind (field entry2 ''archiveType'') (\<lambda>archive_type.
                       download env url (PurePath_parent env gradle_path) archive_type))))
                else lift_result (Inr ())) (\<lambda>_.
         pbind (assert_exists gradle_path) (\<lambda>_.
           lift_result (Inr gradle_path)))))"

text \<open>Lines 166 to 197: the Java extension with the runtime, for the platform.\<close>

record vscode_java_paths =
  vj_jre_home_path :: string
  vj_jre_path :: string
  vj_lombok_jar_path :: string
  vj_jdtls_launcher_jar_path :: string
  vj_jdtls_readonly_config_path :: string

definition provision_vscode_java :: "provision_env \<Rightarrow> json \<Rightarrow> vscode_java_paths prov" where
  "provision_vscode_java env runtimeDependencies =
     pbind (read_entry runtimeDependencies ''vscode-java'' (platform_id env)) (\<lambda>dependency.
     pbind (path_field dependency ''relative_extraction_path'') (\<lambda>rel.
     let vscode_java_path = PurePath env [jdtls_dir_abs env, ''static'', rel]
     in pbind (os_makedirs env vscode_java_path) (\<lambda>_.
     pbind (path_field dependency ''jre_home_path'') (\<lambda>f1.
     pbind (path_field dependency ''jre_path'') (\<lambda>f2.
     pbind (path_field dependency ''lombok_jar_path'') (\<lambda>f3.
     pbind (path_field dependency ''jdtls_launcher_jar_path'') (\<lambda>f4.
     pbind (path_field dependency ''jdtls_readonly_config_path'') (\<lambda>f5.
     let jre_home = PurePath env [vscode_java_path, f1];
         jre = PurePath env [vscode_java_path, f2];
         lombok = PurePath env [vscode_java_path, f3];
         launcher = PurePath env [vscode_java_path, f4];
         config = PurePath env [vscode_java_path, f5];
         required = [vscode_java_path, jre_home, jre, lombok, launcher, config]
     in pbind (\<lambda>w. (Inr (all_exist required (files w)), w)) (\<lambda>present.
        pbind (if \<not> present
               then pbind (field dependency ''url'') (\<lambda>url.
                    pbind (field dependency ''archiveType'') (\<lambda>archive_type.
                      download env url vscode_java_path archive_type))
               else lift_result (Inr ())) (\<lambda>_.
        pbind (os_chmod jre S_IEXEC) (\<lambda>_.
        pbind (assert_all_exist required) (\<lambda>_.
          lift_result (Inr \<lparr>vj_jre_home_path = jre_home, vj_jre_path = jre,
                 vj_lombok_jar_path = lombok, vj_jdtls_launcher_jar_path = launcher,
                 vj_jdtls_readonly_config_path = config\<rparr>)))))))))))))"

text \<open>Lines 199 to 219: the IntelliCode extension.\<close>

definition provision_intellicode :: "provision_env \<Rightarrow> json \<Rightarrow> (string \<times> string) prov" where
  "provision_intellicode env runtimeDependencies =
     pbind (read_entry runtimeDependencies ''intellicode'' ''platform-agnostic'') (\<lambda>dependency.
     pbind (path_field dependency ''relative_extraction_path'') (\<lambda>rel.
     let intellicode_directory_path = PurePath env [jdtls_dir_abs env, ''static'', rel]
     in pbind (os_makedirs env intellicode_directory_path) (\<lambda>_.
     pbind (path_field dependency ''intellicode_jar_path'') (\<lambda>f1.
     pbind (path_field dependency ''intellisense_members_path'') (\<lambda>f2.
     let jar = PurePath env [intellicode_directory_path, f1];
         members = PurePath env [intellicode_directory_path, f2];
         required = [intellicode_directory_path, jar, members]
     in pbind (\<lambda>w. (Inr (all_exist required (files w)), w)) (\<lambda>present.
        pbind (if \<not> present
               then pbind (field dependency ''url'') (\<lambda>url.
                    pbind (field dependency ''archiveType'') (\<lambda>archive_type.
                      download env url intellicode_directory_path archive_type))
               else lift_result (Inr ())) (\<lambda>_.
        pbind (assert_all_exist required) (\<lambda>_.
          lift_result (Inr (jar, members))))))))))"

text \<open>Lines 149 to 230: what follows the platform assertion.\<close>

definition provision_artifacts :: "provision_env \<Rightarrow> json \<Rightarrow> RuntimeDependencyPaths prov" where
  "provision_artifacts env runtimeDependencies =
     pbind (provision_gradle env runtimeDependencies) (\<lambda>gradle.
     pbind (provision_vscode_java env runtimeDependencies) (\<lambda>vj.
     pbind (provision_intellicode env runtimeDependencies) (\<lambda>(jar, members).
       lift_result (Inr \<lparr>gradle_path = gradle,
              lombok_jar_path = vj_lombok_jar_path vj,
              jre_path = vj_jre_path vj,
              jre_home_path = vj_jre_home_path vj,
              jdtls_launcher_jar_path = vj_jdtls_launcher_jar_path vj,
              jdtls_readonly_config_path = vj_jdtls_readonly_config_path vj,
              intellicode_jar_path = jar,
              intellisense_members_path = members\<rparr>))))"

text \<open>
  \<^verbatim>\<open>EclipseJDTLS.setupRuntimeDependencies\<close>, lines 132 to 230: the manifest is
  loaded and the \<^verbatim>\<open>static\<close> directory created before the platform is checked.
\<close>

definition static_dir :: "provision_env \<Rightarrow> string" where
  "static_dir env = PurePath env [jdtls_dir_abs env, ''static'']"

definition setupRuntimeDependencies :: "provision_env \<Rightarrow> RuntimeDependencyPaths prov" where
  "setupRuntimeDependencies env =
     pbind (read_manifest env) (\<lambda>runtimeDependencies.
     pbind (os_makedirs env (static_dir env)) (\<lambda>_.
     pbind (assert_platform env) (\<lambda>_.
       provision_artifacts env runtimeDependencies)))"

subsection \<open>The declared artifact paths\<close>

text \<open>
  The paths that the manifest declares for the platform, computed without touching the
  file system: the directory and the five required sub-paths of the Java extension, the
  directory and the two required sub-paths of IntelliCode, and the Gradle directory.
  They state when a backend is already provisioned.
\<close>

definition str_field :: "json \<Rightarrow> string \<Rightarrow> error + string" where
  "str_field dependency k =
     and_then (py_getitem dependency k) (\<lambda>v.
       case v of JStr s \<Rightarrow> Inr s | _ \<Rightarrow> Inl (TypeError ''path segment''))"

definition declared_gradle_path :: "provision_env \<Rightarrow> string" where
  "declared_gradle_path env = PurePath env [jdtls_dir_abs env, ''static/gradle-7.3.3'']"

definition declared_vscode_java :: "provision_env \<Rightarrow> json \<Rightarrow> error + string \<times> vscode_java_paths" where
  "declared_vscode_java env runtimeDependencies =
     and_then (get_path [''vscode-java'', platform_id env] runtimeDependencies) (\<lambda>dependency.
     and_then (str_field dependency ''relative_extraction_path'') (\<lambda>rel.
     and_then (str_field dependency ''jre_home_path'') (\<lambda>f1.
     and_then (str_field dependency ''jre_path'') (\<lambda>f2.
     and_then (str_field dependency ''lombok_jar_path'') (\<lambda>f3.
     and_then (str_field dependency ''jdtls_launcher_jar_path'') (\<lambda>f4.
     and_then (str_field dependency ''jdtls_readonly_config_path'') (\<lambda>f5.
       let dir = PurePath env [jdtls_dir_abs env, ''static'', rel]
       in Inr (dir, \<lparr>vj_jre_home_path = PurePath env [dir, f1],
                     vj_jre_path = PurePath env [dir, f2],
                     vj_lombok_jar_path = PurePath env [dir, f3],
                     vj_jdtls_launcher_jar_path = PurePath env [dir, f4],
                     vj_jdtls_readonly_config_path = PurePath env [dir, f5]\<rparr>))))))))"

definition declared_intellicode :: "provision_env \<Rightarrow> json \<Rightarrow> error + string \<times> string \<times> string" where
  "declared_intellicode env runtimeDependencies =
     and_then (get_path [''intellicode'', ''platform-agnostic''] runtimeDependencies) (\<lambda>dependency.
     and_then (str_field dependency ''relative_extraction_path'') (\<lambda>rel.
     and_then (str_field dependency ''intellicode_jar_path'') (\<lambda>f1.
     and_then (str_field dependency ''intellisense_members_path'') (\<lambda>f2.
       let dir = PurePath env [jdtls_dir_abs env, ''static'', rel]
       in Inr (dir, PurePath env [dir, f1], PurePath env [dir, f2])))))"

definition vscode_java_required :: "string \<Rightarrow> vscode_java_paths \<Rightarrow> string list" where
  "vscode_java_required dir vj =
     [dir, vj_jre_home_path vj, vj_jre_path vj, vj_lombok_jar_path vj,
      vj_jdtls_launcher_jar_path vj, vj_jdtls_readonly_config_path vj]"

text \<open>
  A backend is provisioned in a file system when the manifest loads, declares every
  path, and the Gradle directory, the two extension directories and each required
  sub-path exist.
\<close>

definition provisioned :: "provision_env \<Rightarrow> filesystem \<Rightarrow> bool" where
  "provisioned env fs =
     (case parsed_manifest env of
        Inl e \<Rightarrow> False
      | Inr rd \<Rightarrow>
          (case declared_vscode_java env rd of
             Inl e \<Rightarrow> False
           | Inr (vdir, vj) \<Rightarrow>
               (case declared_intellicode env rd of
                  Inl e \<Rightarrow> False
                | Inr (idir, jar, members) \<Rightarrow>
                    all_exist (declared_gradle_path env # vscode_java_required vdir vj
                                 @ [idir, jar, members]) fs)))"

text \<open>The value that \<^verbatim>\<open>setupRuntimeDependencies\<close> returns for these paths.\<close>

definition declared_paths :: "provision_env \<Rightarrow> error + RuntimeDependencyPaths" where
  "declared_paths env =
     and_then (parsed_manifest env) (\<lambda>rd.
     and_then (declared_vscode_java env rd) (\<lambda>(vdir, vj).
     and_then (declared_intellicode env rd) (\<lambda>(idir, jar, members).
       Inr \<lparr>gradle_path = declared_gradle_path env,
            lombok_jar_path = vj_lombok_jar_path vj,
            jre_path = vj_jre_path vj,
            jre_home_path = vj_jre_home_path vj,
            jdtls_launcher_jar_path = vj_jdtls_launcher_jar_path vj,
            jdtls_readonly_config_path = vj_jdtls_readonly_config_path vj,
            intellicode_jar_path = jar,
            intellisense_members_path = members\<rparr>)))"

fun is_download :: "action \<Rightarrow> bool" where
  "is_download (Download url target archive_type) = True"
| "is_download _ = False"

fun is_read_entry :: "action \<Rightarrow> bool" where
  "is_read_entry (ReadEntry artifact key) = True"
| "is_read_entry _ = False"

fun is_chmod :: "action \<Rightarrow> bool" where
  "is_chmod (Chmod p m) = True"
| "is_chmod _ = False"

text \<open>
  Extraction only adds files: a download that succeeds leaves every path that existed.
  One file system extends another when it has every path of the other.
\<close>

definition keeps_files :: "provision_env \<Rightarrow> bool" where
  "keeps_files env =
     (\<forall>url target archive_type fs fs' p.
        download_and_extract_archive env url target archive_type fs = Inr fs' \<longrightarrow>
        fs p \<noteq> None \<longrightarrow> fs' p \<noteq> None)"

definition extends :: "filesystem \<Rightarrow> filesystem \<Rightarrow> bool" where
  "extends fs fs' = (\<forall>p. fs p \<noteq> None \<longrightarrow> fs' p \<noteq> None)"

text \<open>The file system and the actions that one call leaves on a provisioned backend.\<close>

definition files_after :: "provision_env \<Rightarrow> string \<Rightarrow> string \<Rightarrow> string \<Rightarrow> filesystem \<Rightarrow> filesystem" where
  "files_after env vdir jre idir fs =
     makedirs env idir ((makedirs env vdir (makedirs env (static_dir env) fs))(jre \<mapsto> S_IEXEC))"

definition actions_provisioned :: "provision_env \<Rightarrow> string \<Rightarrow> string \<Rightarrow> string \<Rightarrow> action list" where
  "actions_provisioned env vdir jre idir =
     [LoadManifest (manifest_file env), MakeDirs (static_dir env),
      ReadEntry ''vscode-java'' (platform_id env), MakeDirs vdir, Chmod jre S_IEXEC,
      ReadEntry ''intellicode'' ''platform-agnostic'', MakeDirs idir]"

text \<open>The actions of a call that started in the world \<open>w\<close> and ended in \<open>w'\<close>.\<close>

definition new_actions :: "world \<Rightarrow> world \<Rightarrow> action list" where
  "new_actions w w' = drop (length (trace w)) (trace w')"

section \<open>The handshake of the Java backend\<close>

text \<open>
  \<^verbatim>\<open>EclipseJDTLS.start_server\<close> is a coroutine: it runs until it awaits the response
  to a request or an event that is not yet set, and the frames that the server sends
  are handled while it is suspended. The model is a function of the list of frames that
  the server sends, in arrival order. A session holds the four event flags of the
  instance and the list of what has been done so far.
\<close>

datatype inbound =
    Response "error + json"
  | Request string json
  | Notification string json

datatype event =
    ServiceReady
  | IntellicodeEnableCommandAvailable
  | InitializeSearcherCommandAvailable
  | CompletionsAvailable

datatype lsp_action =
    OnRequest string
  | OnNotification string
  | SuperEnter
  | SuperExit
  | Log string
  | ServerStart
  | SendInitialize dict
  | ReceiveResponse json
  | NotifyInitialized
  | NotifyDidChangeConfiguration json
  | SendExecuteCommand json
  | EventSet event string
  | Reply string json
  | ReplyNotSupported string
  | Yield
  | ServerShutdown
  | ServerStop

record session =
  service_ready_event :: bool
  intellicode_enable_command_available :: bool
  initialize_searcher_command_available :: bool
  completions_available :: bool
  actions :: "lsp_action list"

text \<open>The three events are created unset by \<^verbatim>\<open>__init__\<close>, lines 120 to 122.\<close>

definition new_session :: session where
  "new_session =
     \<lparr>service_ready_event = False, intellicode_enable_command_available = False,
      initialize_searcher_command_available = False, completions_available = False,
      actions = []\<rparr>"

definition record_action :: "lsp_action \<Rightarrow> session \<Rightarrow> session" where
  "record_action a s = s\<lparr>actions := actions s @ [a]\<rparr>"

text \<open>\<^verbatim>\<open>Event.set()\<close>: the flag becomes true; the action names the handler that set it.\<close>

fun set_event :: "event \<Rightarrow> string \<Rightarrow> session \<Rightarrow> session" where
  "set_event ServiceReady h s = record_action (EventSet ServiceReady h) (s\<lparr>service_ready_event := True\<rparr>)"
| "set_event IntellicodeEnableCommandAvailable h s =
     record_action (EventSet IntellicodeEnableCommandAvailable h)
       (s\<lparr>intellicode_enable_command_available := True\<rparr>)"
| "set_event InitializeSearcherCommandAvailable h s =
     record_action (EventSet InitializeSearcherCommandAvailable h)
       (s\<lparr>initialize_searcher_command_available := True\<rparr>)"
| "set_event CompletionsAvailable h s =
     record_action (EventSet CompletionsAvailable h) (s\<lparr>completions_available := True\<rparr>)"

subsection \<open>The handlers\<close>

definition completion_trigger_characters :: json where
  "completion_trigger_characters = JList [JStr ''.'', JStr ''@'', JStr ''#'', JStr ''*'', JStr '' '']"

text \<open>
  The body of the loop of \<^verbatim>\<open>register_capability_handler\<close>, lines 251 to 263, for one
  registration: the two \<^verbatim>\<open>if\<close> statements in turn. An event that was set stays set
  when a later statement raises.
\<close>

definition register_completion :: "json \<Rightarrow> session \<Rightarrow> (error + unit) \<times> session" where
  "register_completion registration s =
     (case get_path [''registerOptions'', ''resolveProvider''] registration of
        Inl e \<Rightarrow> (Inl e, s)
      | Inr resolve \<Rightarrow>
          if \<not> py_eq_int resolve 1 then (Inl (AssertionError []), s)
          else case get_path [''registerOptions'', ''triggerCharacters''] registration of
                 Inl e \<Rightarrow> (Inl e, s)
               | Inr chars \<Rightarrow>
                   if chars \<noteq> completion_trigger_characters then (Inl (AssertionError []), s)
                   else (Inr (), set_event CompletionsAvailable ''client/registerCapability'' s))"

definition register_execute_command :: "json \<Rightarrow> session \<Rightarrow> (error + unit) \<times> session" where
  "register_execute_command registration s =
     (case get_path [''registerOptions'', ''commands''] registration of
        Inl e \<Rightarrow> (Inl e, s)
      | Inr commands \<Rightarrow>
          (case py_contains ''java.intellicode.enable'' commands of
             Inl e \<Rightarrow> (Inl e, s)
           | Inr found \<Rightarrow>
               if found
               then (Inr (), set_event IntellicodeEnableCommandAvailable ''client/registerCapability'' s)
               else (Inr (), s)))"

definition register_one :: "json \<Rightarrow> session \<Rightarrow> (error + unit) \<times> session" where
  "register_one registration s =
     (case py_getitem registration ''method'' of
        Inl e \<Rightarrow> (Inl e, s)
      | Inr method \<Rightarrow>
          (case (if method = JStr ''textDocument/completion''
                 then register_completion registration s else (Inr (), s)) of
             (Inl e, s1) \<Rightarrow> (Inl e, s1)
           | (Inr u, s1) \<Rightarrow>
               if method = JStr ''workspace/executeCommand''
               then register_execute_command registration s1
               else (Inr (), s1)))"

fun register_all :: "json list \<Rightarrow> session \<Rightarrow> (error + unit) \<times> session" where
  "register_all [] s = (Inr (), s)"
| "register_all (registration # rest) s =
     (case register_one registration s of
        (Inl e, s1) \<Rightarrow> (Inl e, s1)
      | (Inr u, s1) \<Rightarrow> register_all rest s1)"

text \<open>\<^verbatim>\<open>register_capability_handler\<close>, lines 248 to 264; it returns \<^verbatim>\<open>None\<close>.\<close>

definition register_capability_handler :: "json \<Rightarrow> session \<Rightarrow> (error + json) \<times> session" where
  "register_capability_handler params s =
     (case py_contains ''registrations'' params of
        Inl e \<Rightarrow> (Inl e, s)
      | Inr present \<Rightarrow>
          if \<not> present then (Inl (AssertionError []), s)
          else case and_then (py_getitem params ''registrations'') py_iter of
                 Inl e \<Rightarrow> (Inl e, s)
               | Inr registrations \<Rightarrow>
                   (case register_all registrations s of
                      (Inl e, s1) \<Rightarrow> (Inl e, s1)
                    | (Inr u, s1) \<Rightarrow> (Inr JNull, s1)))"

text \<open>\<^verbatim>\<open>lang_status_handler\<close>, lines 266 to 271; \<^verbatim>\<open>and\<close> evaluates its right side only when the left is true.\<close>

definition lang_status_handler :: "json \<Rightarrow> session \<Rightarrow> (error + json) \<times> session" where
  "lang_status_handler params s =
     (case py_getitem params ''type'' of
        Inl e \<Rightarrow> (Inl e, s)
      | Inr t \<Rightarrow>
          if t \<noteq> JStr ''ServiceReady'' then (Inr JNull, s)
          else case py_getitem params ''message'' of
                 Inl e \<Rightarrow> (Inl e, s)
               | Inr m \<Rightarrow>
                   if m = JStr ''ServiceReady''
                   then (Inr JNull, set_event ServiceReady ''language/status'' s)
                   else (Inr JNull, s))"

text \<open>\<^verbatim>\<open>execute_client_command_handler\<close>, lines 273 to 276.\<close>

definition execute_client_command_handler :: "json \<Rightarrow> session \<Rightarrow> (error + json) \<times> session" where
  "execute_client_command_handler params s =
     (case py_getitem params ''command'' of
        Inl e \<Rightarrow> (Inl e, s)
      | Inr c \<Rightarrow>
          if c \<noteq> JStr ''_java.reloadBundles.command'' then (Inl (AssertionError []), s)
          else case py_getitem params ''arguments'' of
                 Inl e \<Rightarrow> (Inl e, s)
               | Inr a \<Rightarrow>
                   if a \<noteq> JList [] then (Inl (AssertionError []), s)
                   else (Inr (JList []), s))"

text \<open>\<^verbatim>\<open>window_log_message\<close> logs the message; \<^verbatim>\<open>do_nothing\<close> returns.\<close>

definition window_log_message :: "json \<Rightarrow> session \<Rightarrow> (error + json) \<times> session" where
  "window_log_message msg s = (Inr JNull, record_action (Log ''LSP: window/logMessage'') s)"

definition do_nothing :: "json \<Rightarrow> session \<Rightarrow> (error + json) \<times> session" where
  "do_nothing params s = (Inr JNull, s)"

subsection \<open>The transport\<close>

text \<open>
  Modelled from the spec: the dispatch of inbound frames by \<^verbatim>\<open>self.server\<close>, whose
  code is in \<^verbatim>\<open>lsp_protocol_handler\<close>. Frames are handled in arrival order. A request
  goes to the handler registered with \<^verbatim>\<open>on_request\<close> for its method and its result is
  sent back; a request for a method without handler gets the stock error response. A
  notification goes to the handler registered with \<^verbatim>\<open>on_notification\<close>, and is
  ignored without one. The handlers are those that lines 284 to 290 register. A handler
  that raises is fatal to the session. A response that no request is waiting for is
  dropped.
\<close>

type_synonym handler = "json \<Rightarrow> session \<Rightarrow> (error + json) \<times> session"

definition request_handler :: "string \<Rightarrow> handler option" where
  "request_handler method =
     (if method = ''client/registerCapability'' then Some register_capability_handler
      else if method = ''workspace/executeClientCommand'' then Some execute_client_command_handler
      else None)"

definition notification_handler :: "string \<Rightarrow> handler option" where
  "notification_handler method =
     (if method = ''language/status'' then Some lang_status_handler
      else if method = ''window/logMessage'' then Some window_log_message
      else if method = ''$/progress'' then Some do_nothing
      else if method = ''textDocument/publishDiagnostics'' then Some do_nothing
      else if method = ''language/actionableNotification'' then Some do_nothing
      else None)"

definition dispatch :: "inbound \<Rightarrow> session \<Rightarrow> (error + unit) \<times> session" where
  "dispatch frame s =
     (case frame of
        Response r \<Rightarrow> (Inr (), s)
      | Request method params \<Rightarrow>
          (case request_handler method of
             None \<Rightarrow> (Inr (), record_action (ReplyNotSupported method) s)
           | Some h \<Rightarrow>
               (case h params s of
                  (Inl e, s1) \<Rightarrow> (Inl e, s1)
                | (Inr result, s1) \<Rightarrow> (Inr (), record_action (Reply method result) s1)))
      | Notification method params \<Rightarrow>
          (case notification_handler method of
             None \<Rightarrow> (Inr (), s)
           | Some h \<Rightarrow>
               (case h params s of
                  (Inl e, s1) \<Rightarrow> (Inl e, s1)
                | (Inr result, s1) \<Rightarrow> (Inr (), s1))))"

text \<open>
  A step of the coroutine ends with a value, with an exception, or never (it waits for a
  frame that does not come). It leaves a session and the frames not yet handled.
\<close>

datatype 'a outcome = Done 'a | Raised error | Hangs

type_synonym 'a proc = "session \<Rightarrow> inbound list \<Rightarrow> 'a outcome \<times> session \<times> inbound list"

definition seq :: "'a proc \<Rightarrow> ('a \<Rightarrow> 'b proc) \<Rightarrow> 'b proc" where
  "seq m f s inbox =
     (case m s inbox of
        (Done x, s1, inbox1) \<Rightarrow> f x s1 inbox1
      | (Raised e, s1, inbox1) \<Rightarrow> (Raised e, s1, inbox1)
      | (Hangs, s1, inbox1) \<Rightarrow> (Hangs, s1, inbox1))"

definition act :: "lsp_action \<Rightarrow> unit proc" where
  "act a s inbox = (Done (), record_action a s, inbox)"

definition check :: "error + 'a \<Rightarrow> 'a proc" where
  "check r s inbox = (case r of Inl e \<Rightarrow> (Raised e, s, inbox) | Inr x \<Rightarrow> (Done x, s, inbox))"

definition assert_that :: "bool \<Rightarrow> unit proc" where
  "assert_that b = check (if b then Inr () else Inl (AssertionError []))"

text \<open>
  Awaiting the response to the request just sent: the frames before the response are
  dispatched; an error response raises.
\<close>

fun await_response :: "inbound list \<Rightarrow> session \<Rightarrow> json outcome \<times> session \<times> inbound list" where
  "await_response [] s = (Hangs, s, [])"
| "await_response (Response (Inl e) # rest) s = (Raised e, s, rest)"
| "await_response (Response (Inr v) # rest) s = (Done v, record_action (ReceiveResponse v) s, rest)"
| "await_response (frame # rest) s =
     (case dispatch frame s of
        (Inl e, s1) \<Rightarrow> (Raised e, s1, rest)
      | (Inr u, s1) \<Rightarrow> await_response rest s1)"

definition send_request :: "lsp_action \<Rightarrow> json proc" where
  "send_request a = seq (act a) (\<lambda>_ s inbox. await_response inbox s)"

text \<open>
  \<^verbatim>\<open>await event.wait()\<close>: it returns at once when the event is set; otherwise frames
  are dispatched until a handler has set it.
\<close>

fun await_event :: "(session \<Rightarrow> bool) \<Rightarrow> inbound list \<Rightarrow> session \<Rightarrow> unit outcome \<times> session \<times> inbound list" where
  "await_event is_set [] s = (if is_set s then Done () else Hangs, s, [])"
| "await_event is_set (frame # rest) s =
     (if is_set s then (Done (), s, frame # rest)
      else case dispatch frame s of
             (Inl e, s1) \<Rightarrow> (Raised e, s1, rest)
           | (Inr u, s1) \<Rightarrow> await_event is_set rest s1)"

definition wait_for :: "(session \<Rightarrow> bool) \<Rightarrow> unit proc" where
  "wait_for is_set s inbox = await_event is_set inbox s"

subsection \<open>Starting the server\<close>

text \<open>
  The instance: the initialization parameters and the runtime dependency paths that
  \<^verbatim>\<open>__init__\<close> stored. The surroundings of one session: whether starting the process
  raises, whether the members path exists when it is checked, whether the caller's block
  under \<^verbatim>\<open>async with\<close> raises, and whether \<^verbatim>\<open>shutdown\<close> and \<^verbatim>\<open>stop\<close> raise
  (\<open>None\<close>: no exception).
\<close>

record EclipseJDTLS =
  initialize_params :: dict
  jdtls_runtime_dependency_paths :: RuntimeDependencyPaths

record server_env =
  start_result :: "error option"
  members_path_exists :: bool
  body :: "error option"
  shutdown_result :: "error option"
  stop_result :: "error option"

definition may_raise :: "error option \<Rightarrow> unit proc" where
  "may_raise r = check (case r of None \<Rightarrow> Inr () | Some e \<Rightarrow> Inl e)"

text \<open>The three assertions on the response to \<^verbatim>\<open>initialize\<close>, lines 301 to 303.\<close>

definition check_capabilities :: "json \<Rightarrow> error + unit" where
  "check_capabilities init_response =
     and_then (get_path [''capabilities'', ''textDocumentSync'', ''change''] init_response) (\<lambda>change.
       if \<not> py_eq_int change 2 then Inl (AssertionError [])
       else and_then (py_getitem init_response ''capabilities'') (\<lambda>capabilities.
            and_then (py_contains ''completionProvider'' capabilities) (\<lambda>completion.
              if completion then Inl (AssertionError [])
              else and_then (py_contains ''executeCommandProvider'' capabilities) (\<lambda>execute.
                     if execute then Inl (AssertionError []) else Inr ()))))"

definition enable_command :: "string \<Rightarrow> json" where
  "enable_command java_intellisense_members_path =
     JObj [(''command'', JStr ''java.intellicode.enable''),
           (''arguments'', JList [JBool True, JStr java_intellisense_members_path])]"

text \<open>Lines 284 to 290: the handlers are registered.\<close>

definition register_handlers :: "unit proc" where
  "register_handlers =
     seq (act (OnRequest ''client/registerCapability'')) (\<lambda>_.
     seq (act (OnNotification ''language/status'')) (\<lambda>_.
     seq (act (OnNotification ''window/logMessage'')) (\<lambda>_.
     seq (act (OnRequest ''workspace/executeClientCommand'')) (\<lambda>_.
     seq (act (OnNotification ''$/progress'')) (\<lambda>_.
     seq (act (OnNotification ''textDocument/publishDiagnostics'')) (\<lambda>_.
       act (OnNotification ''language/actionableNotification'')))))))"

text \<open>Lines 293 to 303: the process is started, \<^verbatim>\<open>initialize\<close> is sent and its response checked.\<close>

definition initialize :: "server_env \<Rightarrow> EclipseJDTLS \<Rightarrow> json proc" where
  "initialize env self =
     seq (act (Log ''Starting EclipseJDTLS server process'')) (\<lambda>_.
     seq (act ServerStart) (\<lambda>_.
     seq (may_raise (start_result env)) (\<lambda>_.
     seq (act (Log ''Sending initialize request from LSP client to LSP server and awaiting response'')) (\<lambda>_.
       send_request (SendInitialize (initialize_params self))))))"

text \<open>
  Lines 305 to 324: the notifications, the wait for the command registration, the
  request that enables IntelliCode, and the wait for the service.
\<close>

definition become_ready :: "server_env \<Rightarrow> EclipseJDTLS \<Rightarrow> unit proc" where
  "become_ready env self =
     seq (act NotifyInitialized) (\<lambda>_.
     seq (check (get_path [''initializationOptions'', ''settings''] (JObj (initialize_params self)))) (\<lambda>settings.
     seq (act (NotifyDidChangeConfiguration (JObj [(''settings'', settings)]))) (\<lambda>_.
     seq (wait_for intellicode_enable_command_available) (\<lambda>_.
     seq (assert_that (members_path_exists env)) (\<lambda>_.
     seq (send_request (SendExecuteCommand (enable_command
            (intellisense_members_path (jdtls_runtime_dependency_paths self))))) (\<lambda>intellicode_enable_result.
     seq (assert_that (py_truthy intellicode_enable_result)) (\<lambda>_.
       wait_for service_ready_event)))))))"

definition handshake :: "server_env \<Rightarrow> EclipseJDTLS \<Rightarrow> unit proc" where
  "handshake env self =
     seq (initialize env self) (\<lambda>init_response.
     seq (check (check_capabilities init_response)) (\<lambda>_.
       become_ready env self))"

text \<open>
  Lines 326 to 329: the instance is yielded, the caller's block runs, and after it
  \<^verbatim>\<open>shutdown\<close> and \<^verbatim>\<open>stop\<close> are awaited. The statements stand after the
  \<^verbatim>\<open>yield\<close> without \<^verbatim>\<open>try\<close>/\<^verbatim>\<open>finally\<close>: an exception of the caller's block is
  raised at the \<^verbatim>\<open>yield\<close> and leaves the generator.
\<close>

definition ready_scope :: "server_env \<Rightarrow> unit proc" where
  "ready_scope env =
     seq (act Yield) (\<lambda>_.
     seq (may_raise (body env)) (\<lambda>_.
     seq (act ServerShutdown) (\<lambda>_.
     seq (may_raise (shutdown_result env)) (\<lambda>_.
     seq (act ServerStop) (\<lambda>_.
       may_raise (stop_result env))))))"

text \<open>
  \<^verbatim>\<open>async with super().start_server()\<close>: the context manager of the base class is
  entered before the block and left when the block ends or raises; it is taken to pass
  the exception on.
\<close>

definition leave_super :: "unit outcome \<times> session \<times> inbound list \<Rightarrow> unit outcome \<times> session \<times> inbound list" where
  "leave_super r =
     (case r of
        (Done x, s1, inbox1) \<Rightarrow> (Done x, record_action SuperExit s1, inbox1)
      | (Raised e, s1, inbox1) \<Rightarrow> (Raised e, record_action SuperExit s1, inbox1)
      | (Hangs, s1, inbox1) \<Rightarrow> (Hangs, s1, inbox1))"

definition super_scope :: "unit proc \<Rightarrow> unit proc" where
  "super_scope block s inbox = leave_super (block (record_action SuperEnter s) inbox)"

text \<open>\<^verbatim>\<open>EclipseJDTLS.start_server\<close>, lines 232 to 329.\<close>

definition start_server :: "server_env \<Rightarrow> EclipseJDTLS \<Rightarrow> unit proc" where
  "start_server env self =
     seq register_handlers (\<lambda>_.
       super_scope (seq (handshake env self) (\<lambda>_. ready_scope env)))"

subsection \<open>Statements about sessions\<close>

text \<open>The session after the handlers are registered and the base class's context is entered.\<close>

definition registered :: "session \<Rightarrow> session" where
  "registered s =
     s\<lparr>actions := actions s @
        [OnRequest ''client/registerCapability'', OnNotification ''language/status'',
         OnNotification ''window/logMessage'', OnRequest ''workspace/executeClientCommand'',
         OnNotification ''$/progress'', OnNotification ''textDocument/publishDiagnostics'',
         OnNotification ''language/actionableNotification'', SuperEnter]\<rparr>"

text \<open>
  The assumptions on the declared capabilities as the handshake description states
  them: incremental synchronization, and neither a completion provider nor an
  execute-command provider.
\<close>

definition capabilities_as_assumed :: "json \<Rightarrow> bool" where
  "capabilities_as_assumed init_response =
     (case py_getitem init_response ''capabilities'' of
        Inr (JObj capabilities) \<Rightarrow>
          (case get_path [''textDocumentSync'', ''change''] (JObj capabilities) of
             Inr change \<Rightarrow> py_eq_int change 2
           | Inl e \<Rightarrow> False)
          \<and> \<not> dict_has capabilities ''completionProvider''
          \<and> \<not> dict_has capabilities ''executeCommandProvider''
      | _ \<Rightarrow> False)"

text \<open>The actions of the handshake: all but those of the ready scope.\<close>

fun handshake_action :: "lsp_action \<Rightarrow> bool" where
  "handshake_action Yield = False"
| "handshake_action ServerShutdown = False"
| "handshake_action ServerStop = False"
| "handshake_action _ = True"

text \<open>An event is set by the handler of the message that announces it.\<close>

fun handler_ok :: "lsp_action \<Rightarrow> bool" where
  "handler_ok (EventSet ServiceReady h) = (h = ''language/status'')"
| "handler_ok (EventSet IntellicodeEnableCommandAvailable h) = (h = ''client/registerCapability'')"
| "handler_ok (EventSet CompletionsAvailable h) = (h = ''client/registerCapability'')"
| "handler_ok (EventSet InitializeSearcherCommandAvailable h) = False"
| "handler_ok _ = True"

definition intellicode_set :: lsp_action where
  "intellicode_set = EventSet IntellicodeEnableCommandAvailable ''client/registerCapability''"

definition service_ready_set :: lsp_action where
  "service_ready_set = EventSet ServiceReady ''language/status''"

text \<open>
  A session grows into another by a list of handshake actions when the actions are
  appended, every event in them is set by its handler, and each of the two readiness
  flags is true afterwards exactly when it was true before or is set in the list: no
  step clears a flag.
\<close>

definition grows_by :: "session \<Rightarrow> lsp_action list \<Rightarrow> session \<Rightarrow> bool" where
  "grows_by s new s' =
     (actions s' = actions s @ new
      \<and> list_all handshake_action new \<and> list_all handler_ok new
      \<and> intellicode_enable_command_available s'
           = (intellicode_enable_command_available s \<or> intellicode_set \<in> set new)
      \<and> service_ready_event s' = (service_ready_event s \<or> service_ready_set \<in> set new))"

definition grows :: "session \<Rightarrow> session \<Rightarrow> bool" where
  "grows s s' = (\<exists>new. grows_by s new s')"

definition proc_grows :: "'a proc \<Rightarrow> bool" where
  "proc_grows m = (\<forall>s i res s' i'. m s i = (res, s', i') \<longrightarrow> grows s s')"

section \<open>Example inputs\<close>

text \<open>
  A POSIX-like environment in which the default parameters of the Java backend hold the
  placeholder root path, and one custom parameter file exists.
\<close>

definition example_files :: "string \<Rightarrow> file_result" where
  "example_files p =
     (if p = ''/pkg/multilspy/language_servers/eclipse_jdtls/initialize_params.json''
        then Contents (JObj [(''rootPath'', JStr ''$rootPath''), (''capabilities'', JObj [])])
      else if p = ''/home/u/custom.json''
        then Contents (JObj [(''rootPath'', JStr ''/repo'')])
      else NoSuchFile)"

definition example_env :: os_env where
  "example_env =
     \<lparr>module_dir = ''/pkg/multilspy'',
      os_path_join = (\<lambda>a b. a @ ''/'' @ b),
      os_path_isabs = (\<lambda>p. take 1 p = ''/''),
      os_path_abspath = (\<lambda>p. ''/cwd/'' @ p),
      os_path_basename = (\<lambda>p. rev (takeWhile (\<lambda>c. c \<noteq> CHR ''/'') (rev p))),
      os_path_exists = (\<lambda>p. True),
      Path_as_uri = (\<lambda>p. if take 1 p = ''/'' then Some (''file://'' @ p) else None),
      os_getpid = 4242,
      json_load = example_files\<rparr>"

definition java_config :: "string option \<Rightarrow> string option \<Rightarrow> EclipseJDTLSConfig" where
  "java_config custom repo =
     \<lparr>code_language = JAVA, trace_lsp_communication = False,
      language_server = Some ECLIPSEJDTLS, custom_init_params_file = custom,
      init_params_overrides = None, repository_absolute_path = repo,
      runtime_dependency_paths = None\<rparr>"

text \<open>
  A manifest, an environment for the platform \<^verbatim>\<open>linux-x64\<close> in which any download
  fails, and a file system in which every declared path exists with permission bits
  octal 755.
\<close>

fun join_path :: "string list \<Rightarrow> string" where
  "join_path [] = []"
| "join_path [s] = s"
| "join_path (s # ss) = s @ ''/'' @ join_path ss"

definition example_entries :: dict where
  "example_entries =
     [(''gradle'', JObj [(''platform-agnostic'',
         JObj [(''url'', JStr ''https://g/gradle.zip''), (''archiveType'', JStr ''zip'')])]),
      (''vscode-java'', JObj [(''linux-x64'',
         JObj [(''url'', JStr ''https://v/java.vsix''), (''archiveType'', JStr ''zip''),
               (''relative_extraction_path'', JStr ''vj''),
               (''jre_home_path'', JStr ''jre''),
               (''jre_path'', JStr ''java''),
               (''lombok_jar_path'', JStr ''lombok''),
               (''jdtls_launcher_jar_path'', JStr ''launcher''),
               (''jdtls_readonly_config_path'', JStr ''config'')])]),
      (''intellicode'', JObj [(''platform-agnostic'',
         JObj [(''url'', JStr ''https://i/ic.vsix''), (''archiveType'', JStr ''zip''),
               (''relative_extraction_path'', JStr ''ic''),
               (''intellicode_jar_path'', JStr ''jar''),
               (''intellisense_members_path'', JStr ''members'')])])]"

definition example_manifest :: json where
  "example_manifest = JObj ((''_description'', JStr ''runtime dependencies'') # example_entries)"

definition example_dependencies :: json where
  "example_dependencies = JObj example_entries"

definition example_provision_env :: "string \<Rightarrow> provision_env" where
  "example_provision_env platform =
     \<lparr>platform_id = platform,
      jdtls_dir = ''/m'',
      jdtls_dir_abs = ''/m'',
      PurePath = join_path,
      PurePath_parent = (\<lambda>p. rev (drop 1 (dropWhile (\<lambda>c. c \<noteq> CHR ''/'') (rev p)))),
      path_ancestors = (\<lambda>p. []),
      dir_mode = 493,
      load_manifest = (\<lambda>p. if p = ''/m/runtime_dependencies.json''
                             then Contents example_manifest else NoSuchFile),
      download_and_extract_archive = (\<lambda>url target archive_type fs. Inl (OtherError ''offline''))\<rparr>"

definition example_required_paths :: "string list" where
  "example_required_paths =
     [''/m/static/gradle-7.3.3'', ''/m/static/vj'', ''/m/static/vj/jre'', ''/m/static/vj/java'',
      ''/m/static/vj/lombok'', ''/m/static/vj/launcher'', ''/m/static/vj/config'',
      ''/m/static/ic'', ''/m/static/ic/jar'', ''/m/static/ic/members'']"

definition provisioned_world :: world where
  "provisioned_world =
     \<lparr>files = (\<lambda>p. if p \<in> set (''/m/static'' # example_required_paths) then Some 493 else None),
      trace = []\<rparr>"

definition example_paths :: RuntimeDependencyPaths where
  "example_paths =
     \<lparr>gradle_path = ''/m/static/gradle-7.3.3'',
      lombok_jar_path = ''/m/static/vj/lombok'',
      jre_path = ''/m/static/vj/java'',
      jre_home_path = ''/m/static/vj/jre'',
      jdtls_launcher_jar_path = ''/m/static/vj/launcher'',
      jdtls_readonly_config_path = ''/m/static/vj/config'',
      intellicode_jar_path = ''/m/static/ic/jar'',
      intellisense_members_path = ''/m/static/ic/members''\<rparr>"

text \<open>
  A server that answers \<^verbatim>\<open>initialize\<close> with incremental synchronization, registers
  the command \<^verbatim>\<open>java.intellicode.enable\<close>, acknowledges the request that enables it,
  and reports \<^verbatim>\<open>ServiceReady\<close>.
\<close>

definition example_init_response :: json where
  "example_init_response =
     JObj [(''capabilities'', JObj [(''textDocumentSync'', JObj [(''change'', JInt 2)])])]"

definition intellicode_registration :: json where
  "intellicode_registration =
     JObj [(''method'', JStr ''workspace/executeCommand''),
           (''registerOptions'', JObj [(''commands'', JList [JStr ''java.intellicode.enable''])])]"

definition service_ready_notification :: inbound where
  "service_ready_notification =
     Notification ''language/status''
       (JObj [(''type'', JStr ''ServiceReady''), (''message'', JStr ''ServiceReady'')])"

definition example_frames :: "inbound list" where
  "example_frames =
     [Response (Inr example_init_response),
      Request ''client/registerCapability'' (JObj [(''registrations'', JList [intellicode_registration])]),
      Response (Inr (JBool True)),
      service_ready_notification]"

definition example_server :: EclipseJDTLS where
  "example_server =
     \<lparr>initialize_params = [(''initializationOptions'', JObj [(''settings'', JObj [])])],
      jdtls_runtime_dependency_paths = example_paths\<rparr>"

definition example_session_env :: "error option \<Rightarrow> server_env" where
  "example_session_env caller =
     \<lparr>start_result = None, members_path_exists = True, body = caller,
      shutdown_result = None, stop_result = None\<rparr>"

text \<open>
  The actions of the handshake with that server, the session that is ready, a response
  that declares full instead of incremental synchronization, and a server that registers
  the command twice.
\<close>

definition handshake_actions :: "lsp_action list" where
  "handshake_actions =
     [OnRequest ''client/registerCapability'', OnNotification ''language/status'',
      OnNotification ''window/logMessage'', OnRequest ''workspace/executeClientCommand'',
      OnNotification ''$/progress'', OnNotification ''textDocument/publishDiagnostics'',
      OnNotification ''language/actionableNotification'', SuperEnter,
      Log ''Starting EclipseJDTLS server process'', ServerStart,
      Log ''Sending initialize request from LSP client to LSP server and awaiting response'',
      SendInitialize [(''initializationOptions'', JObj [(''settings'', JObj [])])],
      ReceiveResponse example_init_response,
      NotifyInitialized,
      NotifyDidChangeConfiguration (JObj [(''settings'', JObj [])]),
      EventSet IntellicodeEnableCommandAvailable ''client/registerCapability'',
      Reply ''client/registerCapability'' JNull,
      SendExecuteCommand (enable_command ''/m/static/ic/members''),
      ReceiveResponse (JBool True),
      EventSet ServiceReady ''language/status'']"

definition ready_session :: "lsp_action list \<Rightarrow> session" where
  "ready_session done =
     \<lparr>service_ready_event = True, intellicode_enable_command_available = True,
      initialize_searcher_command_available = False, completions_available = False,
      actions = done\<rparr>"

definition full_sync_response :: json where
  "full_sync_response =
     JObj [(''capabilities'', JObj [(''textDocumentSync'', JObj [(''change'', JInt 1)])])]"

definition initialize_sent :: "json \<Rightarrow> session" where
  "initialize_sent r =
     new_session\<lparr>actions := take 12 handshake_actions @ [ReceiveResponse r]\<rparr>"

definition duplicate_frames :: "inbound list" where
  "duplicate_frames =
     [Response (Inr example_init_response),
      Request ''client/registerCapability''
        (JObj [(''registrations'', JList [intellicode_registration, intellicode_registration])]),
      Response (Inr (JBool True)),
      service_ready_notification]"

text \<open>
  An environment in which a download succeeds and creates the declared paths under its
  target, and the world with an empty file system.
\<close>

definition extracted :: "string \<Rightarrow> string list" where
  "extracted target =
     (if target = ''/m/static'' then [''/m/static/gradle-7.3.3'']
      else filter (\<lambda>p. take (length target) p = target) example_required_paths)"

definition online_provision_env :: provision_env where
  "online_provision_env =
     (example_provision_env ''linux-x64'')
       \<lparr>download_and_extract_archive :=
          (\<lambda>url target archive_type fs.
             Inr (\<lambda>p. if p \<in> set (extracted target) then Some 420 else fs p))\<rparr>"

definition empty_world :: world where
  "empty_world = \<lparr>files = (\<lambda>p. None), trace = []\<rparr>"

section \<open>Language/server pairing\<close>

lemma validate_language_server_rejects:
  "s \<notin> set (registered_servers l) \<Longrightarrow>
     validate_language_server l (Some s) = Inl (ValueError (invalid_server_message s l))"
  by (cases l) (simp_all add: validate_language_server_def)

lemma validate_language_server_accepts:
  "s \<in> set (registered_servers l) \<Longrightarrow> validate_language_server l (Some s) = Inr (Some s)"
  by (cases l) (simp_all add: validate_language_server_def)

lemma validate_language_server_None: "validate_language_server l None = Inr None"
  by (simp add: validate_language_server_def)

text \<open>
  C5. The claim: constructing a configuration whose \<open>language_server\<close> is set and is not
  registered for its \<open>code_language\<close> raises an error. The validator does reject the
  pairing \<open>JAVA\<close> with \<open>JEDI\<close>, but it is only stored in the field's metadata and
  construction never calls it: \<^verbatim>\<open>MultilspyConfig(code_language=Language.JAVA,
  language_server=LanguageServers.JEDI)\<close> returns a configuration holding the invalid
  pairing.
\<close>

theorem C5_invalid_pairing_constructed:
  "JEDI \<notin> set (registered_servers JAVA)
   \<and> validate_language_server JAVA (Some JEDI)
       = Inl (ValueError (invalid_server_message JEDI JAVA))
   \<and> MultilspyConfig_init JAVA False (Some JEDI) None None None
       = Inr \<lparr>code_language = JAVA, trace_lsp_communication = False,
              language_server = Some JEDI, custom_init_params_file = None,
              init_params_overrides = None, repository_absolute_path = None\<rparr>"
  by (simp add: validate_language_server_def MultilspyConfig_init_def)

section \<open>The precedence chain of the initialization parameters\<close>

lemma dict_merge_empty: "dict_merge d [] = d"
  by (simp add: dict_merge_def)

text \<open>Without a custom file the method computes the stated chain.\<close>

lemma get_initialization_params_no_custom_file:
  "\<not> opt_truthy (custom_init_params_file self) \<Longrightarrow>
     get_initialization_params env self = claimed_get_initialization_params env self"
  by (simp add: get_initialization_params_def claimed_get_initialization_params_def
      merged_init_params_def claimed_merged_init_params_def read_custom_init_params_def
      and_then_def dict_merge_empty Let_def split: sum.splits)

text \<open>
  C4. The claim: the parameters start from the default file and the custom file overrides
  them. With a custom file the method reads only that file: the key
  \<^verbatim>\<open>capabilities\<close>, which the default file defines and the custom file does not, is
  absent from the result, where the stated chain keeps it.
\<close>

theorem C4_custom_file_drops_default_keys:
  "read_default_init_params example_env (java_config (Some ''/home/u/custom.json'') None)
     = Inr [(''rootPath'', JStr ''$rootPath''), (''capabilities'', JObj [])]
   \<and> read_custom_init_params example_env (java_config (Some ''/home/u/custom.json'') None)
     = Inr [(''rootPath'', JStr ''/repo'')]
   \<and> get_initialization_params example_env (java_config (Some ''/home/u/custom.json'') None)
     = Inr [(''rootPath'', JStr ''/repo''), (''processId'', JInt 4242)]
   \<and> claimed_get_initialization_params example_env (java_config (Some ''/home/u/custom.json'') None)
     = Inr [(''rootPath'', JStr ''/repo''), (''capabilities'', JObj []), (''processId'', JInt 4242)]"
  by (simp add: get_initialization_params_def claimed_get_initialization_params_def
      merged_init_params_def claimed_merged_init_params_def resolve_root_def
      read_custom_init_params_def read_default_init_params_def
      default_language_server_init_params_file_def dict_merge_def java_config_def
      example_env_def example_files_def and_then_def dict_get_def)

section \<open>The unresolved placeholder root path\<close>

lemma default_read_error_neq: "default_read_error d \<noteq> unresolved_rootPath_message"
  by (simp add: default_read_error_def unresolved_rootPath_message_def)

lemma custom_read_error_neq: "custom_read_error d \<noteq> unresolved_rootPath_message"
  by (simp add: custom_read_error_def unresolved_rootPath_message_def)

lemma InitializeParams_error: "InitializeParams x = Inl e \<Longrightarrow> \<exists>m. e = TypeError m"
  by (cases x) auto

lemma merged_init_params_error:
  "merged_init_params env self \<noteq> Inl (MultilspyException unresolved_rootPath_message)"
  by (auto simp: merged_init_params_def read_custom_init_params_def read_default_init_params_def
        and_then_def default_read_error_neq custom_read_error_neq Let_def
      split: sum.splits file_result.splits if_splits dest: InitializeParams_error)

lemma patch_repository_path_error:
  "patch_repository_path env p d = Inl e \<Longrightarrow> \<exists>m. e = ValueError m"
  by (auto simp: patch_repository_path_def workspace_folder_def as_uri_def and_then_def Let_def
      split: sum.splits option.splits if_splits)

text \<open>
  C8. Without a repository path (\<^verbatim>\<open>None\<close> or the empty string), when the merged
  parameters hold the placeholder \<^verbatim>\<open>$rootPath\<close> under \<^verbatim>\<open>rootPath\<close>,
  \<^verbatim>\<open>get_initialization_params\<close> raises the \<^verbatim>\<open>MultilspyException\<close> of line 153;
  with a repository path it never raises that exception. The method is a function of
  the configuration and the environment only: it starts no process.
\<close>

theorem C8_unresolved_rootPath:
  "(\<not> opt_truthy (repository_absolute_path self)
      \<and> merged_init_params env self = Inr init_params
      \<and> dict_get init_params ''rootPath'' = Some (JStr ''$rootPath'')
    \<longrightarrow> get_initialization_params env self = Inl (MultilspyException unresolved_rootPath_message))
   \<and> (opt_truthy (repository_absolute_path self)
    \<longrightarrow> get_initialization_params env self \<noteq> Inl (MultilspyException unresolved_rootPath_message))"
proof (intro conjI impI)
  assume a: "\<not> opt_truthy (repository_absolute_path self)
      \<and> merged_init_params env self = Inr init_params
      \<and> dict_get init_params ''rootPath'' = Some (JStr ''$rootPath'')"
  then show "get_initialization_params env self = Inl (MultilspyException unresolved_rootPath_message)"
    by (simp add: get_initialization_params_def resolve_root_def and_then_def)
next
  assume t: "opt_truthy (repository_absolute_path self)"
  show "get_initialization_params env self \<noteq> Inl (MultilspyException unresolved_rootPath_message)"
  proof (cases "merged_init_params env self")
    case (Inl e)
    with merged_init_params_error [of env self] show ?thesis
      by (simp add: get_initialization_params_def and_then_def)
  next
    case (Inr d)
    with t show ?thesis
      by (auto simp: get_initialization_params_def resolve_root_def and_then_def
          split: sum.splits dest: patch_repository_path_error)
  qed
qed

theorem C8_unresolved_rootPath_witness:
  "\<not> opt_truthy (repository_absolute_path (java_config None None))
   \<and> merged_init_params example_env (java_config None None)
       = Inr [(''rootPath'', JStr ''$rootPath''), (''capabilities'', JObj [])]
   \<and> get_initialization_params example_env (java_config None None)
       = Inl (MultilspyException unresolved_rootPath_message)
   \<and> opt_truthy (repository_absolute_path (java_config None (Some ''/repo'')))
   \<and> get_initialization_params example_env (java_config None (Some ''/repo''))
       \<noteq> Inl (MultilspyException unresolved_rootPath_message)"
proof -
  have m: "merged_init_params example_env (java_config None None)
       = Inr [(''rootPath'', JStr ''$rootPath''), (''capabilities'', JObj [])]"
    by (simp add: merged_init_params_def read_default_init_params_def
        default_language_server_init_params_file_def java_config_def example_env_def
        example_files_def and_then_def)
  have n: "\<not> opt_truthy (repository_absolute_path (java_config None None))"
    by (simp add: java_config_def)
  have r: "dict_get [(''rootPath'', JStr ''$rootPath''), (''capabilities'', JObj [])] ''rootPath''
       = Some (JStr ''$rootPath'')"
    by (simp add: dict_get_def)
  have t: "opt_truthy (repository_absolute_path (java_config None (Some ''/repo'')))"
    by (simp add: java_config_def)
  from C8_unresolved_rootPath [of "java_config None None" example_env
        "[(''rootPath'', JStr ''$rootPath''), (''capabilities'', JObj [])]"] m n r
  have 1: "get_initialization_params example_env (java_config None None)
       = Inl (MultilspyException unresolved_rootPath_message)" by blast
  from C8_unresolved_rootPath [of "java_config None (Some ''/repo'')" example_env "[]"] t
  have 2: "get_initialization_params example_env (java_config None (Some ''/repo''))
       \<noteq> Inl (MultilspyException unresolved_rootPath_message)" by blast
  from m n t 1 2 show ?thesis by blast
qed

section \<open>The Java backend without a repository path\<close>

text \<open>
  C10, as stated, fails: with \<^verbatim>\<open>repository_absolute_path = None\<close> and the placeholder
  root path in the default parameters, the call of the base method raises
  \<^verbatim>\<open>MultilspyException\<close> first, so the error is not the \<^verbatim>\<open>TypeError\<close> of
  \<^verbatim>\<open>os.path.isabs(None)\<close>.
\<close>

theorem C10_counterexample:
  "repository_absolute_path (java_config None None) = None
   \<and> fst (EclipseJDTLSConfig_get_initialization_params example_env (java_config None None))
       = Inl (MultilspyException unresolved_rootPath_message)
   \<and> fst (EclipseJDTLSConfig_get_initialization_params example_env (java_config None None))
       \<noteq> Inl (TypeError isabs_None_message)"
  by (simp add: EclipseJDTLSConfig_get_initialization_params_def get_initialization_params_def
      merged_init_params_def resolve_root_def read_default_init_params_def
      default_language_server_init_params_file_def java_config_def example_env_def
      example_files_def and_then_def dict_get_def)

text \<open>
  C10, amended. With \<^verbatim>\<open>repository_absolute_path = None\<close> the method of
  \<^verbatim>\<open>EclipseJDTLSConfig\<close> always fails and leaves the configuration as it was: with
  the error of the base method when that raises, and otherwise (also when the parameter
  file supplies a valid \<^verbatim>\<open>rootPath\<close>) with the \<^verbatim>\<open>TypeError\<close> of
  \<^verbatim>\<open>os.path.isabs(None)\<close>.
\<close>

theorem C10_None_always_fails:
  "repository_absolute_path self = None \<longrightarrow>
     EclipseJDTLSConfig_get_initialization_params env self
       = (case get_initialization_params env self of
            Inl e \<Rightarrow> (Inl e, self)
          | Inr init_params \<Rightarrow> (Inl (TypeError isabs_None_message), self))"
  by (simp add: EclipseJDTLSConfig_get_initialization_params_def split: sum.splits)

theorem C10_None_always_fails_witness:
  "repository_absolute_path (java_config (Some ''/home/u/custom.json'') None) = None
   \<and> get_initialization_params example_env (java_config (Some ''/home/u/custom.json'') None)
       = Inr [(''rootPath'', JStr ''/repo''), (''processId'', JInt 4242)]
   \<and> EclipseJDTLSConfig_get_initialization_params example_env
         (java_config (Some ''/home/u/custom.json'') None)
       = (Inl (TypeError isabs_None_message), java_config (Some ''/home/u/custom.json'') None)"
proof -
  have n: "repository_absolute_path (java_config (Some ''/home/u/custom.json'') None) = None"
    by (simp add: java_config_def)
  have g: "get_initialization_params example_env (java_config (Some ''/home/u/custom.json'') None)
       = Inr [(''rootPath'', JStr ''/repo''), (''processId'', JInt 4242)]"
    by (simp add: get_initialization_params_def merged_init_params_def resolve_root_def
      read_custom_init_params_def java_config_def example_env_def example_files_def and_then_def dict_get_def)
  from C10_None_always_fails [of "java_config (Some ''/home/u/custom.json'') None" example_env] n g
  show ?thesis by simp
qed

section \<open>Provisioning on a provisioned backend\<close>

lemma fold_mkdir_keeps:
  "fs p = Some m \<Longrightarrow> fold (\<lambda>q s. if s q = None then s(q \<mapsto> d) else s) qs fs p = Some m"
proof (induction qs arbitrary: fs)
  case Nil
  then show ?case by simp
next
  case (Cons a qs)
  from Cons.prems have "(if fs a = None then fs(a \<mapsto> d) else fs) p = Some m"
    by auto
  then show ?case
    using Cons.IH by simp
qed

lemma makedirs_keeps: "fs p = Some m \<Longrightarrow> makedirs env q fs p = Some m"
  unfolding makedirs_def by (rule fold_mkdir_keeps)

lemma makedirs_exists: "fs p \<noteq> None \<Longrightarrow> makedirs env q fs p \<noteq> None"
  using makedirs_keeps [of fs p _ env q] by auto

lemma all_exist_iff: "all_exist ps fs \<longleftrightarrow> list_all (\<lambda>p. fs p \<noteq> None) ps"
  by (induction ps) auto

lemma all_exist_makedirs: "all_exist ps fs \<Longrightarrow> all_exist ps (makedirs env q fs)"
  by (induction ps) (auto simp: makedirs_exists)

lemma all_exist_chmod: "all_exist ps fs \<Longrightarrow> all_exist ps (fs(p \<mapsto> m))"
  by (induction ps) auto

lemma all_exist_append: "all_exist (ps @ qs) fs \<longleftrightarrow> all_exist ps fs \<and> all_exist qs fs"
  by (induction ps) auto

lemma assert_all_exist_ok: "all_exist ps (files w) \<Longrightarrow> assert_all_exist ps w = (Inr (), w)"
  by (induction ps) (auto simp: lift_result_def pbind_def assert_exists_def)

lemma provision_gradle_present:
  "files w (declared_gradle_path env) \<noteq> None \<Longrightarrow>
     provision_gradle env rd w = (Inr (declared_gradle_path env), w)"
  by (simp add: provision_gradle_def declared_gradle_path_def pbind_def path_exists_def
      lift_result_def assert_exists_def Let_def)

lemma path_field_eq: "path_field dep k = lift_result (str_field dep k)"
  by (simp add: path_field_def str_field_def)

lemma provision_vscode_java_present:
  assumes d: "declared_vscode_java env rd = Inr (vdir, vj)"
    and e: "all_exist (vscode_java_required vdir vj) (files w)"
  shows "provision_vscode_java env rd w =
     (Inr vj, w\<lparr>files := (makedirs env vdir (files w))(vj_jre_path vj \<mapsto> S_IEXEC),
                trace := trace w @ [ReadEntry ''vscode-java'' (platform_id env), MakeDirs vdir,
                                    Chmod (vj_jre_path vj) S_IEXEC]\<rparr>)"
proof -
  from d obtain dep rel f1 f2 f3 f4 f5 where
    g: "get_path [''vscode-java'', platform_id env] rd = Inr dep"
    and r: "str_field dep ''relative_extraction_path'' = Inr rel"
    and f: "str_field dep ''jre_home_path'' = Inr f1" "str_field dep ''jre_path'' = Inr f2"
      "str_field dep ''lombok_jar_path'' = Inr f3" "str_field dep ''jdtls_launcher_jar_path'' = Inr f4"
      "str_field dep ''jdtls_readonly_config_path'' = Inr f5"
    and v: "vdir = PurePath env [jdtls_dir_abs env, ''static'', rel]"
    and j: "vj = \<lparr>vj_jre_home_path = PurePath env [vdir, f1],
                     vj_jre_path = PurePath env [vdir, f2],
                     vj_lombok_jar_path = PurePath env [vdir, f3],
                     vj_jdtls_launcher_jar_path = PurePath env [vdir, f4],
                     vj_jdtls_readonly_config_path = PurePath env [vdir, f5]\<rparr>"
    by (auto simp: declared_vscode_java_def and_then_def Let_def split: sum.splits)
  from e have e': "all_exist (vscode_java_required vdir vj) (makedirs env vdir (files w))"
    by (rule all_exist_makedirs)
  then have jre: "makedirs env vdir (files w) (vj_jre_path vj) \<noteq> None"
    by (simp add: vscode_java_required_def)
  from e' have e'': "all_exist (vscode_java_required vdir vj)
      ((makedirs env vdir (files w))(vj_jre_path vj \<mapsto> S_IEXEC))"
    by (rule all_exist_chmod)
  show ?thesis
    using g r f e' jre e''
    unfolding provision_vscode_java_def read_entry_def path_field_eq
    by (auto simp: pbind_def emit_def lift_result_def os_makedirs_def os_chmod_def Let_def
        v j vscode_java_required_def assert_exists_def)
qed


lemma provision_intellicode_present:
  assumes d: "declared_intellicode env rd = Inr (idir, jar, members)"
    and e: "all_exist [idir, jar, members] (files w)"
  shows "provision_intellicode env rd w =
     (Inr (jar, members),
      w\<lparr>files := makedirs env idir (files w),
        trace := trace w @ [ReadEntry ''intellicode'' ''platform-agnostic'', MakeDirs idir]\<rparr>)"
proof -
  from d obtain dep rel f1 f2 where
    g: "get_path [''intellicode'', ''platform-agnostic''] rd = Inr dep"
    and r: "str_field dep ''relative_extraction_path'' = Inr rel"
    and f: "str_field dep ''intellicode_jar_path'' = Inr f1"
      "str_field dep ''intellisense_members_path'' = Inr f2"
    and v: "idir = PurePath env [jdtls_dir_abs env, ''static'', rel]"
    and j: "jar = PurePath env [idir, f1]" "members = PurePath env [idir, f2]"
    by (auto simp: declared_intellicode_def and_then_def Let_def split: sum.splits)
  from e have e': "all_exist [idir, jar, members] (makedirs env idir (files w))"
    by (rule all_exist_makedirs)
  show ?thesis
    using g r f e'
    unfolding provision_intellicode_def read_entry_def path_field_eq
    by (auto simp: pbind_def emit_def lift_result_def os_makedirs_def Let_def
        v j assert_exists_def)
qed

lemma setup_provisioned:
  assumes p: "platform_id env \<in> set supported_platforms"
    and m: "parsed_manifest env = Inr rd"
    and dv: "declared_vscode_java env rd = Inr (vdir, vj)"
    and di: "declared_intellicode env rd = Inr (idir, jar, members)"
    and e: "all_exist (declared_gradle_path env # vscode_java_required vdir vj
                                 @ [idir, jar, members]) (files w)"
  shows "setupRuntimeDependencies env w =
     (Inr \<lparr>gradle_path = declared_gradle_path env,
            lombok_jar_path = vj_lombok_jar_path vj,
            jre_path = vj_jre_path vj,
            jre_home_path = vj_jre_home_path vj,
            jdtls_launcher_jar_path = vj_jdtls_launcher_jar_path vj,
            jdtls_readonly_config_path = vj_jdtls_readonly_config_path vj,
            intellicode_jar_path = jar,
            intellisense_members_path = members\<rparr>,
      w\<lparr>files := files_after env vdir (vj_jre_path vj) idir (files w),
        trace := trace w @ actions_provisioned env vdir (vj_jre_path vj) idir\<rparr>)"
proof -
  let ?w1 = "w\<lparr>files := makedirs env (static_dir env) (files w),
        trace := trace w @ [LoadManifest (manifest_file env), MakeDirs (static_dir env)]\<rparr>"
  from e have e1: "all_exist (declared_gradle_path env # vscode_java_required vdir vj
                                 @ [idir, jar, members]) (files ?w1)"
    by (simp add: all_exist_makedirs del: all_exist.simps)
  then have g: "files ?w1 (declared_gradle_path env) \<noteq> None"
    and v: "all_exist (vscode_java_required vdir vj) (files ?w1)"
    and i: "all_exist [idir, jar, members] (files ?w1)"
    by (simp_all add: all_exist_append del: fun_upd_apply)
  let ?w2 = "?w1\<lparr>files := (makedirs env vdir (files ?w1))(vj_jre_path vj \<mapsto> S_IEXEC),
                trace := trace ?w1 @ [ReadEntry ''vscode-java'' (platform_id env), MakeDirs vdir,
                                    Chmod (vj_jre_path vj) S_IEXEC]\<rparr>"
  from i have i2: "all_exist [idir, jar, members] (files ?w2)"
    using all_exist_chmod [OF all_exist_makedirs [OF i]] by simp
  have s1: "provision_gradle env rd ?w1 = (Inr (declared_gradle_path env), ?w1)"
    using g by (rule provision_gradle_present)
  have s2: "provision_vscode_java env rd ?w1 = (Inr vj, ?w2)"
    using dv v by (rule provision_vscode_java_present)
  have s3: "provision_intellicode env rd ?w2 = (Inr (jar, members),
      ?w2\<lparr>files := makedirs env idir (files ?w2),
        trace := trace ?w2 @ [ReadEntry ''intellicode'' ''platform-agnostic'', MakeDirs idir]\<rparr>)"
    using di i2 by (rule provision_intellicode_present)
  have pre: "setupRuntimeDependencies env w = provision_artifacts env rd ?w1"
    using p m by (simp add: setupRuntimeDependencies_def pbind_def read_manifest_def emit_def
        lift_result_def os_makedirs_def assert_platform_def)
  show ?thesis
    unfolding pre provision_artifacts_def
    using s1 s2 s3
    by (simp add: pbind_def lift_result_def files_after_def actions_provisioned_def)
qed

lemma ex_prov: "provisioned (example_provision_env ''linux-x64'') (files provisioned_world)"
  by (simp add: provisioned_def parsed_manifest_def manifest_file_def example_provision_env_def
      example_manifest_def example_entries_def del_description_def dict_has_def dict_get_def declared_vscode_java_def
      declared_intellicode_def and_then_def str_field_def declared_gradle_path_def
      vscode_java_required_def provisioned_world_def example_required_paths_def)

lemma ex_paths: "declared_paths (example_provision_env ''linux-x64'') = Inr example_paths"
  by (simp add: declared_paths_def parsed_manifest_def manifest_file_def example_provision_env_def
      example_manifest_def example_entries_def del_description_def dict_has_def dict_get_def declared_vscode_java_def
      declared_intellicode_def and_then_def str_field_def declared_gradle_path_def
      example_paths_def)

lemma files_after_provisioned:
  "all_exist ps fs \<Longrightarrow> all_exist ps (files_after env vdir jre idir fs)"
  unfolding files_after_def
  by (intro all_exist_makedirs all_exist_chmod)

lemma provisioned_after:
  "provisioned env fs \<Longrightarrow> provisioned env (files_after env vdir jre idir fs)"
  by (auto simp: provisioned_def files_after_provisioned simp del: all_exist.simps
      split: sum.splits prod.splits)

lemma files_after_jre: "files_after env vdir jre idir fs jre = Some S_IEXEC"
  unfolding files_after_def by (rule makedirs_keeps) simp

lemma setup_provisioned_call:
  assumes p: "platform_id env \<in> set supported_platforms"
    and v: "provisioned env (files w)"
  shows "\<exists>paths vdir idir.
           declared_paths env = Inr paths
         \<and> setupRuntimeDependencies env w =
             (Inr paths, w\<lparr>files := files_after env vdir (jre_path paths) idir (files w),
                           trace := trace w @ actions_provisioned env vdir (jre_path paths) idir\<rparr>)"
proof -
  from v obtain rd where m: "parsed_manifest env = Inr rd"
    by (cases "parsed_manifest env") (simp_all add: provisioned_def)
  from v m obtain vdir vj where dv: "declared_vscode_java env rd = Inr (vdir, vj)"
    by (cases "declared_vscode_java env rd") (auto simp: provisioned_def)
  from v m dv obtain idir jar members where
    di: "declared_intellicode env rd = Inr (idir, jar, members)"
    by (cases "declared_intellicode env rd") (auto simp: provisioned_def)
  from v m dv di have e: "all_exist (declared_gradle_path env # vscode_java_required vdir vj
                                 @ [idir, jar, members]) (files w)"
    by (simp add: provisioned_def del: all_exist.simps)
  from setup_provisioned [OF p m dv di e] m dv di show ?thesis
    by (auto simp: declared_paths_def and_then_def)
qed

lemma filter_actions_provisioned:
  "filter is_download (actions_provisioned env vdir jre idir) = []"
  "filter is_chmod (actions_provisioned env vdir jre idir) = [Chmod jre S_IEXEC]"
  by (simp_all add: actions_provisioned_def)

section \<open>The platform allow-list\<close>

lemma setup_unsupported:
  assumes "platform_id env \<notin> set supported_platforms"
  shows "setupRuntimeDependencies env w =
     (case parsed_manifest env of
        Inl e \<Rightarrow> (Inl e, w\<lparr>trace := trace w @ [LoadManifest (manifest_file env)]\<rparr>)
      | Inr rd \<Rightarrow>
          (Inl (AssertionError unsupported_platform_message),
           w\<lparr>files := makedirs env (static_dir env) (files w),
             trace := trace w @ [LoadManifest (manifest_file env), MakeDirs (static_dir env)]\<rparr>))"
  using assms
  by (simp add: setupRuntimeDependencies_def pbind_def read_manifest_def emit_def
      lift_result_def os_makedirs_def assert_platform_def split: sum.splits)

lemma setup_supported:
  assumes "platform_id env \<in> set supported_platforms" and "parsed_manifest env = Inr rd"
  shows "setupRuntimeDependencies env w =
     provision_artifacts env rd
       (w\<lparr>files := makedirs env (static_dir env) (files w),
          trace := trace w @ [LoadManifest (manifest_file env), MakeDirs (static_dir env)]\<rparr>)"
  using assms
  by (simp add: setupRuntimeDependencies_def pbind_def read_manifest_def emit_def
      lift_result_def os_makedirs_def assert_platform_def)

text \<open>
  C7. For a platform outside the allow-list \<^verbatim>\<open>setupRuntimeDependencies\<close> fails: with
  the platform assertion when the manifest file loads, and in every case without having
  read an artifact entry of the manifest or attempted a download. For a platform in the
  allow-list (and a manifest that loads) the assertion passes and the call goes on with
  the artifacts.
\<close>

theorem C7_platform_allow_list:
  "(platform_id env \<notin> set supported_platforms \<longrightarrow>
      (\<exists>e. fst (setupRuntimeDependencies env w) = Inl e)
    \<and> (parsed_manifest env = Inr rd \<longrightarrow>
         fst (setupRuntimeDependencies env w) = Inl (AssertionError unsupported_platform_message))
    \<and> filter is_read_entry (new_actions w (snd (setupRuntimeDependencies env w))) = []
    \<and> filter is_download (new_actions w (snd (setupRuntimeDependencies env w))) = [])
   \<and> (platform_id env \<in> set supported_platforms \<and> parsed_manifest env = Inr rd \<longrightarrow>
        setupRuntimeDependencies env w =
          provision_artifacts env rd
            (w\<lparr>files := makedirs env (static_dir env) (files w),
               trace := trace w @ [LoadManifest (manifest_file env), MakeDirs (static_dir env)]\<rparr>))"
proof (intro conjI impI)
  assume u: "platform_id env \<notin> set supported_platforms"
  note s = setup_unsupported [OF u, of w]
  show "\<exists>e. fst (setupRuntimeDependencies env w) = Inl e"
    unfolding s by (cases "parsed_manifest env") simp_all
  show "filter is_read_entry (new_actions w (snd (setupRuntimeDependencies env w))) = []"
    unfolding s by (cases "parsed_manifest env") (simp_all add: new_actions_def)
  show "filter is_download (new_actions w (snd (setupRuntimeDependencies env w))) = []"
    unfolding s by (cases "parsed_manifest env") (simp_all add: new_actions_def)
  assume "parsed_manifest env = Inr rd"
  then show "fst (setupRuntimeDependencies env w) = Inl (AssertionError unsupported_platform_message)"
    unfolding s by simp
next
  assume "platform_id env \<in> set supported_platforms \<and> parsed_manifest env = Inr rd"
  then show "setupRuntimeDependencies env w =
          provision_artifacts env rd
            (w\<lparr>files := makedirs env (static_dir env) (files w),
               trace := trace w @ [LoadManifest (manifest_file env), MakeDirs (static_dir env)]\<rparr>)"
    by (simp add: setup_supported)
qed

lemma ex_manifest: "parsed_manifest (example_provision_env platform) = Inr example_dependencies"
  by (simp add: parsed_manifest_def manifest_file_def example_provision_env_def
      example_manifest_def example_entries_def del_description_def dict_has_def dict_get_def
      example_dependencies_def)

theorem C7_platform_allow_list_witness:
  "platform_id (example_provision_env ''osx-arm64'') \<notin> set supported_platforms
   \<and> parsed_manifest (example_provision_env ''osx-arm64'') = Inr example_dependencies
   \<and> fst (setupRuntimeDependencies (example_provision_env ''osx-arm64'') provisioned_world)
       = Inl (AssertionError unsupported_platform_message)
   \<and> filter is_read_entry (new_actions provisioned_world
        (snd (setupRuntimeDependencies (example_provision_env ''osx-arm64'') provisioned_world))) = []
   \<and> filter is_download (new_actions provisioned_world
        (snd (setupRuntimeDependencies (example_provision_env ''osx-arm64'') provisioned_world))) = []
   \<and> platform_id (example_provision_env ''win-x64'') \<in> set supported_platforms
   \<and> setupRuntimeDependencies (example_provision_env ''win-x64'') provisioned_world
       = provision_artifacts (example_provision_env ''win-x64'') example_dependencies
           (provisioned_world
              \<lparr>files := makedirs (example_provision_env ''win-x64'')
                          (static_dir (example_provision_env ''win-x64'')) (files provisioned_world),
               trace := trace provisioned_world
                  @ [LoadManifest (manifest_file (example_provision_env ''win-x64'')),
                     MakeDirs (static_dir (example_provision_env ''win-x64''))]\<rparr>)"
proof -
  have u: "platform_id (example_provision_env ''osx-arm64'') \<notin> set supported_platforms"
    by (simp add: example_provision_env_def supported_platforms_def)
  have p: "platform_id (example_provision_env ''win-x64'') \<in> set supported_platforms"
    by (simp add: example_provision_env_def supported_platforms_def)
  from C7_platform_allow_list [of "example_provision_env ''osx-arm64''" provisioned_world
      example_dependencies] u ex_manifest [of "''osx-arm64''"]
  have 1: "fst (setupRuntimeDependencies (example_provision_env ''osx-arm64'') provisioned_world)
       = Inl (AssertionError unsupported_platform_message)
   \<and> filter is_read_entry (new_actions provisioned_world
        (snd (setupRuntimeDependencies (example_provision_env ''osx-arm64'') provisioned_world))) = []
   \<and> filter is_download (new_actions provisioned_world
        (snd (setupRuntimeDependencies (example_provision_env ''osx-arm64'') provisioned_world))) = []"
    by blast
  from C7_platform_allow_list [of "example_provision_env ''win-x64''" provisioned_world
      example_dependencies] p ex_manifest [of "''win-x64''"]
  have 2: "setupRuntimeDependencies (example_provision_env ''win-x64'') provisioned_world
       = provision_artifacts (example_provision_env ''win-x64'') example_dependencies
           (provisioned_world
              \<lparr>files := makedirs (example_provision_env ''win-x64'')
                          (static_dir (example_provision_env ''win-x64'')) (files provisioned_world),
               trace := trace provisioned_world
                  @ [LoadManifest (manifest_file (example_provision_env ''win-x64'')),
                     MakeDirs (static_dir (example_provision_env ''win-x64''))]\<rparr>)"
    by blast
  from u p 1 2 ex_manifest [of "''osx-arm64''"] show ?thesis by blast
qed

section \<open>The permission bits of the runtime binary\<close>

text \<open>
  C9, amended. On a provisioned backend every call of \<^verbatim>\<open>setupRuntimeDependencies\<close>
  calls \<^verbatim>\<open>os.chmod\<close> on the runtime binary, once, and leaves its permission bits equal
  to \<^verbatim>\<open>S_IEXEC\<close>; a call that follows such a call applies it again and so leaves the
  bits as that call left them.
\<close>

theorem C9_chmod_every_call:
  "platform_id env \<in> set supported_platforms \<and> provisioned env (files w)
     \<and> declared_paths env = Inr paths \<longrightarrow>
     filter is_chmod (new_actions w (snd (setupRuntimeDependencies env w)))
       = [Chmod (jre_path paths) S_IEXEC]
   \<and> files (snd (setupRuntimeDependencies env w)) (jre_path paths) = Some S_IEXEC
   \<and> filter is_chmod (new_actions (snd (setupRuntimeDependencies env w))
        (snd (setupRuntimeDependencies env (snd (setupRuntimeDependencies env w)))))
       = [Chmod (jre_path paths) S_IEXEC]
   \<and> files (snd (setupRuntimeDependencies env (snd (setupRuntimeDependencies env w)))) (jre_path paths)
       = files (snd (setupRuntimeDependencies env w)) (jre_path paths)"
proof (intro impI)
  assume a: "platform_id env \<in> set supported_platforms \<and> provisioned env (files w)
     \<and> declared_paths env = Inr paths"
  then have p: "platform_id env \<in> set supported_platforms" and v: "provisioned env (files w)"
    and d: "declared_paths env = Inr paths"
    by simp_all
  from setup_provisioned_call [OF p v] d obtain vdir idir where
    s1: "setupRuntimeDependencies env w =
             (Inr paths, w\<lparr>files := files_after env vdir (jre_path paths) idir (files w),
                           trace := trace w @ actions_provisioned env vdir (jre_path paths) idir\<rparr>)"
    by auto
  let ?w1 = "w\<lparr>files := files_after env vdir (jre_path paths) idir (files w),
                           trace := trace w @ actions_provisioned env vdir (jre_path paths) idir\<rparr>"
  from v have v1: "provisioned env (files ?w1)"
    by (simp add: provisioned_after)
  from setup_provisioned_call [OF p v1] d obtain vdir' idir' where
    s2: "setupRuntimeDependencies env ?w1 =
             (Inr paths, ?w1\<lparr>files := files_after env vdir' (jre_path paths) idir' (files ?w1),
                           trace := trace ?w1 @ actions_provisioned env vdir' (jre_path paths) idir'\<rparr>)"
    by auto
  show "filter is_chmod (new_actions w (snd (setupRuntimeDependencies env w)))
       = [Chmod (jre_path paths) S_IEXEC]
   \<and> files (snd (setupRuntimeDependencies env w)) (jre_path paths) = Some S_IEXEC
   \<and> filter is_chmod (new_actions (snd (setupRuntimeDependencies env w))
        (snd (setupRuntimeDependencies env (snd (setupRuntimeDependencies env w)))))
       = [Chmod (jre_path paths) S_IEXEC]
   \<and> files (snd (setupRuntimeDependencies env (snd (setupRuntimeDependencies env w)))) (jre_path paths)
       = files (snd (setupRuntimeDependencies env w)) (jre_path paths)"
    unfolding s1 snd_conv fst_conv s2
    by (simp add: new_actions_def filter_actions_provisioned files_after_jre)
qed

theorem C9_chmod_every_call_witness:
  "platform_id (example_provision_env ''linux-x64'') \<in> set supported_platforms
   \<and> provisioned (example_provision_env ''linux-x64'') (files provisioned_world)
   \<and> declared_paths (example_provision_env ''linux-x64'') = Inr example_paths
   \<and> filter is_chmod (new_actions provisioned_world
        (snd (setupRuntimeDependencies (example_provision_env ''linux-x64'') provisioned_world)))
       = [Chmod ''/m/static/vj/java'' S_IEXEC]
   \<and> files (snd (setupRuntimeDependencies (example_provision_env ''linux-x64'') provisioned_world))
        ''/m/static/vj/java'' = Some S_IEXEC"
proof -
  have p: "platform_id (example_provision_env ''linux-x64'') \<in> set supported_platforms"
    by (simp add: example_provision_env_def supported_platforms_def)
  have j: "jre_path example_paths = ''/m/static/vj/java''"
    by (simp add: example_paths_def)
  from C9_chmod_every_call [of "example_provision_env ''linux-x64''" provisioned_world example_paths]
    p ex_prov ex_paths
  show ?thesis unfolding j by blast
qed

text \<open>
  C9, as stated, fails: a call on a backend that is already provisioned (nothing is
  downloaded) still calls \<^verbatim>\<open>os.chmod\<close>, and changes permission bits octal 755 of the
  runtime binary to octal 100.
\<close>

theorem C9_counterexample:
  "provisioned (example_provision_env ''linux-x64'') (files provisioned_world)
   \<and> files provisioned_world ''/m/static/vj/java'' = Some 493
   \<and> fst (setupRuntimeDependencies (example_provision_env ''linux-x64'') provisioned_world)
       = Inr example_paths
   \<and> filter is_download (trace
        (snd (setupRuntimeDependencies (example_provision_env ''linux-x64'') provisioned_world))) = []
   \<and> filter is_chmod (trace
        (snd (setupRuntimeDependencies (example_provision_env ''linux-x64'') provisioned_world)))
       = [Chmod ''/m/static/vj/java'' S_IEXEC]
   \<and> files (snd (setupRuntimeDependencies (example_provision_env ''linux-x64'') provisioned_world))
        ''/m/static/vj/java'' = Some 64"
proof -
  have p: "platform_id (example_provision_env ''linux-x64'') \<in> set supported_platforms"
    by (simp add: example_provision_env_def supported_platforms_def)
  have j: "jre_path example_paths = ''/m/static/vj/java''"
    by (simp add: example_paths_def)
  have m: "files provisioned_world ''/m/static/vj/java'' = Some 493"
    by (simp add: provisioned_world_def example_required_paths_def)
  have t: "trace provisioned_world = []"
    by (simp add: provisioned_world_def)
  from setup_provisioned_call [OF p ex_prov] ex_paths obtain vdir idir where
    s: "setupRuntimeDependencies (example_provision_env ''linux-x64'') provisioned_world =
          (Inr example_paths,
           provisioned_world\<lparr>files := files_after (example_provision_env ''linux-x64'') vdir
                  (jre_path example_paths) idir (files provisioned_world),
              trace := trace provisioned_world
                 @ actions_provisioned (example_provision_env ''linux-x64'') vdir
                     (jre_path example_paths) idir\<rparr>)"
    by auto
  show ?thesis
    unfolding s snd_conv fst_conv
    using ex_prov m
    by (simp add: t j filter_actions_provisioned files_after_jre S_IEXEC_def)
qed

section \<open>Idempotence of provisioning\<close>

text \<open>What a step that returned has done: inversion of the sequential composition.\<close>

lemma extends_refl: "extends fs fs"
  by (simp add: extends_def)

lemma extends_trans: "extends a b \<Longrightarrow> extends b c \<Longrightarrow> extends a c"
  by (auto simp: extends_def)

lemma extends_makedirs: "extends fs (makedirs env p fs)"
  by (simp add: extends_def makedirs_exists)

lemma extends_chmod: "extends fs (fs(p \<mapsto> m))"
  by (simp add: extends_def)

lemma extends_download:
  "keeps_files env \<Longrightarrow> download_and_extract_archive env url target ty fs = Inr fs' \<Longrightarrow> extends fs fs'"
  unfolding keeps_files_def extends_def by blast

lemma extends_all_exist: "extends fs fs' \<Longrightarrow> all_exist ps fs \<Longrightarrow> all_exist ps fs'"
  by (induction ps) (auto simp: extends_def)


lemma extends_chmod_after: "extends a b \<Longrightarrow> extends a (b(p \<mapsto> m))"
  by (simp add: extends_def)

lemma pbind_Inr:
  assumes "pbind m f w = (Inr y, w')"
  obtains x w1 where "m w = (Inr x, w1)" "f x w1 = (Inr y, w')"
proof (cases "m w")
  case (Pair r w1)
  with assms show ?thesis
    by (cases r) (auto simp: pbind_def intro: that)
qed

lemma read_entry_Inr:
  "read_entry rd a k w = (Inr x, w1) \<Longrightarrow> get_path [a, k] rd = Inr x \<and> files w1 = files w"
  by (auto simp: read_entry_def pbind_def emit_def lift_result_def simp del: get_path.simps)

lemma path_field_Inr: "path_field dep k w = (Inr x, w1) \<Longrightarrow> str_field dep k = Inr x \<and> w1 = w"
  by (auto simp: path_field_def str_field_def lift_result_def)

lemma os_makedirs_Inr:
  "os_makedirs env p w = (r, w1) \<Longrightarrow> files w1 = makedirs env p (files w)"
  by (auto simp: os_makedirs_def)

lemma os_chmod_Inr:
  "os_chmod p m w = (Inr u, w1) \<Longrightarrow> files w p \<noteq> None \<and> files w1 = (files w)(p \<mapsto> m)"
  by (auto simp: os_chmod_def Let_def split: option.splits)

lemma assert_all_exist_Inr:
  "assert_all_exist ps w = (Inr u, w1) \<Longrightarrow> all_exist ps (files w) \<and> w1 = w"
proof (induction ps arbitrary: w)
  case Nil
  then show ?case by (simp add: lift_result_def)
next
  case (Cons p ps)
  from Cons.prems obtain x w2 where a: "assert_exists p w = (Inr x, w2)"
    and b: "assert_all_exist ps w2 = (Inr u, w1)"
    by (auto elim: pbind_Inr)
  from a have "files w p \<noteq> None" and "w2 = w"
    by (auto simp: assert_exists_def split: if_splits)
  with Cons.IH [OF b] show ?case by simp
qed

lemma lift_result_Inr: "lift_result r w = (Inr x, w1) \<Longrightarrow> r = Inr x \<and> w1 = w"
  by (auto simp: lift_result_def)

lemma maybe_download_extends:
  assumes k: "keeps_files env"
    and r: "(if \<not> present
             then pbind (field dep ''url'') (\<lambda>url.
                  pbind (field dep ''archiveType'') (\<lambda>archive_type.
                    download env url target archive_type))
             else lift_result (Inr ())) w = (Inr u, w1)"
  shows "extends (files w) (files w1)"
proof (cases present)
  case True
  with r show ?thesis by (simp add: lift_result_def extends_refl)
next
  case False
  with r obtain url w2 where 1: "field dep ''url'' w = (Inr url, w2)"
    and 2: "pbind (field dep ''archiveType'') (\<lambda>archive_type.
                    download env url target archive_type) w2 = (Inr u, w1)"
    by (auto elim: pbind_Inr)
  from 2 obtain ty w3 where 3: "field dep ''archiveType'' w2 = (Inr ty, w3)"
    and 4: "download env url target ty w3 = (Inr u, w1)"
    by (rule pbind_Inr)
  from 1 3 have "w3 = w" by (auto simp: field_def lift_result_def)
  with 4 have "download_and_extract_archive env url target ty (files w) = Inr (files w1)"
    by (auto simp: download_def Let_def split: sum.splits)
  with k show ?thesis by (rule extends_download)
qed

lemma provision_vscode_java_Inr:
  assumes k: "keeps_files env"
    and r: "provision_vscode_java env rd w = (Inr vj, w')"
  shows "\<exists>vdir. declared_vscode_java env rd = Inr (vdir, vj)
                \<and> all_exist (vscode_java_required vdir vj) (files w')
                \<and> extends (files w) (files w')"
proof -
  from r obtain dep w1 where a1: "read_entry rd ''vscode-java'' (platform_id env) w = (Inr dep, w1)"
    and r1: "pbind (path_field dep ''relative_extraction_path'') (\<lambda>rel.
     let vscode_java_path = PurePath env [jdtls_dir_abs env, ''static'', rel]
     in pbind (os_makedirs env vscode_java_path) (\<lambda>_.
     pbind (path_field dep ''jre_home_path'') (\<lambda>f1.
     pbind (path_field dep ''jre_path'') (\<lambda>f2.
     pbind (path_field dep ''lombok_jar_path'') (\<lambda>f3.
     pbind (path_field dep ''jdtls_launcher_jar_path'') (\<lambda>f4.
     pbind (path_field dep ''jdtls_readonly_config_path'') (\<lambda>f5.
     let jre_home = PurePath env [vscode_java_path, f1];
         jre = PurePath env [vscode_java_path, f2];
         lombok = PurePath env [vscode_java_path, f3];
         launcher = PurePath env [vscode_java_path, f4];
         config = PurePath env [vscode_java_path, f5];
         required = [vscode_java_path, jre_home, jre, lombok, launcher, config]
     in pbind (\<lambda>w. (Inr (all_exist required (files w)), w)) (\<lambda>present.
        pbind (if \<not> present
               then pbind (field dep ''url'') (\<lambda>url.
                    pbind (field dep ''archiveType'') (\<lambda>archive_type.
                      download env url vscode_java_path archive_type))
               else lift_result (Inr ())) (\<lambda>_.
        pbind (os_chmod jre S_IEXEC) (\<lambda>_.
        pbind (assert_all_exist required) (\<lambda>_.
          lift_result (Inr \<lparr>vj_jre_home_path = jre_home, vj_jre_path = jre,
                 vj_lombok_jar_path = lombok, vj_jdtls_launcher_jar_path = launcher,
                 vj_jdtls_readonly_config_path = config\<rparr>)))))))))))) w1 = (Inr vj, w')"
    unfolding provision_vscode_java_def by (rule pbind_Inr)
  from r1 obtain rel w2 where a2: "path_field dep ''relative_extraction_path'' w1 = (Inr rel, w2)"
    and r2: "pbind (os_makedirs env (PurePath env [jdtls_dir_abs env, ''static'', rel])) (\<lambda>_.
     pbind (path_field dep ''jre_home_path'') (\<lambda>f1.
     pbind (path_field dep ''jre_path'') (\<lambda>f2.
     pbind (path_field dep ''lombok_jar_path'') (\<lambda>f3.
     pbind (path_field dep ''jdtls_launcher_jar_path'') (\<lambda>f4.
     pbind (path_field dep ''jdtls_readonly_config_path'') (\<lambda>f5.
     let vscode_java_path = PurePath env [jdtls_dir_abs env, ''static'', rel];
         jre_home = PurePath env [vscode_java_path, f1];
         jre = PurePath env [vscode_java_path, f2];
         lombok = PurePath env [vscode_java_path, f3];
         launcher = PurePath env [vscode_java_path, f4];
         config = PurePath env [vscode_java_path, f5];
         required = [vscode_java_path, jre_home, jre, lombok, launcher, config]
     in pbind (\<lambda>w. (Inr (all_exist required (files w)), w)) (\<lambda>present.
        pbind (if \<not> present
               then pbind (field dep ''url'') (\<lambda>url.
                    pbind (field dep ''archiveType'') (\<lambda>archive_type.
                      download env url vscode_java_path archive_type))
               else lift_result (Inr ())) (\<lambda>_.
        pbind (os_chmod jre S_IEXEC) (\<lambda>_.
        pbind (assert_all_exist required) (\<lambda>_.
          lift_result (Inr \<lparr>vj_jre_home_path = jre_home, vj_jre_path = jre,
                 vj_lombok_jar_path = lombok, vj_jdtls_launcher_jar_path = launcher,
                 vj_jdtls_readonly_config_path = config\<rparr>))))))))))) w2 = (Inr vj, w')"
    by (rule pbind_Inr) (simp add: Let_def)
  let ?vdir = "PurePath env [jdtls_dir_abs env, ''static'', rel]"
  from r2 obtain u3 w3 where a3: "os_makedirs env ?vdir w2 = (Inr u3, w3)"
    and r3: "pbind (path_field dep ''jre_home_path'') (\<lambda>f1.
     pbind (path_field dep ''jre_path'') (\<lambda>f2.
     pbind (path_field dep ''lombok_jar_path'') (\<lambda>f3.
     pbind (path_field dep ''jdtls_launcher_jar_path'') (\<lambda>f4.
     pbind (path_field dep ''jdtls_readonly_config_path'') (\<lambda>f5.
     let vscode_java_path = PurePath env [jdtls_dir_abs env, ''static'', rel];
         jre_home = PurePath env [vscode_java_path, f1];
         jre = PurePath env [vscode_java_path, f2];
         lombok = PurePath env [vscode_java_path, f3];
         launcher = PurePath env [vscode_java_path, f4];
         config = PurePath env [vscode_java_path, f5];
         required = [vscode_java_path, jre_home, jre, lombok, launcher, config]
     in pbind (\<lambda>w. (Inr (all_exist required (files w)), w)) (\<lambda>present.
        pbind (if \<not> present
               then pbind (field dep ''url'') (\<lambda>url.
                    pbind (field dep ''archiveType'') (\<lambda>archive_type.
                      download env url vscode_java_path archive_type))
               else lift_result (Inr ())) (\<lambda>_.
        pbind (os_chmod jre S_IEXEC) (\<lambda>_.
        pbind (assert_all_exist required) (\<lambda>_.
          lift_result (Inr \<lparr>vj_jre_home_path = jre_home, vj_jre_path = jre,
                 vj_lombok_jar_path = lombok, vj_jdtls_launcher_jar_path = launcher,
                 vj_jdtls_readonly_config_path = config\<rparr>)))))))))) w3 = (Inr vj, w')"
    by (rule pbind_Inr)
  from r3 obtain f1 f2 f3 f4 f5 w4 w5 w6 w7 w8 where
    a4: "path_field dep ''jre_home_path'' w3 = (Inr f1, w4)"
        "path_field dep ''jre_path'' w4 = (Inr f2, w5)"
        "path_field dep ''lombok_jar_path'' w5 = (Inr f3, w6)"
        "path_field dep ''jdtls_launcher_jar_path'' w6 = (Inr f4, w7)"
        "path_field dep ''jdtls_readonly_config_path'' w7 = (Inr f5, w8)"
    and r4: "(let vscode_java_path = PurePath env [jdtls_dir_abs env, ''static'', rel];
         jre_home = PurePath env [vscode_java_path, f1];
         jre = PurePath env [vscode_java_path, f2];
         lombok = PurePath env [vscode_java_path, f3];
         launcher = PurePath env [vscode_java_path, f4];
         config = PurePath env [vscode_java_path, f5];
         required = [vscode_java_path, jre_home, jre, lombok, launcher, config]
     in pbind (\<lambda>w. (Inr (all_exist required (files w)), w)) (\<lambda>present.
        pbind (if \<not> present
               then pbind (field dep ''url'') (\<lambda>url.
                    pbind (field dep ''archiveType'') (\<lambda>archive_type.
                      download env url vscode_java_path archive_type))
               else lift_result (Inr ())) (\<lambda>_.
        pbind (os_chmod jre S_IEXEC) (\<lambda>_.
        pbind (assert_all_exist required) (\<lambda>_.
          lift_result (Inr \<lparr>vj_jre_home_path = jre_home, vj_jre_path = jre,
                 vj_lombok_jar_path = lombok, vj_jdtls_launcher_jar_path = launcher,
                 vj_jdtls_readonly_config_path = config\<rparr>)))))) w8 = (Inr vj, w')"
    by (elim pbind_Inr) blast
  let ?vj = "\<lparr>vj_jre_home_path = PurePath env [?vdir, f1], vj_jre_path = PurePath env [?vdir, f2],
                 vj_lombok_jar_path = PurePath env [?vdir, f3],
                 vj_jdtls_launcher_jar_path = PurePath env [?vdir, f4],
                 vj_jdtls_readonly_config_path = PurePath env [?vdir, f5]\<rparr>"
  let ?req = "vscode_java_required ?vdir ?vj"
  from r4 have r5: "pbind (\<lambda>w. (Inr (all_exist ?req (files w)), w)) (\<lambda>present.
        pbind (if \<not> present
               then pbind (field dep ''url'') (\<lambda>url.
                    pbind (field dep ''archiveType'') (\<lambda>archive_type.
                      download env url ?vdir archive_type))
               else lift_result (Inr ())) (\<lambda>_.
        pbind (os_chmod (PurePath env [?vdir, f2]) S_IEXEC) (\<lambda>_.
        pbind (assert_all_exist ?req) (\<lambda>_.
          lift_result (Inr ?vj))))) w8 = (Inr vj, w')"
    by (simp add: Let_def vscode_java_required_def del: all_exist.simps assert_all_exist.simps)
  define present where "present = all_exist ?req (files w8)"
  define w9 where "w9 = w8"
  from r5 have r9: "pbind (if \<not> present
               then pbind (field dep ''url'') (\<lambda>url.
                    pbind (field dep ''archiveType'') (\<lambda>archive_type.
                      download env url ?vdir archive_type))
               else lift_result (Inr ())) (\<lambda>_.
        pbind (os_chmod (PurePath env [?vdir, f2]) S_IEXEC) (\<lambda>_.
        pbind (assert_all_exist ?req) (\<lambda>_.
          lift_result (Inr ?vj)))) w9 = (Inr vj, w')"
    unfolding present_def w9_def
    by (subst (asm) pbind_def) simp
  from r9 obtain u10 w10 where a10: "(if \<not> present
               then pbind (field dep ''url'') (\<lambda>url.
                    pbind (field dep ''archiveType'') (\<lambda>archive_type.
                      download env url ?vdir archive_type))
               else lift_result (Inr ())) w9 = (Inr u10, w10)"
    and r10: "pbind (os_chmod (PurePath env [?vdir, f2]) S_IEXEC) (\<lambda>_.
        pbind (assert_all_exist ?req) (\<lambda>_.
          lift_result (Inr ?vj))) w10 = (Inr vj, w')"
    by (rule pbind_Inr)
  from r10 obtain u11 w11 u12 w12 where
    a11: "os_chmod (PurePath env [?vdir, f2]) S_IEXEC w10 = (Inr u11, w11)"
    and a12: "assert_all_exist ?req w11 = (Inr u12, w12)"
    and a13: "lift_result (Inr ?vj) w12 = (Inr vj, w')"
    by (elim pbind_Inr) blast
  from read_entry_Inr [OF a1] have g: "get_path [''vscode-java'', platform_id env] rd = Inr dep"
    and e1: "files w1 = files w" by simp_all
  from path_field_Inr [OF a2] have f0: "str_field dep ''relative_extraction_path'' = Inr rel"
    and e2: "w2 = w1" by simp_all
  from os_makedirs_Inr [OF a3] have e3: "files w3 = makedirs env ?vdir (files w2)" .
  from a4 [THEN path_field_Inr] have f: "str_field dep ''jre_home_path'' = Inr f1"
    "str_field dep ''jre_path'' = Inr f2" "str_field dep ''lombok_jar_path'' = Inr f3"
    "str_field dep ''jdtls_launcher_jar_path'' = Inr f4"
    "str_field dep ''jdtls_readonly_config_path'' = Inr f5"
    and e8: "w8 = w3" by simp_all
  note e9 = w9_def
  from maybe_download_extends [OF k a10] have e10: "extends (files w9) (files w10)" .
  from os_chmod_Inr [OF a11] have e11: "files w11 = (files w10)(PurePath env [?vdir, f2] \<mapsto> S_IEXEC)"
    by simp
  from assert_all_exist_Inr [OF a12] have x: "all_exist ?req (files w11)" and e12: "w12 = w11"
    by simp_all
  from lift_result_Inr [OF a13] have v: "vj = ?vj" and e13: "w' = w12" by simp_all
  have d: "declared_vscode_java env rd = Inr (?vdir, ?vj)"
    using g f0 f by (simp add: declared_vscode_java_def and_then_def Let_def del: get_path.simps)
  have "extends (files w) (files w')"
    unfolding e13 e12 e11
    by (rule extends_chmod_after, rule extends_trans [OF _ e10])
      (simp add: e9 e8 e3 e2 e1 extends_makedirs)
  with d x show ?thesis
    unfolding v e13 e12 by blast
qed

lemma provision_intellicode_Inr:
  assumes k: "keeps_files env"
    and r: "provision_intellicode env rd w = (Inr (jar, members), w')"
  shows "\<exists>idir. declared_intellicode env rd = Inr (idir, jar, members)
                \<and> all_exist [idir, jar, members] (files w')
                \<and> extends (files w) (files w')"
proof -
  from r obtain dep w1 where
    a1: "read_entry rd ''intellicode'' ''platform-agnostic'' w = (Inr dep, w1)"
    and r1: "pbind (path_field dep ''relative_extraction_path'') (\<lambda>rel.
     let intellicode_directory_path = PurePath env [jdtls_dir_abs env, ''static'', rel]
     in pbind (os_makedirs env intellicode_directory_path) (\<lambda>_.
     pbind (path_field dep ''intellicode_jar_path'') (\<lambda>f1.
     pbind (path_field dep ''intellisense_members_path'') (\<lambda>f2.
     let jar = PurePath env [intellicode_directory_path, f1];
         members = PurePath env [intellicode_directory_path, f2];
         required = [intellicode_directory_path, jar, members]
     in pbind (\<lambda>w. (Inr (all_exist required (files w)), w)) (\<lambda>present.
        pbind (if \<not> present
               then pbind (field dep ''url'') (\<lambda>url.
                    pbind (field dep ''archiveType'') (\<lambda>archive_type.
                      download env url intellicode_directory_path archive_type))
               else lift_result (Inr ())) (\<lambda>_.
        pbind (assert_all_exist required) (\<lambda>_.
          lift_result (Inr (jar, members)))))))))  w1 = (Inr (jar, members), w')"
    unfolding provision_intellicode_def by (rule pbind_Inr)
  from r1 obtain rel w2 where a2: "path_field dep ''relative_extraction_path'' w1 = (Inr rel, w2)"
    and r2: "pbind (os_makedirs env (PurePath env [jdtls_dir_abs env, ''static'', rel])) (\<lambda>_.
     pbind (path_field dep ''intellicode_jar_path'') (\<lambda>f1.
     pbind (path_field dep ''intellisense_members_path'') (\<lambda>f2.
     let intellicode_directory_path = PurePath env [jdtls_dir_abs env, ''static'', rel];
         jar = PurePath env [intellicode_directory_path, f1];
         members = PurePath env [intellicode_directory_path, f2];
         required = [intellicode_directory_path, jar, members]
     in pbind (\<lambda>w. (Inr (all_exist required (files w)), w)) (\<lambda>present.
        pbind (if \<not> present
               then pbind (field dep ''url'') (\<lambda>url.
                    pbind (field dep ''archiveType'') (\<lambda>archive_type.
                      download env url intellicode_directory_path archive_type))
               else lift_result (Inr ())) (\<lambda>_.
        pbind (assert_all_exist required) (\<lambda>_.
          lift_result (Inr (jar, members)))))))) w2 = (Inr (jar, members), w')"
    by (rule pbind_Inr) (simp add: Let_def)
  let ?idir = "PurePath env [jdtls_dir_abs env, ''static'', rel]"
  from r2 obtain u3 w3 f1 w4 f2 w5 where a3: "os_makedirs env ?idir w2 = (Inr u3, w3)"
    and a4: "path_field dep ''intellicode_jar_path'' w3 = (Inr f1, w4)"
      "path_field dep ''intellisense_members_path'' w4 = (Inr f2, w5)"
    and r4: "(let intellicode_directory_path = PurePath env [jdtls_dir_abs env, ''static'', rel];
         jar = PurePath env [intellicode_directory_path, f1];
         members = PurePath env [intellicode_directory_path, f2];
         required = [intellicode_directory_path, jar, members]
     in pbind (\<lambda>w. (Inr (all_exist required (files w)), w)) (\<lambda>present.
        pbind (if \<not> present
               then pbind (field dep ''url'') (\<lambda>url.
                    pbind (field dep ''archiveType'') (\<lambda>archive_type.
                      download env url intellicode_directory_path archive_type))
               else lift_result (Inr ())) (\<lambda>_.
        pbind (assert_all_exist required) (\<lambda>_.
          lift_result (Inr (jar, members)))))) w5 = (Inr (jar, members), w')"
    by (elim pbind_Inr) blast
  let ?jar = "PurePath env [?idir, f1]"
  let ?members = "PurePath env [?idir, f2]"
  let ?req = "[?idir, ?jar, ?members]"
  define present where "present = all_exist ?req (files w5)"
  from r4 have r5: "pbind (if \<not> present
               then pbind (field dep ''url'') (\<lambda>url.
                    pbind (field dep ''archiveType'') (\<lambda>archive_type.
                      download env url ?idir archive_type))
               else lift_result (Inr ())) (\<lambda>_.
        pbind (assert_all_exist ?req) (\<lambda>_.
          lift_result (Inr (?jar, ?members)))) w5 = (Inr (jar, members), w')"
    unfolding present_def
    by (simp add: Let_def pbind_def [of "\<lambda>w. (Inr (all_exist ?req (files w)), w)"]
        del: all_exist.simps assert_all_exist.simps)
  from r5 obtain u6 w6 u7 w7 where a6: "(if \<not> present
               then pbind (field dep ''url'') (\<lambda>url.
                    pbind (field dep ''archiveType'') (\<lambda>archive_type.
                      download env url ?idir archive_type))
               else lift_result (Inr ())) w5 = (Inr u6, w6)"
    and a7: "assert_all_exist ?req w6 = (Inr u7, w7)"
    and a8: "lift_result (Inr (?jar, ?members)) w7 = (Inr (jar, members), w')"
    by (elim pbind_Inr) blast
  from read_entry_Inr [OF a1] have g: "get_path [''intellicode'', ''platform-agnostic''] rd = Inr dep"
    and e1: "files w1 = files w" by simp_all
  from path_field_Inr [OF a2] have f0: "str_field dep ''relative_extraction_path'' = Inr rel"
    and e2: "w2 = w1" by simp_all
  from os_makedirs_Inr [OF a3] have e3: "files w3 = makedirs env ?idir (files w2)" .
  from a4 [THEN path_field_Inr] have f: "str_field dep ''intellicode_jar_path'' = Inr f1"
    "str_field dep ''intellisense_members_path'' = Inr f2"
    and e5: "w5 = w3" by simp_all
  from maybe_download_extends [OF k a6] have e6: "extends (files w5) (files w6)" .
  from assert_all_exist_Inr [OF a7] have x: "all_exist ?req (files w6)" and e7: "w7 = w6"
    by simp_all
  from lift_result_Inr [OF a8] have v: "jar = ?jar" "members = ?members" and e8: "w' = w7"
    by simp_all
  have d: "declared_intellicode env rd = Inr (?idir, ?jar, ?members)"
    using g f0 f by (simp add: declared_intellicode_def and_then_def Let_def del: get_path.simps)
  have "extends (files w) (files w')"
    unfolding e8 e7
    by (rule extends_trans [OF _ e6]) (simp add: e5 e3 e2 e1 extends_makedirs)
  with d x show ?thesis
    unfolding v e8 e7 by blast
qed

lemma provision_gradle_Inr:
  assumes k: "keeps_files env"
    and r: "provision_gradle env rd w = (Inr g, w')"
  shows "g = declared_gradle_path env \<and> files w' g \<noteq> None \<and> extends (files w) (files w')"
proof -
  let ?gp = "PurePath env [jdtls_dir_abs env, ''static/gradle-7.3.3'']"
  from r obtain present w1 u2 w2 u3 w3 where a1: "path_exists ?gp w = (Inr present, w1)"
    and a2: "(if \<not> present
                then pbind (read_entry rd ''gradle'' ''platform-agnostic'') (\<lambda>entry1.
                     pbind (field entry1 ''url'') (\<lambda>url.
                     pbind (read_entry rd ''gradle'' ''platform-agnostic'') (\<lambda>entry2.
                     pbind (field entry2 ''archiveType'') (\<lambda>archive_type.
                       download env url (PurePath_parent env ?gp) archive_type))))
                else lift_result (Inr ())) w1 = (Inr u2, w2)"
    and a3: "assert_exists ?gp w2 = (Inr u3, w3)"
    and a4: "lift_result (Inr ?gp) w3 = (Inr g, w')"
    unfolding provision_gradle_def Let_def by (elim pbind_Inr) blast
  from a1 have e1: "w1 = w" by (simp add: path_exists_def)
  have e2: "extends (files w1) (files w2)"
  proof (cases present)
    case True
    with a2 show ?thesis by (simp add: lift_result_def extends_refl)
  next
    case False
    with a2 obtain entry1 v1 url v2 entry2 v3 ty v4 where
      b1: "read_entry rd ''gradle'' ''platform-agnostic'' w1 = (Inr entry1, v1)"
      and b2: "field entry1 ''url'' v1 = (Inr url, v2)"
      and b3: "read_entry rd ''gradle'' ''platform-agnostic'' v2 = (Inr entry2, v3)"
      and b4: "field entry2 ''archiveType'' v3 = (Inr ty, v4)"
      and b5: "download env url (PurePath_parent env ?gp) ty v4 = (Inr u2, w2)"
      by (auto elim!: pbind_Inr)
    from read_entry_Inr [OF b1] read_entry_Inr [OF b3] b2 b4 have "files v4 = files w1"
      by (auto simp: field_def lift_result_def)
    with b5 have "download_and_extract_archive env url (PurePath_parent env ?gp) ty (files w1)
        = Inr (files w2)"
      by (auto simp: download_def Let_def split: sum.splits)
    with k show ?thesis by (rule extends_download)
  qed
  from a3 have e3: "files w2 ?gp \<noteq> None" "w3 = w2"
    by (auto simp: assert_exists_def split: if_splits)
  from lift_result_Inr [OF a4] have e4: "g = ?gp" "w' = w3" by simp_all
  from e1 e2 e3 e4 show ?thesis
    by (simp add: declared_gradle_path_def)
qed

text \<open>A call that returns leaves a provisioned backend, when extraction only adds files.\<close>

lemma setup_returns_provisioned:
  assumes k: "keeps_files env"
    and r: "setupRuntimeDependencies env w = (Inr paths, w')"
  shows "platform_id env \<in> set supported_platforms \<and> provisioned env (files w')
           \<and> declared_paths env = Inr paths"
proof -
  from r obtain rd w1 where a1: "read_manifest env w = (Inr rd, w1)"
    and r1: "pbind (os_makedirs env (static_dir env)) (\<lambda>_.
               pbind (assert_platform env) (\<lambda>_. provision_artifacts env rd)) w1 = (Inr paths, w')"
    unfolding setupRuntimeDependencies_def by (rule pbind_Inr)
  from r1 obtain u2 w2 u3 w3 where a2: "os_makedirs env (static_dir env) w1 = (Inr u2, w2)"
    and a3: "assert_platform env w2 = (Inr u3, w3)"
    and r3: "provision_artifacts env rd w3 = (Inr paths, w')"
    by (elim pbind_Inr) blast
  from r3 obtain g w4 vj w5 jm w6 where a4: "provision_gradle env rd w3 = (Inr g, w4)"
    and a5: "provision_vscode_java env rd w4 = (Inr vj, w5)"
    and a6: "provision_intellicode env rd w5 = (Inr jm, w6)"
    and a7: "(case jm of (jar, members) \<Rightarrow> lift_result (Inr \<lparr>gradle_path = g,
              lombok_jar_path = vj_lombok_jar_path vj,
              jre_path = vj_jre_path vj,
              jre_home_path = vj_jre_home_path vj,
              jdtls_launcher_jar_path = vj_jdtls_launcher_jar_path vj,
              jdtls_readonly_config_path = vj_jdtls_readonly_config_path vj,
              intellicode_jar_path = jar,
              intellisense_members_path = members\<rparr>)) w6 = (Inr paths, w')"
    unfolding provision_artifacts_def by (elim pbind_Inr) blast
  obtain jar members where jm: "jm = (jar, members)" by (cases jm)
  from a1 have m: "parsed_manifest env = Inr rd"
    by (auto simp: read_manifest_def pbind_def emit_def lift_result_def)
  from a3 have p: "platform_id env \<in> set supported_platforms"
    by (auto simp: assert_platform_def lift_result_def split: if_splits)
  from provision_gradle_Inr [OF k a4] have g: "g = declared_gradle_path env"
    and ge: "files w4 g \<noteq> None" by blast+
  from provision_vscode_java_Inr [OF k a5] obtain vdir where
    dv: "declared_vscode_java env rd = Inr (vdir, vj)"
    and ve: "all_exist (vscode_java_required vdir vj) (files w5)"
    and x5: "extends (files w4) (files w5)" by blast
  from provision_intellicode_Inr [OF k a6 [unfolded jm]] obtain idir where
    di: "declared_intellicode env rd = Inr (idir, jar, members)"
    and ie: "all_exist [idir, jar, members] (files w6)"
    and x6: "extends (files w5) (files w6)" by blast
  from a7 jm have paths: "paths = \<lparr>gradle_path = g,
              lombok_jar_path = vj_lombok_jar_path vj,
              jre_path = vj_jre_path vj,
              jre_home_path = vj_jre_home_path vj,
              jdtls_launcher_jar_path = vj_jdtls_launcher_jar_path vj,
              jdtls_readonly_config_path = vj_jdtls_readonly_config_path vj,
              intellicode_jar_path = jar,
              intellisense_members_path = members\<rparr>"
    and w': "w' = w6"
    by (auto simp: lift_result_def)
  from ge x5 x6 have "files w6 g \<noteq> None" by (auto simp: extends_def)
  moreover from ve x6 have "all_exist (vscode_java_required vdir vj) (files w6)"
    by (blast intro: extends_all_exist)
  ultimately have "all_exist (declared_gradle_path env # vscode_java_required vdir vj
                                 @ [idir, jar, members]) (files w6)"
    using ie g by (simp add: all_exist_append)
  with m dv di have "provisioned env (files w')"
    by (simp add: provisioned_def w' del: all_exist.simps)
  moreover from m dv di have "declared_paths env = Inr paths"
    by (simp add: declared_paths_def and_then_def paths g)
  ultimately show ?thesis using p by simp
qed

lemma online_keeps_files: "keeps_files online_provision_env"
  by (auto simp: keeps_files_def online_provision_env_def)

lemmas provision_defs =
  setupRuntimeDependencies_def provision_artifacts_def provision_gradle_def
  provision_vscode_java_def provision_intellicode_def read_manifest_def parsed_manifest_def
  manifest_file_def del_description_def static_dir_def assert_platform_def supported_platforms_def
  read_entry_def path_field_def field_def pbind_def lift_result_def emit_def path_exists_def
  assert_exists_def os_makedirs_def makedirs_def os_chmod_def download_def and_then_def
  dict_get_def dict_has_def Let_def

lemma online_first_call:
  "fst (setupRuntimeDependencies online_provision_env empty_world) = Inr example_paths
   \<and> filter is_download (trace (snd (setupRuntimeDependencies online_provision_env empty_world)))
      = [Download (JStr ''https://g/gradle.zip'') ''/m/static'' (JStr ''zip''),
         Download (JStr ''https://v/java.vsix'') ''/m/static/vj'' (JStr ''zip''),
         Download (JStr ''https://i/ic.vsix'') ''/m/static/ic'' (JStr ''zip'')]"
  by (simp add: provision_defs online_provision_env_def example_provision_env_def
      example_manifest_def example_entries_def example_required_paths_def empty_world_def
      example_paths_def extracted_def)


text \<open>
  C3. On a supported platform and a file system in which every declared artifact path
  and required sub-path exists, \<^verbatim>\<open>setupRuntimeDependencies\<close> returns the declared
  paths and performs no download; the file system it leaves is provisioned again, and a
  second call returns the same value, again without a download. And after any call that
  returns (it may have downloaded), when extraction only adds files, the backend is
  provisioned: the next call returns the same value and performs no download.
\<close>

theorem C3_idempotent:
  "(platform_id env \<in> set supported_platforms \<and> provisioned env (files w) \<longrightarrow>
     (\<exists>paths. declared_paths env = Inr paths)
   \<and> fst (setupRuntimeDependencies env w) = declared_paths env
   \<and> filter is_download (new_actions w (snd (setupRuntimeDependencies env w))) = []
   \<and> provisioned env (files (snd (setupRuntimeDependencies env w)))
   \<and> fst (setupRuntimeDependencies env (snd (setupRuntimeDependencies env w)))
       = fst (setupRuntimeDependencies env w)
   \<and> filter is_download (new_actions (snd (setupRuntimeDependencies env w))
         (snd (setupRuntimeDependencies env (snd (setupRuntimeDependencies env w))))) = [])
   \<and> (keeps_files env \<and> fst (setupRuntimeDependencies env w) = Inr paths \<longrightarrow>
       provisioned env (files (snd (setupRuntimeDependencies env w)))
     \<and> fst (setupRuntimeDependencies env (snd (setupRuntimeDependencies env w))) = Inr paths
     \<and> filter is_download (new_actions (snd (setupRuntimeDependencies env w))
         (snd (setupRuntimeDependencies env (snd (setupRuntimeDependencies env w))))) = [])"
proof (rule conjI; rule impI)
  assume a: "platform_id env \<in> set supported_platforms \<and> provisioned env (files w)"
  then have p: "platform_id env \<in> set supported_platforms" and v: "provisioned env (files w)"
    by simp_all
  from setup_provisioned_call [OF p v] obtain paths vdir idir where
    d: "declared_paths env = Inr paths"
    and s1: "setupRuntimeDependencies env w =
             (Inr paths, w\<lparr>files := files_after env vdir (jre_path paths) idir (files w),
                           trace := trace w @ actions_provisioned env vdir (jre_path paths) idir\<rparr>)"
    by blast
  let ?w1 = "w\<lparr>files := files_after env vdir (jre_path paths) idir (files w),
                           trace := trace w @ actions_provisioned env vdir (jre_path paths) idir\<rparr>"
  from v have v1: "provisioned env (files ?w1)"
    by (simp add: provisioned_after)
  from setup_provisioned_call [OF p v1] d obtain vdir' idir' where
    s2: "setupRuntimeDependencies env ?w1 =
             (Inr paths, ?w1\<lparr>files := files_after env vdir' (jre_path paths) idir' (files ?w1),
                           trace := trace ?w1 @ actions_provisioned env vdir' (jre_path paths) idir'\<rparr>)"
    by auto
  show "(\<exists>paths. declared_paths env = Inr paths)
   \<and> fst (setupRuntimeDependencies env w) = declared_paths env
   \<and> filter is_download (new_actions w (snd (setupRuntimeDependencies env w))) = []
   \<and> provisioned env (files (snd (setupRuntimeDependencies env w)))
   \<and> fst (setupRuntimeDependencies env (snd (setupRuntimeDependencies env w)))
       = fst (setupRuntimeDependencies env w)
   \<and> filter is_download (new_actions (snd (setupRuntimeDependencies env w))
         (snd (setupRuntimeDependencies env (snd (setupRuntimeDependencies env w))))) = []"
    unfolding s1 snd_conv fst_conv s2
    using d v1 by (simp add: new_actions_def filter_actions_provisioned)
next
  assume a: "keeps_files env \<and> fst (setupRuntimeDependencies env w) = Inr paths"
  obtain w1 where s1: "setupRuntimeDependencies env w = (Inr paths, w1)"
    using a by (cases "setupRuntimeDependencies env w") auto
  from a have k: "keeps_files env" by simp
  from setup_returns_provisioned [OF k s1] have p: "platform_id env \<in> set supported_platforms"
    and v1: "provisioned env (files w1)" and d: "declared_paths env = Inr paths"
    by simp_all
  from setup_provisioned_call [OF p v1] d obtain vdir idir where
    s2: "setupRuntimeDependencies env w1 =
             (Inr paths, w1\<lparr>files := files_after env vdir (jre_path paths) idir (files w1),
                           trace := trace w1 @ actions_provisioned env vdir (jre_path paths) idir\<rparr>)"
    by auto
  show "provisioned env (files (snd (setupRuntimeDependencies env w)))
     \<and> fst (setupRuntimeDependencies env (snd (setupRuntimeDependencies env w))) = Inr paths
     \<and> filter is_download (new_actions (snd (setupRuntimeDependencies env w))
         (snd (setupRuntimeDependencies env (snd (setupRuntimeDependencies env w))))) = []"
    unfolding s1 snd_conv fst_conv s2
    using v1 by (simp add: new_actions_def filter_actions_provisioned)
qed

theorem C3_idempotent_witness:
  "platform_id (example_provision_env ''linux-x64'') \<in> set supported_platforms
   \<and> provisioned (example_provision_env ''linux-x64'') (files provisioned_world)
   \<and> fst (setupRuntimeDependencies (example_provision_env ''linux-x64'') provisioned_world)
       = Inr example_paths
   \<and> filter is_download (new_actions provisioned_world
         (snd (setupRuntimeDependencies (example_provision_env ''linux-x64'') provisioned_world))) = []
   \<and> fst (setupRuntimeDependencies (example_provision_env ''linux-x64'')
         (snd (setupRuntimeDependencies (example_provision_env ''linux-x64'') provisioned_world)))
       = Inr example_paths
   \<and> keeps_files online_provision_env
   \<and> fst (setupRuntimeDependencies online_provision_env empty_world) = Inr example_paths
   \<and> filter is_download (trace (snd (setupRuntimeDependencies online_provision_env empty_world)))
      = [Download (JStr ''https://g/gradle.zip'') ''/m/static'' (JStr ''zip''),
         Download (JStr ''https://v/java.vsix'') ''/m/static/vj'' (JStr ''zip''),
         Download (JStr ''https://i/ic.vsix'') ''/m/static/ic'' (JStr ''zip'')]
   \<and> fst (setupRuntimeDependencies online_provision_env
         (snd (setupRuntimeDependencies online_provision_env empty_world))) = Inr example_paths
   \<and> filter is_download (new_actions (snd (setupRuntimeDependencies online_provision_env empty_world))
         (snd (setupRuntimeDependencies online_provision_env
            (snd (setupRuntimeDependencies online_provision_env empty_world))))) = []"
proof -
  have p: "platform_id (example_provision_env ''linux-x64'') \<in> set supported_platforms"
    by (simp add: example_provision_env_def supported_platforms_def)
  from C3_idempotent [of "example_provision_env ''linux-x64''" provisioned_world] p ex_prov ex_paths
  have 1: "fst (setupRuntimeDependencies (example_provision_env ''linux-x64'') provisioned_world)
       = Inr example_paths
   \<and> filter is_download (new_actions provisioned_world
         (snd (setupRuntimeDependencies (example_provision_env ''linux-x64'') provisioned_world))) = []
   \<and> fst (setupRuntimeDependencies (example_provision_env ''linux-x64'')
         (snd (setupRuntimeDependencies (example_provision_env ''linux-x64'') provisioned_world)))
       = Inr example_paths"
    by simp
  from C3_idempotent [of online_provision_env empty_world example_paths]
    online_keeps_files online_first_call
  have 2: "fst (setupRuntimeDependencies online_provision_env
         (snd (setupRuntimeDependencies online_provision_env empty_world))) = Inr example_paths
   \<and> filter is_download (new_actions (snd (setupRuntimeDependencies online_provision_env empty_world))
         (snd (setupRuntimeDependencies online_provision_env
            (snd (setupRuntimeDependencies online_provision_env empty_world))))) = []"
    by blast
  from p ex_prov 1 2 online_keeps_files online_first_call show ?thesis by blast
qed

section \<open>The handshake only adds actions and only sets flags\<close>

lemma grows_refl: "grows s s"
  by (auto simp: grows_def grows_by_def intro: exI [of _ "[]"])

lemma grows_by_trans: "grows_by s a s1 \<Longrightarrow> grows_by s1 b s2 \<Longrightarrow> grows_by s (a @ b) s2"
  by (auto simp: grows_by_def)

lemma grows_trans: "grows s s1 \<Longrightarrow> grows s1 s2 \<Longrightarrow> grows s s2"
  unfolding grows_def by (blast intro: grows_by_trans)

lemma grows_by_record:
  "handshake_action a \<Longrightarrow> handler_ok a \<Longrightarrow> a \<noteq> intellicode_set \<Longrightarrow> a \<noteq> service_ready_set
     \<Longrightarrow> grows_by s [a] (record_action a s)"
  by (simp add: grows_by_def record_action_def)

lemma grows_record:
  "handshake_action a \<Longrightarrow> handler_ok a \<Longrightarrow> a \<noteq> intellicode_set \<Longrightarrow> a \<noteq> service_ready_set
     \<Longrightarrow> grows s (record_action a s)"
  unfolding grows_def by (blast intro: grows_by_record)

lemma grows_set_intellicode:
  "grows s (set_event IntellicodeEnableCommandAvailable ''client/registerCapability'' s)"
  by (auto simp: grows_def grows_by_def record_action_def intellicode_set_def service_ready_set_def
      intro!: exI [of _ "[intellicode_set]"])

lemma grows_set_service_ready: "grows s (set_event ServiceReady ''language/status'' s)"
  by (auto simp: grows_def grows_by_def record_action_def intellicode_set_def service_ready_set_def
      intro!: exI [of _ "[service_ready_set]"])

lemma grows_set_completions:
  "grows s (set_event CompletionsAvailable ''client/registerCapability'' s)"
  by (auto simp: grows_def grows_by_def record_action_def intellicode_set_def service_ready_set_def
      intro!: exI [of _ "[EventSet CompletionsAvailable ''client/registerCapability'']"])

lemma grows_register_completion: "register_completion r s = (res, s') \<Longrightarrow> grows s s'"
  by (auto simp: register_completion_def grows_refl grows_set_completions
      simp del: set_event.simps split: sum.splits if_splits)

lemma grows_register_execute_command: "register_execute_command r s = (res, s') \<Longrightarrow> grows s s'"
  by (auto simp: register_execute_command_def grows_refl grows_set_intellicode
      simp del: set_event.simps split: sum.splits if_splits)

lemma grows_register_one:
  assumes "register_one r s = (res, s')"
  shows "grows s s'"
proof (cases "py_getitem r ''method''")
  case (Inl e)
  with assms show ?thesis
    by (simp add: register_one_def grows_refl)
next
  case (Inr m)
  obtain res1 s1 where c:
    "(if m = JStr ''textDocument/completion'' then register_completion r s else (Inr (), s)) = (res1, s1)"
    by (cases "if m = JStr ''textDocument/completion'' then register_completion r s else (Inr (), s)")
  then have g1: "grows s s1"
    by (auto split: if_splits intro: grows_register_completion grows_refl)
  show ?thesis
  proof (cases res1)
    case (Inl e)
    with assms Inr c g1 show ?thesis
      by (simp add: register_one_def)
  next
    case r1: (Inr u)
    with assms Inr c have
      "(if m = JStr ''workspace/executeCommand'' then register_execute_command r s1 else (Inr (), s1))
         = (res, s')"
      by (simp add: register_one_def)
    then have "grows s1 s'"
      by (auto split: if_splits intro: grows_register_execute_command grows_refl)
    with g1 show ?thesis by (rule grows_trans)
  qed
qed

lemma grows_register_all: "register_all rs s = (res, s') \<Longrightarrow> grows s s'"
proof (induction rs arbitrary: s)
  case Nil
  then show ?case by (simp add: grows_refl)
next
  case (Cons r rs)
  obtain res1 s1 where o: "register_one r s = (res1, s1)"
    by (cases "register_one r s")
  then have g1: "grows s s1" by (rule grows_register_one)
  show ?case
  proof (cases res1)
    case (Inl e)
    with Cons.prems o g1 show ?thesis by simp
  next
    case (Inr u)
    with Cons.prems o have "register_all rs s1 = (res, s')" by simp
    then have "grows s1 s'" by (rule Cons.IH)
    with g1 show ?thesis by (rule grows_trans)
  qed
qed

lemma grows_register_capability_handler:
  assumes "register_capability_handler params s = (res, s')"
  shows "grows s s'"
proof (cases "\<exists>rs. py_contains ''registrations'' params = Inr True
                \<and> and_then (py_getitem params ''registrations'') py_iter = Inr rs")
  case False
  with assms have "s' = s"
    by (auto simp: register_capability_handler_def split: sum.splits if_splits)
  then show ?thesis by (simp add: grows_refl)
next
  case True
  then obtain rs where c: "py_contains ''registrations'' params = Inr True"
    and i: "and_then (py_getitem params ''registrations'') py_iter = Inr rs"
    by blast
  obtain r1 s1 where r: "register_all rs s = (r1, s1)"
    by (cases "register_all rs s")
  then have g: "grows s s1" by (rule grows_register_all)
  from assms c i r have "s' = s1"
    by (cases r1) (simp_all add: register_capability_handler_def)
  with g show ?thesis by simp
qed

lemma grows_lang_status_handler: "lang_status_handler params s = (res, s') \<Longrightarrow> grows s s'"
  by (auto simp: lang_status_handler_def grows_refl grows_set_service_ready
      simp del: set_event.simps split: sum.splits if_splits)

lemma grows_execute_client_command_handler:
  "execute_client_command_handler params s = (res, s') \<Longrightarrow> grows s s'"
  by (auto simp: execute_client_command_handler_def grows_refl split: sum.splits if_splits)

lemma grows_window_log_message: "window_log_message params s = (res, s') \<Longrightarrow> grows s s'"
  by (auto simp: window_log_message_def intellicode_set_def service_ready_set_def
      intro!: grows_record)

lemma grows_do_nothing: "do_nothing params s = (res, s') \<Longrightarrow> grows s s'"
  by (auto simp: do_nothing_def grows_refl)

lemma grows_reply: "grows s (record_action (Reply m v) s)"
  by (rule grows_record) (simp_all add: intellicode_set_def service_ready_set_def)

lemma grows_reply_not_supported: "grows s (record_action (ReplyNotSupported m) s)"
  by (rule grows_record) (simp_all add: intellicode_set_def service_ready_set_def)

lemma grows_request_handler:
  "request_handler m = Some h \<Longrightarrow> h params s = (res, s') \<Longrightarrow> grows s s'"
  by (auto simp: request_handler_def split: if_splits
      intro: grows_register_capability_handler grows_execute_client_command_handler)

lemma grows_notification_handler:
  "notification_handler m = Some h \<Longrightarrow> h params s = (res, s') \<Longrightarrow> grows s s'"
  by (auto simp: notification_handler_def split: if_splits
      intro: grows_lang_status_handler grows_window_log_message grows_do_nothing)

lemma grows_dispatch:
  assumes "dispatch frame s = (res, s')"
  shows "grows s s'"
proof (cases frame)
  case (Response r)
  with assms show ?thesis by (simp add: dispatch_def grows_refl)
next
  case (Request m p)
  show ?thesis
  proof (cases "request_handler m")
    case None
    with assms Request show ?thesis
      by (auto simp: dispatch_def grows_reply_not_supported)
  next
    case (Some h)
    obtain r1 s1 where c: "h p s = (r1, s1)"
      by (cases "h p s")
    with Some have g1: "grows s s1" by (rule grows_request_handler)
    from assms Request Some c have "s' = s1 \<or> (\<exists>v. s' = record_action (Reply m v) s1)"
      by (cases r1) (auto simp: dispatch_def)
    with g1 show ?thesis
      by (auto intro: grows_trans [OF g1 grows_reply])
  qed
next
  case (Notification m p)
  show ?thesis
  proof (cases "notification_handler m")
    case None
    with assms Notification show ?thesis
      by (auto simp: dispatch_def grows_refl)
  next
    case (Some h)
    obtain r1 s1 where c: "h p s = (r1, s1)"
      by (cases "h p s")
    with Some have g1: "grows s s1" by (rule grows_notification_handler)
    from assms Notification Some c have "s' = s1"
      by (cases r1) (auto simp: dispatch_def)
    with g1 show ?thesis by simp
  qed
qed

lemma grows_receive: "grows s (record_action (ReceiveResponse v) s)"
  by (rule grows_record) (simp_all add: intellicode_set_def service_ready_set_def)

lemma await_response_dispatch:
  "\<forall>r. frame \<noteq> Response r \<Longrightarrow>
     await_response (frame # rest) s =
       (case dispatch frame s of
          (Inl e, s1) \<Rightarrow> (Raised e, s1, rest)
        | (Inr u, s1) \<Rightarrow> await_response rest s1)"
  by (cases frame) simp_all

lemma await_response_grows:
  "await_response inbox s = (res, s', inbox') \<Longrightarrow>
     (case res of
        Done v \<Rightarrow> \<exists>s1. grows s s1 \<and> s' = record_action (ReceiveResponse v) s1
      | Raised e \<Rightarrow> grows s s'
      | Hangs \<Rightarrow> grows s s')"
proof (induction inbox arbitrary: s)
  case Nil
  then show ?case by (auto simp: grows_refl)
next
  case (Cons frame rest)
  show ?case
  proof (cases "\<exists>r. frame = Response r")
    case True
    then obtain r where f: "frame = Response r" by blast
    show ?thesis
    proof (cases r)
      case (Inl e)
      with Cons.prems f show ?thesis by (auto simp: grows_refl)
    next
      case (Inr v)
      with Cons.prems f have "grows s s \<and> s' = record_action (ReceiveResponse v) s"
        and "res = Done v"
        by (simp_all add: grows_refl)
      then show ?thesis by auto
    qed
  next
    case False
    then have eq: "await_response (frame # rest) s =
       (case dispatch frame s of
          (Inl e, s1) \<Rightarrow> (Raised e, s1, rest)
        | (Inr u, s1) \<Rightarrow> await_response rest s1)"
      by (intro await_response_dispatch) simp
    obtain r1 s1 where d: "dispatch frame s = (r1, s1)"
      by (cases "dispatch frame s")
    then have g: "grows s s1" by (rule grows_dispatch)
    show ?thesis
    proof (cases r1)
      case (Inl e)
      with Cons.prems eq d g show ?thesis by auto
    next
      case (Inr u)
      with Cons.prems eq d have "await_response rest s1 = (res, s', inbox')" by simp
      then have "(case res of
        Done v \<Rightarrow> \<exists>s2. grows s1 s2 \<and> s' = record_action (ReceiveResponse v) s2
      | Raised e \<Rightarrow> grows s1 s'
      | Hangs \<Rightarrow> grows s1 s')" by (rule Cons.IH)
      with g show ?thesis
        by (cases res) (auto intro: grows_trans)
    qed
  qed
qed

lemma await_event_grows:
  "await_event is_set inbox s = (res, s', inbox') \<Longrightarrow> grows s s' \<and> (res = Done () \<longrightarrow> is_set s')"
proof (induction inbox arbitrary: s)
  case Nil
  then show ?case by (auto simp: grows_refl split: if_splits)
next
  case (Cons frame rest)
  show ?case
  proof (cases "is_set s")
    case True
    with Cons.prems show ?thesis by (auto simp: grows_refl)
  next
    case False
    obtain r1 s1 where d: "dispatch frame s = (r1, s1)"
      by (cases "dispatch frame s")
    then have g: "grows s s1" by (rule grows_dispatch)
    show ?thesis
    proof (cases r1)
      case (Inl e)
      with Cons.prems False d g show ?thesis by auto
    next
      case (Inr u)
      with Cons.prems False d have "await_event is_set rest s1 = (res, s', inbox')" by simp
      then have "grows s1 s' \<and> (res = Done () \<longrightarrow> is_set s')" by (rule Cons.IH)
      with g show ?thesis by (auto intro: grows_trans)
    qed
  qed
qed

lemma proc_growsD: "proc_grows m \<Longrightarrow> m s i = (res, s', i') \<Longrightarrow> grows s s'"
  unfolding proc_grows_def by blast

lemma seq_cases:
  assumes "seq m f s i = (res, s', i')"
  obtains (stop) e where "m s i = (Raised e, s', i')" "res = Raised e"
    | (hang) "m s i = (Hangs, s', i')" "res = Hangs"
    | (go) x s1 i1 where "m s i = (Done x, s1, i1)" "f x s1 i1 = (res, s', i')"
proof (cases "m s i")
  case (fields r1 s1 i1)
  with assms show ?thesis
    by (cases r1) (auto simp: seq_def intro: that)
qed

lemma seq_Done:
  assumes "seq m f s i = (Done y, s', i')"
  obtains x s1 i1 where "m s i = (Done x, s1, i1)" "f x s1 i1 = (Done y, s', i')"
  using assms by (rule seq_cases) auto

lemma proc_grows_seq:
  assumes m: "proc_grows m" and f: "\<And>x. proc_grows (f x)"
  shows "proc_grows (seq m f)"
  unfolding proc_grows_def
proof (intro allI impI)
  fix s i res s' i'
  assume "seq m f s i = (res, s', i')"
  then show "grows s s'"
  proof (cases rule: seq_cases)
    case (stop e)
    with m show ?thesis by (blast dest: proc_growsD)
  next
    case hang
    with m show ?thesis by (blast dest: proc_growsD)
  next
    case (go x s1 i1)
    from proc_growsD [OF m go(1)] proc_growsD [OF f go(2)] show ?thesis
      by (rule grows_trans)
  qed
qed

lemma proc_grows_act:
  "handshake_action a \<Longrightarrow> handler_ok a \<Longrightarrow> a \<noteq> intellicode_set \<Longrightarrow> a \<noteq> service_ready_set
     \<Longrightarrow> proc_grows (act a)"
  by (auto simp: proc_grows_def act_def grows_record)

lemma proc_grows_check: "proc_grows (check r)"
  by (auto simp: proc_grows_def check_def grows_refl split: sum.splits)

lemma proc_grows_assert_that: "proc_grows (assert_that b)"
  by (simp add: assert_that_def proc_grows_check)

lemma proc_grows_may_raise: "proc_grows (may_raise r)"
  by (simp add: may_raise_def proc_grows_check)

lemma proc_grows_wait_for: "proc_grows (wait_for is_set)"
  by (auto simp: proc_grows_def wait_for_def dest: await_event_grows)

lemma proc_grows_await_response: "proc_grows (\<lambda>s inbox. await_response inbox s)"
  unfolding proc_grows_def
proof (intro allI impI)
  fix s i res s' i'
  assume a: "await_response i s = (res, s', i')"
  from await_response_grows [OF a] show "grows s s'"
    by (cases res) (auto intro: grows_trans grows_receive)
qed

lemma proc_grows_send_request:
  "handshake_action a \<Longrightarrow> handler_ok a \<Longrightarrow> a \<noteq> intellicode_set \<Longrightarrow> a \<noteq> service_ready_set
     \<Longrightarrow> proc_grows (send_request a)"
  unfolding send_request_def
  by (intro proc_grows_seq proc_grows_act proc_grows_await_response)

lemmas quiet = intellicode_set_def service_ready_set_def

lemma proc_grows_register_handlers: "proc_grows register_handlers"
  unfolding register_handlers_def
  by (intro proc_grows_seq proc_grows_act) (simp_all add: quiet)

lemma proc_grows_initialize: "proc_grows (initialize env self)"
  unfolding initialize_def
  by (intro proc_grows_seq proc_grows_act proc_grows_may_raise proc_grows_send_request)
    (simp_all add: quiet)

lemma proc_grows_become_ready: "proc_grows (become_ready env self)"
  unfolding become_ready_def
  by (intro proc_grows_seq proc_grows_act proc_grows_check proc_grows_assert_that
      proc_grows_wait_for proc_grows_send_request)
    (simp_all add: quiet)

lemma proc_grows_handshake: "proc_grows (handshake env self)"
  unfolding handshake_def
  by (intro proc_grows_seq proc_grows_initialize proc_grows_check proc_grows_become_ready)

lemma act_Done: "act a s i = (res, s', i') \<Longrightarrow> res = Done () \<and> s' = record_action a s \<and> i' = i"
  by (auto simp: act_def)

lemma check_Done: "check r s i = (Done x, s', i') \<Longrightarrow> r = Inr x \<and> s' = s \<and> i' = i"
  by (auto simp: check_def split: sum.splits)

lemma assert_that_Done: "assert_that b s i = (Done x, s', i') \<Longrightarrow> b \<and> s' = s \<and> i' = i"
  by (auto simp: assert_that_def dest!: check_Done split: if_splits)

lemma send_request_Done:
  assumes "send_request a s i = (Done r, s', i')"
  shows "\<exists>s1. grows (record_action a s) s1 \<and> s' = record_action (ReceiveResponse r) s1"
proof -
  from assms obtain u s0 i0 where 1: "act a s i = (Done u, s0, i0)"
    and 2: "await_response i0 s0 = (Done r, s', i')"
    unfolding send_request_def by (rule seq_Done)
  from act_Done [OF 1] have "s0 = record_action a s" by simp
  with await_response_grows [OF 2] show ?thesis by simp
qed

lemma become_ready_Done:
  assumes "become_ready env self s i = (Done (), s', i')"
  shows "\<exists>pre mid r post.
           actions s' = actions s @ pre
              @ SendExecuteCommand (enable_command
                  (intellisense_members_path (jdtls_runtime_dependency_paths self)))
              # mid @ ReceiveResponse r # post
         \<and> (intellicode_enable_command_available s \<or> intellicode_set \<in> set pre)
         \<and> py_truthy r
         \<and> (service_ready_event s \<or> service_ready_set \<in> set (pre @ mid @ post))"
proof -
  let ?cmd = "SendExecuteCommand (enable_command
                  (intellisense_members_path (jdtls_runtime_dependency_paths self)))"
  from assms obtain u1 s1 i1 where a1: "act NotifyInitialized s i = (Done u1, s1, i1)"
    and r1: "seq (check (get_path [''initializationOptions'', ''settings''] (JObj (initialize_params self)))) (\<lambda>settings.
     seq (act (NotifyDidChangeConfiguration (JObj [(''settings'', settings)]))) (\<lambda>_.
     seq (wait_for intellicode_enable_command_available) (\<lambda>_.
     seq (assert_that (members_path_exists env)) (\<lambda>_.
     seq (send_request ?cmd) (\<lambda>intellicode_enable_result.
     seq (assert_that (py_truthy intellicode_enable_result)) (\<lambda>_.
       wait_for service_ready_event)))))) s1 i1 = (Done (), s', i')"
    unfolding become_ready_def by (rule seq_Done)
  from r1 obtain settings s2 i2 where
    a2: "check (get_path [''initializationOptions'', ''settings''] (JObj (initialize_params self))) s1 i1
           = (Done settings, s2, i2)"
    and r2: "seq (act (NotifyDidChangeConfiguration (JObj [(''settings'', settings)]))) (\<lambda>_.
     seq (wait_for intellicode_enable_command_available) (\<lambda>_.
     seq (assert_that (members_path_exists env)) (\<lambda>_.
     seq (send_request ?cmd) (\<lambda>intellicode_enable_result.
     seq (assert_that (py_truthy intellicode_enable_result)) (\<lambda>_.
       wait_for service_ready_event))))) s2 i2 = (Done (), s', i')"
    by (rule seq_Done)
  from r2 obtain u3 s3 i3 where
    a3: "act (NotifyDidChangeConfiguration (JObj [(''settings'', settings)])) s2 i2 = (Done u3, s3, i3)"
    and r3: "seq (wait_for intellicode_enable_command_available) (\<lambda>_.
     seq (assert_that (members_path_exists env)) (\<lambda>_.
     seq (send_request ?cmd) (\<lambda>intellicode_enable_result.
     seq (assert_that (py_truthy intellicode_enable_result)) (\<lambda>_.
       wait_for service_ready_event)))) s3 i3 = (Done (), s', i')"
    by (rule seq_Done)
  from r3 obtain u4 s4 i4 where
    a4: "wait_for intellicode_enable_command_available s3 i3 = (Done u4, s4, i4)"
    and r4: "seq (assert_that (members_path_exists env)) (\<lambda>_.
     seq (send_request ?cmd) (\<lambda>intellicode_enable_result.
     seq (assert_that (py_truthy intellicode_enable_result)) (\<lambda>_.
       wait_for service_ready_event))) s4 i4 = (Done (), s', i')"
    by (rule seq_Done)
  from r4 obtain u5 s5 i5 where
    a5: "assert_that (members_path_exists env) s4 i4 = (Done u5, s5, i5)"
    and r5: "seq (send_request ?cmd) (\<lambda>intellicode_enable_result.
     seq (assert_that (py_truthy intellicode_enable_result)) (\<lambda>_.
       wait_for service_ready_event)) s5 i5 = (Done (), s', i')"
    by (rule seq_Done)
  from r5 obtain r s6 i6 where
    a6: "send_request ?cmd s5 i5 = (Done r, s6, i6)"
    and r6: "seq (assert_that (py_truthy r)) (\<lambda>_. wait_for service_ready_event) s6 i6
               = (Done (), s', i')"
    by (rule seq_Done)
  from r6 obtain u7 s7 i7 where
    a7: "assert_that (py_truthy r) s6 i6 = (Done u7, s7, i7)"
    and a8: "wait_for service_ready_event s7 i7 = (Done (), s', i')"
    by (rule seq_Done)
  from act_Done [OF a1] have s1: "s1 = record_action NotifyInitialized s" by simp
  from check_Done [OF a2] have s2: "s2 = s1" by simp
  from act_Done [OF a3] have
    s3: "s3 = record_action (NotifyDidChangeConfiguration (JObj [(''settings'', settings)])) s2"
    by simp
  from a4 have "await_event intellicode_enable_command_available i3 s3 = (Done u4, s4, i4)"
    by (simp add: wait_for_def)
  from await_event_grows [OF this] obtain n4 where g4: "grows_by s3 n4 s4"
    and f4: "intellicode_enable_command_available s4"
    by (auto simp: grows_def)
  from assert_that_Done [OF a5] have s5: "s5 = s4" by simp
  from send_request_Done [OF a6] obtain s6' mid where
    g6: "grows_by (record_action ?cmd s5) mid s6'"
    and s6: "s6 = record_action (ReceiveResponse r) s6'"
    by (auto simp: grows_def)
  from assert_that_Done [OF a7] have t: "py_truthy r" and s7: "s7 = s6" by simp_all
  from a8 have "await_event service_ready_event i7 s7 = (Done (), s', i')"
    by (simp add: wait_for_def)
  from await_event_grows [OF this] obtain post where g8: "grows_by s7 post s'"
    and f8: "service_ready_event s'"
    by (auto simp: grows_def)
  let ?pre = "NotifyInitialized # NotifyDidChangeConfiguration (JObj [(''settings'', settings)]) # n4"
  have "actions s' = actions s @ ?pre @ ?cmd # mid @ ReceiveResponse r # post"
    using g4 g6 g8 by (simp add: grows_by_def s1 s2 s3 s5 s6 s7 record_action_def)
  moreover have "intellicode_enable_command_available s \<or> intellicode_set \<in> set ?pre"
    using g4 f4 by (auto simp: grows_by_def s1 s2 s3 record_action_def)
  moreover have "service_ready_event s \<or> service_ready_set \<in> set (?pre @ mid @ post)"
    using g4 g6 g8 f8 by (auto simp: grows_by_def s1 s2 s3 s5 s6 s7 record_action_def)
  ultimately show ?thesis using t by blast
qed

section \<open>The ready scope\<close>

lemma register_handlers_eq:
  "seq register_handlers (\<lambda>_. super_scope block) s i = leave_super (block (registered s) i)"
  by (simp add: register_handlers_def seq_def act_def record_action_def registered_def
      super_scope_def)

lemma start_server_eq:
  "start_server env self s i
     = leave_super (seq (handshake env self) (\<lambda>_. ready_scope env) (registered s) i)"
  by (simp add: start_server_def register_handlers_eq)

lemma grows_registered: "grows s (registered s)"
  unfolding grows_def grows_by_def registered_def
  by (rule exI [of _ "[OnRequest ''client/registerCapability'', OnNotification ''language/status'',
         OnNotification ''window/logMessage'', OnRequest ''workspace/executeClientCommand'',
         OnNotification ''$/progress'', OnNotification ''textDocument/publishDiagnostics'',
         OnNotification ''language/actionableNotification'', SuperEnter]"])
    (simp add: quiet)

lemma ready_scope_eq:
  "ready_scope env s i =
     (case body env of
        Some e \<Rightarrow> (Raised e, s\<lparr>actions := actions s @ [Yield]\<rparr>, i)
      | None \<Rightarrow>
          (case shutdown_result env of
             Some e \<Rightarrow> (Raised e, s\<lparr>actions := actions s @ [Yield, ServerShutdown]\<rparr>, i)
           | None \<Rightarrow>
               (case stop_result env of
                  Some e \<Rightarrow> (Raised e, s\<lparr>actions := actions s @ [Yield, ServerShutdown, ServerStop]\<rparr>, i)
                | None \<Rightarrow> (Done (), s\<lparr>actions := actions s @ [Yield, ServerShutdown, ServerStop]\<rparr>, i))))"
  by (simp add: ready_scope_def seq_def act_def may_raise_def check_def record_action_def
      split: option.splits)

lemma ready_scope_actions:
  assumes "ready_scope env s i = (res, s', i')"
  shows "res \<noteq> Hangs \<and> (\<exists>rest. actions s' = actions s @ Yield # rest
           \<and> (body env \<noteq> None \<longrightarrow> rest = []))"
  using assms unfolding ready_scope_eq
  by (auto split: option.splits)

lemma leave_super_actions:
  "leave_super (res, s, i) = (res', s', i') \<Longrightarrow>
     res' = res \<and> (actions s' = actions s \<or> actions s' = actions s @ [SuperExit])"
  by (cases res) (auto simp: leave_super_def record_action_def)

lemma grows_no_scope_action:
  "grows s s' \<Longrightarrow> a \<in> set (actions s') \<Longrightarrow> \<not> handshake_action a \<Longrightarrow> a \<in> set (actions s)"
  by (auto simp: grows_def grows_by_def list_all_iff)

text \<open>When the caller's block raises, no session performs \<^verbatim>\<open>shutdown\<close> or \<^verbatim>\<open>stop\<close>.\<close>

lemma caller_raises_no_shutdown:
  assumes b: "body env = Some e"
    and r: "start_server env self new_session inbox = (res, s', inbox')"
  shows "ServerShutdown \<notin> set (actions s') \<and> ServerStop \<notin> set (actions s')"
proof -
  obtain h sh ih where H: "handshake env self (registered new_session) inbox = (h, sh, ih)"
    by (cases "handshake env self (registered new_session) inbox")
  from proc_growsD [OF proc_grows_handshake H] grows_registered [of new_session]
  have g: "grows new_session sh" by (blast intro: grows_trans)
  have n: "a \<in> set (actions sh) \<Longrightarrow> handshake_action a" for a
    using grows_no_scope_action [OF g, of a] by (auto simp: new_session_def)
  obtain r2 s2 i2 where S: "seq (handshake env self) (\<lambda>_. ready_scope env) (registered new_session) inbox
      = (r2, s2, i2)"
    by (cases "seq (handshake env self) (\<lambda>_. ready_scope env) (registered new_session) inbox")
  have "actions s2 = actions sh \<or> actions s2 = actions sh @ [Yield]"
  proof (cases h)
    case (Done u)
    with H S have "ready_scope env sh ih = (r2, s2, i2)" by (simp add: seq_def)
    with b show ?thesis by (auto simp: ready_scope_eq)
  next
    case (Raised x)
    with H S show ?thesis by (simp add: seq_def)
  next
    case Hangs
    with H S show ?thesis by (simp add: seq_def)
  qed
  moreover from r S have "actions s' = actions s2 \<or> actions s' = actions s2 @ [SuperExit]"
    using leave_super_actions [of r2 s2 i2 res s' inbox'] by (simp add: start_server_eq)
  ultimately show ?thesis
    using n [of ServerShutdown] n [of ServerStop] by auto
qed

lemmas session_defs =
  start_server_def register_handlers_def super_scope_def leave_super_def handshake_def
  initialize_def become_ready_def ready_scope_def seq_def act_def check_def assert_that_def
  may_raise_def send_request_def wait_for_def record_action_def dispatch_def
  request_handler_def notification_handler_def register_capability_handler_def
  register_one_def register_execute_command_def register_completion_def
  lang_status_handler_def check_capabilities_def enable_command_def and_then_def
  dict_get_def dict_has_def new_session_def

lemmas example_defs =
  example_session_env_def example_server_def example_frames_def example_init_response_def
  intellicode_registration_def service_ready_notification_def example_paths_def

lemma example_run_caller_raises:
  "start_server (example_session_env (Some (OtherError ''caller''))) example_server
      new_session example_frames
     = (Raised (OtherError ''caller''), ready_session (handshake_actions @ [Yield, SuperExit]), [])"
  by (simp add: session_defs example_defs handshake_actions_def ready_session_def)

lemma example_run_caller_returns:
  "start_server (example_session_env None) example_server new_session example_frames
     = (Done (),
        ready_session (handshake_actions @ [Yield, ServerShutdown, ServerStop, SuperExit]), [])"
  by (simp add: session_defs example_defs handshake_actions_def ready_session_def)

text \<open>
  C1. The claim: \<^verbatim>\<open>shutdown\<close> followed by \<^verbatim>\<open>stop\<close> runs on every exit from the
  ready scope, also when the caller's block raises. With a server that brings the
  session to the \<^verbatim>\<open>yield\<close> and a caller's block that raises, the exception leaves
  \<^verbatim>\<open>start_server\<close> and neither call is made; when the block returns, both are made.
\<close>

theorem C1_caller_exception_skips_shutdown:
  "fst (start_server (example_session_env (Some (OtherError ''caller''))) example_server
          new_session example_frames) = Raised (OtherError ''caller'')
   \<and> Yield \<in> set (actions (fst (snd (start_server (example_session_env (Some (OtherError ''caller'')))
          example_server new_session example_frames))))
   \<and> ServerShutdown \<notin> set (actions (fst (snd (start_server
          (example_session_env (Some (OtherError ''caller''))) example_server new_session example_frames))))
   \<and> ServerStop \<notin> set (actions (fst (snd (start_server
          (example_session_env (Some (OtherError ''caller''))) example_server new_session example_frames))))
   \<and> fst (start_server (example_session_env None) example_server new_session example_frames) = Done ()
   \<and> ServerShutdown \<in> set (actions (fst (snd (start_server (example_session_env None)
          example_server new_session example_frames))))
   \<and> ServerStop \<in> set (actions (fst (snd (start_server (example_session_env None)
          example_server new_session example_frames))))"
  unfolding example_run_caller_raises example_run_caller_returns
  by (simp add: ready_session_def handshake_actions_def)


section \<open>The capabilities of the initialize response\<close>

lemma check_capabilities_iff:
  "check_capabilities r = Inr () \<longleftrightarrow> capabilities_as_assumed r"
proof (cases "py_getitem r ''capabilities''")
  case (Inl e)
  then show ?thesis
    by (simp add: check_capabilities_def capabilities_as_assumed_def and_then_def)
next
  case (Inr caps)
  show ?thesis
  proof (cases caps)
    case (JObj d)
    with Inr show ?thesis
      by (auto simp: check_capabilities_def capabilities_as_assumed_def and_then_def
          split: sum.splits)
  qed (use Inr in \<open>simp_all add: check_capabilities_def capabilities_as_assumed_def and_then_def\<close>)
qed

lemma handshake_after_initialize:
  assumes "initialize env self s inbox = (Done r, s1, inbox1)"
  shows "handshake env self s inbox =
           (case check_capabilities r of
              Inl e \<Rightarrow> (Raised e, s1, inbox1)
            | Inr u \<Rightarrow> become_ready env self s1 inbox1)"
  using assms by (simp add: handshake_def seq_def check_def split: sum.splits)

text \<open>
  C6. When the response to \<^verbatim>\<open>initialize\<close> has arrived: if it does not declare
  incremental synchronization (\<^verbatim>\<open>change == 2\<close>), or declares a completion provider or
  an execute-command provider, one of the three checks raises and \<^verbatim>\<open>start_server\<close>
  ends with that exception, having sent nothing after the request; if it is as assumed,
  \<^verbatim>\<open>start_server\<close> goes on with the \<^verbatim>\<open>initialized\<close> notification.
\<close>

theorem C6_capabilities_validated:
  "initialize env self (registered s) inbox = (Done init_response, s1, inbox1) \<longrightarrow>
     (\<not> capabilities_as_assumed init_response \<longrightarrow>
        (\<exists>e. check_capabilities init_response = Inl e
            \<and> start_server env self s inbox = (Raised e, record_action SuperExit s1, inbox1)))
   \<and> (capabilities_as_assumed init_response \<longrightarrow>
        start_server env self s inbox
          = leave_super (seq (become_ready env self) (\<lambda>_. ready_scope env) s1 inbox1))"
proof (intro impI conjI)
  assume i: "initialize env self (registered s) inbox = (Done init_response, s1, inbox1)"
  note h = handshake_after_initialize [OF i]
  {
    assume "\<not> capabilities_as_assumed init_response"
    then have "check_capabilities init_response \<noteq> Inr ()"
      by (simp add: check_capabilities_iff)
    then obtain e where e: "check_capabilities init_response = Inl e"
      by (cases "check_capabilities init_response") auto
    with h have "start_server env self s inbox = (Raised e, record_action SuperExit s1, inbox1)"
      by (simp add: start_server_eq seq_def leave_super_def)
    with e show "\<exists>e. check_capabilities init_response = Inl e
            \<and> start_server env self s inbox = (Raised e, record_action SuperExit s1, inbox1)"
      by blast
  }
  {
    assume "capabilities_as_assumed init_response"
    then have "check_capabilities init_response = Inr ()"
      by (simp add: check_capabilities_iff)
    with h show "start_server env self s inbox
          = leave_super (seq (become_ready env self) (\<lambda>_. ready_scope env) s1 inbox1)"
      by (simp add: start_server_eq seq_def)
  }
qed

theorem C6_capabilities_validated_witness:
  "initialize (example_session_env None) example_server (registered new_session)
       [Response (Inr full_sync_response)]
     = (Done full_sync_response, initialize_sent full_sync_response, [])
   \<and> \<not> capabilities_as_assumed full_sync_response
   \<and> check_capabilities full_sync_response = Inl (AssertionError [])
   \<and> start_server (example_session_env None) example_server new_session
        [Response (Inr full_sync_response)]
     = (Raised (AssertionError []), record_action SuperExit (initialize_sent full_sync_response), [])
   \<and> initialize (example_session_env None) example_server (registered new_session) example_frames
     = (Done example_init_response, initialize_sent example_init_response, tl example_frames)
   \<and> capabilities_as_assumed example_init_response
   \<and> start_server (example_session_env None) example_server new_session example_frames
     = leave_super (seq (become_ready (example_session_env None) example_server)
           (\<lambda>_. ready_scope (example_session_env None))
           (initialize_sent example_init_response) (tl example_frames))"
proof -
  have i1: "initialize (example_session_env None) example_server (registered new_session)
       [Response (Inr full_sync_response)]
     = (Done full_sync_response, initialize_sent full_sync_response, [])"
    by (simp add: initialize_def seq_def act_def may_raise_def check_def send_request_def
        record_action_def registered_def new_session_def example_session_env_def
        example_server_def initialize_sent_def handshake_actions_def)
  have n: "\<not> capabilities_as_assumed full_sync_response"
    by (simp add: capabilities_as_assumed_def full_sync_response_def dict_get_def and_then_def)
  have c: "check_capabilities full_sync_response = Inl (AssertionError [])"
    by (simp add: check_capabilities_def full_sync_response_def dict_get_def and_then_def)
  have i2: "initialize (example_session_env None) example_server (registered new_session) example_frames
     = (Done example_init_response, initialize_sent example_init_response, tl example_frames)"
    by (simp add: initialize_def seq_def act_def may_raise_def check_def send_request_def
        record_action_def registered_def new_session_def example_session_env_def
        example_server_def initialize_sent_def handshake_actions_def example_frames_def)
  have a: "capabilities_as_assumed example_init_response"
    by (simp add: capabilities_as_assumed_def example_init_response_def dict_get_def
        dict_has_def and_then_def)
  from C6_capabilities_validated [of "example_session_env None" example_server new_session
      "[Response (Inr full_sync_response)]" full_sync_response
      "initialize_sent full_sync_response" "[]"] i1 n c
  have 1: "start_server (example_session_env None) example_server new_session
        [Response (Inr full_sync_response)]
     = (Raised (AssertionError []), record_action SuperExit (initialize_sent full_sync_response), [])"
    by auto
  from C6_capabilities_validated [of "example_session_env None" example_server new_session
      example_frames example_init_response
      "initialize_sent example_init_response" "tl example_frames"] i2 a
  have 2: "start_server (example_session_env None) example_server new_session example_frames
     = leave_super (seq (become_ready (example_session_env None) example_server)
           (\<lambda>_. ready_scope (example_session_env None))
           (initialize_sent example_init_response) (tl example_frames))"
    by blast
  from i1 n c 1 i2 a 2 show ?thesis by blast
qed

section \<open>Readiness\<close>

lemma initialize_Done_grows:
  "initialize env self s i = (res, s1, i1) \<Longrightarrow> grows s s1"
  by (rule proc_growsD [OF proc_grows_initialize])

text \<open>
  C2, amended. When \<^verbatim>\<open>start_server\<close> yields, the actions before the \<^verbatim>\<open>yield\<close>
  are these, in this order: the handler of \<^verbatim>\<open>client/registerCapability\<close> has set the
  event for the command \<^verbatim>\<open>java.intellicode.enable\<close>; then the request that enables
  IntelliCode was sent; then its response arrived, with a true result; and the handler of
  \<^verbatim>\<open>language/status\<close> has set the event for the ready service somewhere before the
  \<^verbatim>\<open>yield\<close>. Every event is set by the handler of its message, and both flags are
  set in the session that results.
\<close>

theorem C2_ready_after_signals:
  "Yield \<in> set (actions (fst (snd (start_server env self new_session inbox)))) \<longrightarrow>
     (\<exists>pre mid r post rest.
        actions (fst (snd (start_server env self new_session inbox)))
          = pre @ SendExecuteCommand (enable_command
                (intellisense_members_path (jdtls_runtime_dependency_paths self)))
              # mid @ ReceiveResponse r # post @ Yield # rest
      \<and> intellicode_set \<in> set pre
      \<and> py_truthy r
      \<and> service_ready_set \<in> set (pre @ mid @ post)
      \<and> Yield \<notin> set (pre @ mid @ post)
      \<and> list_all handler_ok (pre @ mid @ post))
   \<and> intellicode_enable_command_available (fst (snd (start_server env self new_session inbox)))
   \<and> service_ready_event (fst (snd (start_server env self new_session inbox)))"
proof
  let ?cmd = "SendExecuteCommand (enable_command
                (intellisense_members_path (jdtls_runtime_dependency_paths self)))"
  obtain res sF iF where R: "start_server env self new_session inbox = (res, sF, iF)"
    by (cases "start_server env self new_session inbox")
  assume "Yield \<in> set (actions (fst (snd (start_server env self new_session inbox))))"
  with R have Y: "Yield \<in> set (actions sF)" by simp
  obtain h sh ih where H: "handshake env self (registered new_session) inbox = (h, sh, ih)"
    by (cases "handshake env self (registered new_session) inbox")
  from proc_growsD [OF proc_grows_handshake H] grows_registered [of new_session]
  have g: "grows new_session sh" by (blast intro: grows_trans)
  then have ok: "list_all handshake_action (actions sh)" "list_all handler_ok (actions sh)"
    by (auto simp: grows_def grows_by_def new_session_def)
  then have nY: "Yield \<notin> set (actions sh)"
    by (auto simp: list_all_iff)
  have hd: "h = Done ()"
  proof (rule ccontr)
    assume "h \<noteq> Done ()"
    with H have "seq (handshake env self) (\<lambda>_. ready_scope env) (registered new_session) inbox
        = (h, sh, ih)"
      by (cases h) (simp_all add: seq_def)
    with R have "actions sF = actions sh \<or> actions sF = actions sh @ [SuperExit]"
      using leave_super_actions [of h sh ih res sF iF] by (simp add: start_server_eq)
    with Y nY show False by auto
  qed
  obtain r2 s2 i2 where S: "ready_scope env sh ih = (r2, s2, i2)"
    by (cases "ready_scope env sh ih")
  from ready_scope_actions [OF S] obtain rest2 where
    a2: "actions s2 = actions sh @ Yield # rest2" by blast
  from S have f2: "intellicode_enable_command_available s2 = intellicode_enable_command_available sh"
    "service_ready_event s2 = service_ready_event sh"
    by (auto simp: ready_scope_eq split: option.splits)
  from H hd S have "seq (handshake env self) (\<lambda>_. ready_scope env) (registered new_session) inbox
        = (r2, s2, i2)"
    by (simp add: seq_def)
  with R have L: "leave_super (r2, s2, i2) = (res, sF, iF)"
    by (simp add: start_server_eq)
  from leave_super_actions [OF L] a2 obtain rest where
    aF: "actions sF = actions sh @ Yield # rest" by auto
  from L have fF: "intellicode_enable_command_available sF = intellicode_enable_command_available s2"
    "service_ready_event sF = service_ready_event s2"
    by (cases r2; auto simp: leave_super_def record_action_def)+
  from H hd obtain r0 s1 i1 where I: "initialize env self (registered new_session) inbox = (Done r0, s1, i1)"
    and B0: "seq (check (check_capabilities r0)) (\<lambda>_. become_ready env self) s1 i1 = (Done (), sh, ih)"
    unfolding handshake_def by (auto elim: seq_Done)
  from B0 obtain u s1' i1' where c: "check (check_capabilities r0) s1 i1 = (Done u, s1', i1')"
    and B1: "become_ready env self s1' i1' = (Done (), sh, ih)"
    by (rule seq_Done)
  from check_Done [OF c] B1 have B: "become_ready env self s1 i1 = (Done (), sh, ih)" by simp
  from initialize_Done_grows [OF I] grows_registered [of new_session]
  have "grows new_session s1" by (blast intro: grows_trans)
  then obtain n1 where g1: "grows_by new_session n1 s1" by (auto simp: grows_def)
  from become_ready_Done [OF B] obtain pre mid r post where
    ah: "actions sh = actions s1 @ pre @ ?cmd # mid @ ReceiveResponse r # post"
    and i: "intellicode_enable_command_available s1 \<or> intellicode_set \<in> set pre"
    and t: "py_truthy r"
    and v: "service_ready_event s1 \<or> service_ready_set \<in> set (pre @ mid @ post)"
    by blast
  from g1 have a1: "actions s1 = n1"
    and i1: "intellicode_enable_command_available s1 = (intellicode_set \<in> set n1)"
    and v1: "service_ready_event s1 = (service_ready_set \<in> set n1)"
    by (simp_all add: grows_by_def new_session_def)
  from g have fh: "intellicode_enable_command_available sh = (intellicode_set \<in> set (actions sh))"
    "service_ready_event sh = (service_ready_set \<in> set (actions sh))"
    by (auto simp: grows_def grows_by_def new_session_def)
  have 1: "actions sF = (n1 @ pre) @ ?cmd # mid @ ReceiveResponse r # post @ Yield # rest"
    using aF ah a1 by simp
  have 2: "intellicode_set \<in> set (n1 @ pre)"
    using i i1 by auto
  have 3: "service_ready_set \<in> set ((n1 @ pre) @ mid @ post)"
    using v v1 by auto
  have 4: "Yield \<notin> set ((n1 @ pre) @ mid @ post)"
    using nY ah a1 by auto
  have 5: "list_all handler_ok ((n1 @ pre) @ mid @ post)"
    using ok(2) ah a1 by simp
  have 6: "intellicode_enable_command_available sF" "service_ready_event sF"
    using fF f2 fh 2 3 ah a1 by auto
  show "(\<exists>pre mid r post rest.
        actions (fst (snd (start_server env self new_session inbox)))
          = pre @ ?cmd # mid @ ReceiveResponse r # post @ Yield # rest
      \<and> intellicode_set \<in> set pre
      \<and> py_truthy r
      \<and> service_ready_set \<in> set (pre @ mid @ post)
      \<and> Yield \<notin> set (pre @ mid @ post)
      \<and> list_all handler_ok (pre @ mid @ post))
   \<and> intellicode_enable_command_available (fst (snd (start_server env self new_session inbox)))
   \<and> service_ready_event (fst (snd (start_server env self new_session inbox)))"
    unfolding R fst_conv snd_conv
    using 1 2 3 4 5 6 t by blast
qed


lemma duplicate_run:
  "start_server (example_session_env None) example_server new_session duplicate_frames
     = (Done (),
        ready_session (take 15 handshake_actions @ intellicode_set # drop 15 handshake_actions
           @ [Yield, ServerShutdown, ServerStop, SuperExit]), [])"
  by (simp add: session_defs example_defs handshake_actions_def ready_session_def
      duplicate_frames_def intellicode_set_def)

text \<open>
  C2, as stated, fails in its last part: a server that registers the command in two
  registrations makes the handler set the event twice before the session is ready.
\<close>

theorem C2_counterexample:
  "fst (start_server (example_session_env None) example_server new_session duplicate_frames) = Done ()
   \<and> Yield \<in> set (actions (fst (snd
        (start_server (example_session_env None) example_server new_session duplicate_frames))))
   \<and> count_list (actions (fst (snd
        (start_server (example_session_env None) example_server new_session duplicate_frames))))
        (EventSet IntellicodeEnableCommandAvailable ''client/registerCapability'') = 2"
  unfolding duplicate_run
  by (simp add: ready_session_def handshake_actions_def intellicode_set_def)

theorem C2_ready_after_signals_witness:
  "Yield \<in> set (actions (fst (snd
      (start_server (example_session_env None) example_server new_session example_frames))))
   \<and> (\<exists>pre mid r post rest.
        actions (fst (snd (start_server (example_session_env None) example_server
            new_session example_frames)))
          = pre @ SendExecuteCommand (enable_command
                (intellisense_members_path (jdtls_runtime_dependency_paths example_server)))
              # mid @ ReceiveResponse r # post @ Yield # rest
      \<and> intellicode_set \<in> set pre
      \<and> py_truthy r
      \<and> service_ready_set \<in> set (pre @ mid @ post)
      \<and> Yield \<notin> set (pre @ mid @ post)
      \<and> list_all handler_ok (pre @ mid @ post))
   \<and> intellicode_enable_command_available (fst (snd
        (start_server (example_session_env None) example_server new_session example_frames)))
   \<and> service_ready_event (fst (snd
        (start_server (example_session_env None) example_server new_session example_frames)))"
proof -
  have y: "Yield \<in> set (actions (fst (snd
      (start_server (example_session_env None) example_server new_session example_frames))))"
    unfolding example_run_caller_returns by (simp add: ready_session_def)
  from C2_ready_after_signals [of "example_session_env None" example_server example_frames] y
  show ?thesis by blast
qed

end
